(* ===== verification/Prelude.thy ===== *)
theory Prelude
  imports Main "HOL-Library.Sublist" "HOL-Library.AList"
begin

text \<open>
  Shared vocabulary of the faucet development.
  \<^item> \<open>jval\<close>: the JavaScript values that reach the backend after \<open>JSON.parse\<close>, with the
    two operations the validator applies to them: truthiness and member access (member
    access on \<open>null\<close>/\<open>undefined\<close> is a \<open>TypeError\<close>, an \<open>Inl\<close> of the result).
  \<^item> \<open>'a store\<close> and \<open>write_outcome\<close>: the JSON files of the service
    (\<open>authorized_users.json\<close>, \<open>pending_credentials.json\<close>, \<open>last_block.json\<close>). A
    \<open>fs.writeFileSync\<close> either completes, fails before touching the file, or is torn
    (the file was truncated and only partly rewritten: ENOSPC, or a crash mid-write);
    a torn file no longer parses.
  \<^item> \<open>js_includes\<close>: \<open>String.prototype.includes\<close>, proved equal to \<open>sublist\<close>.
  \<^item> \<open>js_trim\<close>: \<open>String.prototype.trim\<close>; \<open>js_ws\<close> holds the JavaScript white space
    characters among the 8-bit characters (tab, line feed, vertical tab, form feed, carriage
    return, space and no-break space).
\<close>

named_theorems file_simps "characteristic equations of the file model"
named_theorems inv_intros "preservation lemmas of the component invariants"

subsection \<open>JavaScript values\<close>

datatype jval =
    JUndefined
  | JNull
  | JBool bool
  | JNum int
  | JStr string
  | JArr "jval list"
  | JObj "(string \<times> jval) list"

datatype js_error = TypeError

text \<open>\<open>if (v)\<close>: the falsy values are \<open>undefined\<close>, \<open>null\<close>, \<open>false\<close>, \<open>0\<close> and \<open>''\<close>.\<close>

fun js_truthy :: "jval \<Rightarrow> bool" where
  "js_truthy JUndefined = False"
| "js_truthy JNull = False"
| "js_truthy (JBool b) = b"
| "js_truthy (JNum n) = (n \<noteq> 0)"
| "js_truthy (JStr s) = (s \<noteq> [])"
| "js_truthy (JArr _) = True"
| "js_truthy (JObj _) = True"

text \<open>
  \<open>v.k\<close>. \<open>JSON.parse\<close> keeps the last of duplicate keys, hence the lookup in the reversed
  member list. Reading a property of a primitive yields \<open>undefined\<close> for every name the
  backend reads (none of them is a property of \<open>String.prototype\<close> or
  \<open>Number.prototype\<close>); reading one of \<open>null\<close> or \<open>undefined\<close> throws.
\<close>

fun js_member :: "jval \<Rightarrow> string \<Rightarrow> js_error + jval" where
  "js_member JUndefined k = Inl TypeError"
| "js_member JNull k = Inl TypeError"
| "js_member (JObj kvs) k = Inr (case map_of (rev kvs) k of None \<Rightarrow> JUndefined | Some v \<Rightarrow> v)"
| "js_member _ k = Inr JUndefined"

text \<open>\<open>a === b\<close> against a string literal.\<close>

fun js_str_eq :: "jval \<Rightarrow> string \<Rightarrow> bool" where
  "js_str_eq (JStr s) t = (s = t)"
| "js_str_eq _ t = False"

text \<open>\<open>a === b\<close> on two values: primitives by value; two objects or arrays are equal
  only when they are the same reference, which a value read back from a JSON file never is
  to a value of the running request.\<close>

fun js_strict_eq :: "jval \<Rightarrow> jval \<Rightarrow> bool" where
  "js_strict_eq JUndefined JUndefined = True"
| "js_strict_eq JNull JNull = True"
| "js_strict_eq (JBool a) (JBool b) = (a = b)"
| "js_strict_eq (JNum a) (JNum b) = (a = b)"
| "js_strict_eq (JStr a) (JStr b) = (a = b)"
| "js_strict_eq _ _ = False"

subsection \<open>Files\<close>

datatype 'a store = Missing | Corrupt | Holds 'a

datatype write_outcome = Written | WriteFailed | WriteTorn

text \<open>\<open>JSON.parse(fs.readFileSync(f))\<close>: \<open>None\<close> when either throws.\<close>

fun read_file :: "'a store \<Rightarrow> 'a option" where
  "read_file (Holds v) = Some v"
| "read_file _ = None"

fun file_exists :: "'a store \<Rightarrow> bool" where
  "file_exists Missing = False"
| "file_exists _ = True"

text \<open>\<open>fs.writeFileSync(f, JSON.stringify(v))\<close> in place.\<close>

fun write_file :: "write_outcome \<Rightarrow> 'a \<Rightarrow> 'a store \<Rightarrow> 'a store" where
  "write_file Written v f = Holds v"
| "write_file WriteFailed v f = f"
| "write_file WriteTorn v f = Corrupt"

text \<open>\<open>fs.writeFileSync(tmp, ...); fs.renameSync(tmp, f)\<close>: the rename is atomic and is
  reached only after the temporary file was written completely.\<close>

fun replace_file :: "write_outcome \<Rightarrow> 'a \<Rightarrow> 'a store \<Rightarrow> 'a store" where
  "replace_file Written v f = Holds v"
| "replace_file _ v f = f"

text \<open>Whether the write call returned normally (a torn write also throws).\<close>

fun write_ok :: "write_outcome \<Rightarrow> bool" where
  "write_ok Written = True"
| "write_ok _ = False"

lemma read_write_file [file_simps]:
  "read_file (write_file w v f) = (case w of Written \<Rightarrow> Some v | WriteFailed \<Rightarrow> read_file f | WriteTorn \<Rightarrow> None)"
  by (cases w) simp_all

lemma read_replace_file [file_simps]:
  "read_file (replace_file w v f) = (if w = Written then Some v else read_file f)"
  by (cases w) simp_all

lemma replace_file_never_corrupts [file_simps]:
  "read_file f \<noteq> None \<Longrightarrow> read_file (replace_file w v f) \<noteq> None"
  by (cases w) simp_all

lemma write_ok_iff [file_simps]: "write_ok w \<longleftrightarrow> w = Written"
  by (cases w) simp_all

lemma read_file_Some_iff [file_simps]: "read_file f = Some v \<longleftrightarrow> f = Holds v"
  by (cases f) simp_all

subsection \<open>Association lists as JavaScript objects\<close>

text \<open>
  A JSON object whose keys are distinct is an association list; \<open>o[k] = v\<close> is
  \<open>AList.update\<close>, which replaces a present key in place and appends a new one at the end,
  as JavaScript's property order does. The sums below are the aggregate counters that
  the quota ledger keeps beside its records.
\<close>

lemma update_absent_append [simp]:
  "map_of al k = None \<Longrightarrow> AList.update k v al = al @ [(k, v)]"
  by (induction al) auto

lemma set_update_subset: "set (AList.update k v al) \<subseteq> insert (k, v) (set al)"
  by (induction al) auto

lemma sum_update_present:
  fixes g :: "'v \<Rightarrow> int"
  shows "distinct (map fst al) \<Longrightarrow> map_of al k = Some old \<Longrightarrow>
    sum_list (map (g \<circ> snd) (AList.update k new al)) = sum_list (map (g \<circ> snd) al) - g old + g new"
  by (induction al) (auto split: if_splits)

lemma length_update_present:
  "map_of al k = Some old \<Longrightarrow> length (AList.update k new al) = length al"
  by (induction al) auto

lemma distinct_update_keys [simp]:
  "distinct (map fst (AList.update k v al)) \<longleftrightarrow> distinct (map fst al)"
  by (induction al) (auto simp: dom_update)

lemma list_all_update: "list_all P al \<Longrightarrow> P (k, v) \<Longrightarrow> list_all P (AList.update k v al)"
  using set_update_subset [of k v al] by (auto simp: list_all_iff)

lemma list_all_map_of: "list_all P al \<Longrightarrow> map_of al k = Some v \<Longrightarrow> P (k, v)"
  by (induction al) (auto split: if_splits)

lemma map_of_update_other [simp]:
  "k' \<noteq> k \<Longrightarrow> map_of (AList.update k v al) k' = map_of al k'"
  by (simp add: update_conv')

lemma map_of_update_fresh:
  "map_of al k = Some v \<Longrightarrow> map_of al s = None \<Longrightarrow> map_of (AList.update k v' al) s = None"
  by (cases "s = k") (simp_all add: update_conv')

lemma map_of_update_same [simp]: "map_of (AList.update k v al) k = Some v"
  by (simp add: update_conv')

subsection \<open>Strings\<close>

text \<open>\<open>s.includes(t)\<close> as the naive search: a match at the head, or one further on.\<close>

fun js_includes :: "string \<Rightarrow> string \<Rightarrow> bool" where
  "js_includes [] t = (t = [])"
| "js_includes (c # s) t = (prefix t (c # s) \<or> js_includes s t)"

lemma js_includes_sublist [simp]: "js_includes s t \<longleftrightarrow> sublist t s"
  by (induction s) (simp_all add: sublist_Cons_right)

definition js_ws :: "char list" where
  "js_ws = [CHR '' '', CHR 0x09, CHR 0x0A, CHR 0x0B, CHR 0x0C, CHR 0x0D, CHR 0xA0]"

definition js_trim :: "string \<Rightarrow> string" where
  "js_trim s = rev (dropWhile (\<lambda>c. c \<in> set js_ws) (rev (dropWhile (\<lambda>c. c \<in> set js_ws) s)))"

lemma dropWhile_all_iff: "(\<forall>c \<in> set (dropWhile P s). P c) \<longleftrightarrow> dropWhile P s = []"
proof
  assume all: "\<forall>c \<in> set (dropWhile P s). P c"
  show "dropWhile P s = []"
  proof (rule ccontr)
    assume ne: "dropWhile P s \<noteq> []"
    then have "\<not> P (hd (dropWhile P s))" by (rule hd_dropWhile)
    with ne all show False by simp
  qed
qed (auto dest: set_dropWhileD)

lemma js_trim_empty_iff: "js_trim s = [] \<longleftrightarrow> (\<forall>c \<in> set s. c \<in> set js_ws)"
proof -
  let ?P = "\<lambda>c. c \<in> set js_ws"
  have "js_trim s = [] \<longleftrightarrow> (\<forall>c \<in> set (dropWhile ?P s). ?P c)"
    by (simp add: js_trim_def dropWhile_eq_Nil_conv)
  also have "\<dots> \<longleftrightarrow> dropWhile ?P s = []"
    by (rule dropWhile_all_iff)
  finally show ?thesis by (simp add: dropWhile_eq_Nil_conv)
qed

end
