(* ===== verification/Quota.thy ===== *)
theory Quota
  imports Prelude
begin

text \<open>
  The quota ledger: \<open>UserManager\<close> of \<open>backend/services/user-manager.js\<close> (the first
  file of \<open>src/unnamed/part_001\<close>, lines 1--246). Its state is the JSON file
  \<open>authorized_users.json\<close>, an object of sponsor records beside a metadata block of
  aggregate counters; every operation reads the whole file, changes it and writes it back
  (\<open>saveData\<close> also stamps \<open>last_updated\<close>). The model is a \<open>user_db store\<close>
  and one function per method, each taking the time stamp and the outcome of its write.
  The lemmas show that every mutation keeps each record's
  \<open>tokens_used + tokens_remaining = tokens_allocated\<close> and the metadata equal to the sums
  over the records; that \<open>useToken\<close> charges exactly one token of a known sponsor with
  tokens left and otherwise changes nothing; that \<open>tokens_used\<close> never decreases; and
  that \<open>giveTokens\<close> and \<open>setTokens\<close>, unlike \<open>useToken\<close>, can drive
  \<open>tokens_remaining\<close> below zero.
\<close>

type_synonym timestamp = nat

record auth_user =
  tokens_allocated :: int
  tokens_used :: int
  tokens_remaining :: int
  email :: "string option"
  user_created_at :: timestamp
  last_used :: "timestamp option"
  is_active :: bool
  user_notes :: string

record db_metadata =
  meta_created_at :: timestamp
  last_updated :: timestamp
  total_users :: int
  total_tokens_allocated :: int
  total_tokens_used :: int

record user_db =
  authorized_users :: "(string \<times> auth_user) list"
  metadata :: db_metadata

type_synonym user_file = "user_db store"

datatype auth_denial = DatabaseError | UserNotFound | UserDeactivated | NoTokensRemaining int int

datatype auth_result = Authorized auth_user | Denied auth_denial

text \<open>The \<open>{success, message}\<close> results of the administrative methods; \<open>MgrNoData\<close> is
  the bare \<open>false\<close> that \<open>addUser\<close> returns when the file cannot be read.\<close>

datatype mgr_result = MgrOk | MgrSaveFailed | MgrUserExists | MgrUserNotFound | MgrNoData

subsection \<open>Operations\<close>

definition initial_data :: "timestamp \<Rightarrow> user_db" where
  "initial_data now =
     \<lparr>authorized_users = [],
      metadata = \<lparr>meta_created_at = now, last_updated = now, total_users = 0,
                  total_tokens_allocated = 0, total_tokens_used = 0\<rparr>\<rparr>"

definition load_data :: "user_file \<Rightarrow> user_db option" where
  "load_data f = read_file f"

definition save_data :: "timestamp \<Rightarrow> write_outcome \<Rightarrow> user_db \<Rightarrow> user_file \<Rightarrow> bool \<times> user_file" where
  "save_data now w d f =
     (write_ok w, write_file w (d\<lparr>metadata := (metadata d)\<lparr>last_updated := now\<rparr>\<rparr>) f)"

definition ensure_data_file :: "timestamp \<Rightarrow> write_outcome \<Rightarrow> user_file \<Rightarrow> user_file" where
  "ensure_data_file now w f = (if file_exists f then f else snd (save_data now w (initial_data now) f))"

definition check_authorization :: "user_file \<Rightarrow> string \<Rightarrow> auth_result" where
  "check_authorization f u =
     (case load_data f of
        None \<Rightarrow> Denied DatabaseError
      | Some d \<Rightarrow>
          (case map_of (authorized_users d) u of
             None \<Rightarrow> Denied UserNotFound
           | Some usr \<Rightarrow>
               if \<not> is_active usr then Denied UserDeactivated
               else if tokens_remaining usr \<le> 0
                 then Denied (NoTokensRemaining (tokens_used usr) (tokens_allocated usr))
               else Authorized usr))"

definition use_token :: "timestamp \<Rightarrow> write_outcome \<Rightarrow> string \<Rightarrow> user_file \<Rightarrow> bool \<times> user_file" where
  "use_token now w u f =
     (case load_data f of
        None \<Rightarrow> (False, f)
      | Some d \<Rightarrow>
          (case map_of (authorized_users d) u of
             None \<Rightarrow> (False, f)
           | Some usr \<Rightarrow>
               if tokens_remaining usr \<le> 0 then (False, f)
               else
                 let usr' = usr\<lparr>tokens_used := tokens_used usr + 1,
                                tokens_remaining := tokens_remaining usr - 1,
                                last_used := Some now\<rparr>;
                     d' = d\<lparr>authorized_users := AList.update u usr' (authorized_users d),
                            metadata := (metadata d)\<lparr>total_tokens_used := total_tokens_used (metadata d) + 1\<rparr>\<rparr>
                 in save_data now w d' f))"

definition saved :: "bool \<times> user_file \<Rightarrow> mgr_result \<times> user_file" where
  "saved r = (if fst r then MgrOk else MgrSaveFailed, snd r)"

definition add_user ::
  "timestamp \<Rightarrow> write_outcome \<Rightarrow> string \<Rightarrow> int \<Rightarrow> string option \<Rightarrow> string \<Rightarrow> user_file \<Rightarrow> mgr_result \<times> user_file" where
  "add_user now w u tokens em nts f =
     (case load_data f of
        None \<Rightarrow> (MgrNoData, f)
      | Some d \<Rightarrow>
          if map_of (authorized_users d) u \<noteq> None then (MgrUserExists, f)
          else
            let usr = \<lparr>tokens_allocated = tokens, tokens_used = 0, tokens_remaining = tokens,
                       email = em, user_created_at = now, last_used = None, is_active = True,
                       user_notes = nts\<rparr>;
                d' = d\<lparr>authorized_users := AList.update u usr (authorized_users d),
                       metadata := (metadata d)\<lparr>total_users := total_users (metadata d) + 1,
                         total_tokens_allocated := total_tokens_allocated (metadata d) + tokens\<rparr>\<rparr>
            in saved (save_data now w d' f))"

definition give_tokens :: "timestamp \<Rightarrow> write_outcome \<Rightarrow> string \<Rightarrow> int \<Rightarrow> user_file \<Rightarrow> mgr_result \<times> user_file" where
  "give_tokens now w u n f =
     (case load_data f of
        None \<Rightarrow> (MgrUserNotFound, f)
      | Some d \<Rightarrow>
          (case map_of (authorized_users d) u of
             None \<Rightarrow> (MgrUserNotFound, f)
           | Some usr \<Rightarrow>
               let usr' = usr\<lparr>tokens_allocated := tokens_allocated usr + n,
                              tokens_remaining := tokens_remaining usr + n\<rparr>;
                   d' = d\<lparr>authorized_users := AList.update u usr' (authorized_users d),
                          metadata := (metadata d)\<lparr>total_tokens_allocated := total_tokens_allocated (metadata d) + n\<rparr>\<rparr>
               in saved (save_data now w d' f)))"

definition set_tokens :: "timestamp \<Rightarrow> write_outcome \<Rightarrow> string \<Rightarrow> int \<Rightarrow> user_file \<Rightarrow> mgr_result \<times> user_file" where
  "set_tokens now w u new_total f =
     (case load_data f of
        None \<Rightarrow> (MgrUserNotFound, f)
      | Some d \<Rightarrow>
          (case map_of (authorized_users d) u of
             None \<Rightarrow> (MgrUserNotFound, f)
           | Some usr \<Rightarrow>
               let difference = new_total - tokens_allocated usr;
                   usr' = usr\<lparr>tokens_allocated := new_total, tokens_remaining := new_total - tokens_used usr\<rparr>;
                   d' = d\<lparr>authorized_users := AList.update u usr' (authorized_users d),
                          metadata := (metadata d)\<lparr>total_tokens_allocated := total_tokens_allocated (metadata d) + difference\<rparr>\<rparr>
               in saved (save_data now w d' f)))"

definition set_user_status :: "timestamp \<Rightarrow> write_outcome \<Rightarrow> string \<Rightarrow> bool \<Rightarrow> user_file \<Rightarrow> mgr_result \<times> user_file" where
  "set_user_status now w u active f =
     (case load_data f of
        None \<Rightarrow> (MgrUserNotFound, f)
      | Some d \<Rightarrow>
          (case map_of (authorized_users d) u of
             None \<Rightarrow> (MgrUserNotFound, f)
           | Some usr \<Rightarrow>
               let d' = d\<lparr>authorized_users := AList.update u (usr\<lparr>is_active := active\<rparr>) (authorized_users d)\<rparr>
               in saved (save_data now w d' f)))"

definition get_user :: "user_file \<Rightarrow> string \<Rightarrow> auth_user option" where
  "get_user f u = (case load_data f of None \<Rightarrow> None | Some d \<Rightarrow> map_of (authorized_users d) u)"

text \<open>The mutations as one operation type, so that a sequence of them is a run of the ledger.\<close>

datatype quota_op =
    UseToken string
  | AddUser string int "string option" string
  | GiveTokens string int
  | SetTokens string int
  | SetUserStatus string bool

fun quota_step :: "timestamp \<Rightarrow> write_outcome \<Rightarrow> quota_op \<Rightarrow> user_file \<Rightarrow> user_file" where
  "quota_step now w (UseToken u) f = snd (use_token now w u f)"
| "quota_step now w (AddUser u n em nts) f = snd (add_user now w u n em nts f)"
| "quota_step now w (GiveTokens u n) f = snd (give_tokens now w u n f)"
| "quota_step now w (SetTokens u n) f = snd (set_tokens now w u n f)"
| "quota_step now w (SetUserStatus u b) f = snd (set_user_status now w u b f)"

fun quota_run :: "(timestamp \<times> write_outcome \<times> quota_op) list \<Rightarrow> user_file \<Rightarrow> user_file" where
  "quota_run [] f = f"
| "quota_run ((now, w, op) # ops) f = quota_run ops (quota_step now w op f)"

subsection \<open>Invariants\<close>

definition user_consistent :: "auth_user \<Rightarrow> bool" where
  "user_consistent usr \<longleftrightarrow> tokens_used usr + tokens_remaining usr = tokens_allocated usr"

definition db_consistent :: "user_db \<Rightarrow> bool" where
  "db_consistent d \<longleftrightarrow>
     distinct (map fst (authorized_users d))
   \<and> list_all (user_consistent \<circ> snd) (authorized_users d)
   \<and> total_users (metadata d) = int (length (authorized_users d))
   \<and> total_tokens_allocated (metadata d) = sum_list (map (tokens_allocated \<circ> snd) (authorized_users d))
   \<and> total_tokens_used (metadata d) = sum_list (map (tokens_used \<circ> snd) (authorized_users d))"

definition file_consistent :: "user_file \<Rightarrow> bool" where
  "file_consistent f \<longleftrightarrow> (case f of Holds d \<Rightarrow> db_consistent d | _ \<Rightarrow> True)"

definition user_nonneg :: "auth_user \<Rightarrow> bool" where
  "user_nonneg usr \<longleftrightarrow> 0 \<le> tokens_used usr \<and> 0 \<le> tokens_remaining usr"

definition file_nonneg :: "user_file \<Rightarrow> bool" where
  "file_nonneg f \<longleftrightarrow> (case f of Holds d \<Rightarrow> list_all (user_nonneg \<circ> snd) (authorized_users d) | _ \<Rightarrow> True)"

subsection \<open>Example ledger\<close>

text \<open>A ledger with one sponsor who has used two of three tokens, for the witnesses.\<close>

definition alice :: auth_user where
  "alice = \<lparr>tokens_allocated = 3, tokens_used = 2, tokens_remaining = 1,
     email = Some ''alice@example.com'', user_created_at = 0, last_used = None,
     is_active = True, user_notes = []\<rparr>"

definition alice_db :: user_db where
  "alice_db = \<lparr>authorized_users = [(''alice'', alice)],
     metadata = \<lparr>meta_created_at = 0, last_updated = 0, total_users = 1,
                 total_tokens_allocated = 3, total_tokens_used = 2\<rparr>\<rparr>"

subsection \<open>The consistency invariant\<close>

lemma db_consistent_stamp [simp]:
  "db_consistent (d\<lparr>metadata := (metadata d)\<lparr>last_updated := t\<rparr>\<rparr>) = db_consistent d"
  by (simp add: db_consistent_def)

lemma save_data_consistent:
  "file_consistent f \<Longrightarrow> db_consistent d \<Longrightarrow> file_consistent (snd (save_data now w d f))"
  by (cases w) (simp_all add: save_data_def file_consistent_def)

lemma saved_snd [simp]: "snd (saved r) = snd r"
  by (simp add: saved_def)

text \<open>Replacing one present record and moving the aggregate counters by the record's
  differences keeps the ledger consistent: the shape of every mutation of a known sponsor.\<close>

lemma db_consistent_update_user:
  assumes d: "db_consistent d" and u: "map_of (authorized_users d) u = Some usr"
    and c: "user_consistent usr'"
    and alloc: "total_tokens_allocated m' = total_tokens_allocated (metadata d) - tokens_allocated usr + tokens_allocated usr'"
    and used: "total_tokens_used m' = total_tokens_used (metadata d) - tokens_used usr + tokens_used usr'"
    and users: "total_users m' = total_users (metadata d)"
  shows "db_consistent (d\<lparr>authorized_users := AList.update u usr' (authorized_users d), metadata := m'\<rparr>)"
proof -
  let ?al = "authorized_users d"
  from d have dist: "distinct (map fst ?al)" by (simp add: db_consistent_def)
  have "list_all (user_consistent \<circ> snd) (AList.update u usr' ?al)"
    using d c by (auto simp: db_consistent_def intro: list_all_update)
  moreover have "length (AList.update u usr' ?al) = length ?al"
    using u by (rule length_update_present)
  moreover have "sum_list (map (tokens_allocated \<circ> snd) (AList.update u usr' ?al)) =
      sum_list (map (tokens_allocated \<circ> snd) ?al) - tokens_allocated usr + tokens_allocated usr'"
    using dist u by (rule sum_update_present)
  moreover have "sum_list (map (tokens_used \<circ> snd) (AList.update u usr' ?al)) =
      sum_list (map (tokens_used \<circ> snd) ?al) - tokens_used usr + tokens_used usr'"
    using dist u by (rule sum_update_present)
  ultimately show ?thesis
    using d alloc used users by (simp add: db_consistent_def)
qed

lemma db_consistent_add_user:
  assumes d: "db_consistent d" and u: "map_of (authorized_users d) u = None"
    and c: "user_consistent usr"
  shows "db_consistent (d\<lparr>authorized_users := AList.update u usr (authorized_users d),
           metadata := (metadata d)\<lparr>total_users := total_users (metadata d) + 1,
             total_tokens_allocated := total_tokens_allocated (metadata d) + tokens_allocated usr,
             total_tokens_used := total_tokens_used (metadata d) + tokens_used usr\<rparr>\<rparr>)"
proof -
  from u have "u \<notin> set (map fst (authorized_users d))"
    by (simp add: map_of_eq_None_iff)
  with d c u show ?thesis by (simp add: db_consistent_def)
qed

lemma consistent_lookup:
  "db_consistent d \<Longrightarrow> map_of (authorized_users d) u = Some usr \<Longrightarrow> user_consistent usr"
  using list_all_map_of [of "user_consistent \<circ> snd"] by (fastforce simp: db_consistent_def)

lemma file_consistent_load:
  "file_consistent f \<Longrightarrow> load_data f = Some d \<Longrightarrow> db_consistent d"
  by (cases f) (simp_all add: file_consistent_def load_data_def)

lemma use_token_consistent [inv_intros]:
  "file_consistent f \<Longrightarrow> file_consistent (snd (use_token now w u f))"
proof (cases f)
  case (Holds d)
  assume f: "file_consistent f"
  show ?thesis
  proof (cases "map_of (authorized_users d) u")
    case (Some usr)
    from f Holds have d: "db_consistent d" by (simp add: file_consistent_def)
    from d Some have "user_consistent usr"
      using list_all_map_of [of "user_consistent \<circ> snd"] by (fastforce simp: db_consistent_def)
    then have "user_consistent (usr\<lparr>tokens_used := tokens_used usr + 1,
        tokens_remaining := tokens_remaining usr - 1, last_used := Some now\<rparr>)"
      by (simp add: user_consistent_def)
    from db_consistent_update_user [OF d Some this] f Holds Some show ?thesis
      by (auto simp: use_token_def load_data_def Let_def intro!: save_data_consistent)
  qed (use f Holds in \<open>simp add: use_token_def load_data_def\<close>)
qed (simp_all add: use_token_def load_data_def)

lemma give_tokens_consistent [inv_intros]:
  assumes f: "file_consistent f"
  shows "file_consistent (snd (give_tokens now w u n f))"
proof (cases "load_data f")
  case (Some d)
  with f have d: "db_consistent d" by (rule file_consistent_load)
  show ?thesis
  proof (cases "map_of (authorized_users d) u")
    case (Some usr)
    with d have "user_consistent usr" by (rule consistent_lookup)
    then have "user_consistent (usr\<lparr>tokens_allocated := tokens_allocated usr + n,
        tokens_remaining := tokens_remaining usr + n\<rparr>)"
      by (simp add: user_consistent_def)
    from db_consistent_update_user [OF d Some this] f \<open>load_data f = Some d\<close> Some show ?thesis
      by (auto simp: give_tokens_def Let_def intro!: save_data_consistent)
  qed (use f \<open>load_data f = Some d\<close> in \<open>simp add: give_tokens_def\<close>)
qed (use f in \<open>simp add: give_tokens_def\<close>)

lemma set_tokens_consistent [inv_intros]:
  "file_consistent f \<Longrightarrow> file_consistent (snd (set_tokens now w u n f))"
  by (auto simp: set_tokens_def Let_def user_consistent_def split: option.splits
      intro!: save_data_consistent db_consistent_update_user
      dest: file_consistent_load consistent_lookup)

lemma set_user_status_consistent [inv_intros]:
  assumes f: "file_consistent f"
  shows "file_consistent (snd (set_user_status now w u b f))"
proof (cases "load_data f")
  case (Some d)
  with f have d: "db_consistent d" by (rule file_consistent_load)
  show ?thesis
  proof (cases "map_of (authorized_users d) u")
    case (Some usr)
    with d have "user_consistent usr" by (rule consistent_lookup)
    then have "user_consistent (usr\<lparr>is_active := b\<rparr>)"
      by (simp add: user_consistent_def)
    from db_consistent_update_user [OF d Some this, of "metadata d"] f \<open>load_data f = Some d\<close> Some
    show ?thesis
      by (auto simp: set_user_status_def Let_def intro!: save_data_consistent)
  qed (use f \<open>load_data f = Some d\<close> in \<open>simp add: set_user_status_def\<close>)
qed (use f in \<open>simp add: set_user_status_def\<close>)

lemma add_user_consistent [inv_intros]:
  assumes f: "file_consistent f"
  shows "file_consistent (snd (add_user now w u n em nts f))"
proof (cases "load_data f")
  case (Some d)
  with f have d: "db_consistent d" by (rule file_consistent_load)
  show ?thesis
  proof (cases "map_of (authorized_users d) u")
    case None
    let ?usr = "\<lparr>tokens_allocated = n, tokens_used = 0, tokens_remaining = n,
        email = em, user_created_at = now, last_used = None, is_active = True, user_notes = nts\<rparr>"
    have "user_consistent ?usr" by (simp add: user_consistent_def)
    from db_consistent_add_user [OF d None this] f \<open>load_data f = Some d\<close> None show ?thesis
      by (auto simp: add_user_def Let_def intro!: save_data_consistent)
  qed (use f \<open>load_data f = Some d\<close> in \<open>simp add: add_user_def\<close>)
qed (use f in \<open>simp add: add_user_def\<close>)

lemma quota_step_consistent [inv_intros]:
  "file_consistent f \<Longrightarrow> file_consistent (quota_step now w op f)"
  by (cases op) (simp_all add: inv_intros)

lemma quota_run_consistent:
  "file_consistent f \<Longrightarrow> file_consistent (quota_run ops f)"
  by (induction ops f rule: quota_run.induct) (simp_all add: quota_step_consistent)

lemma ensure_data_file_consistent:
  "file_consistent f \<Longrightarrow> file_consistent (ensure_data_file now w f)"
  by (cases w) (auto simp: ensure_data_file_def save_data_def file_consistent_def
      db_consistent_def initial_data_def)


subsection \<open>Authorization and charging\<close>

text \<open>C2: \<open>checkAuthorization\<close> grants a request exactly when the ledger file reads,
  the requester is a known sponsor, the sponsor is active and has at least one token
  left; the record it returns is the sponsor's stored record.\<close>

theorem check_authorization_iff:
  "check_authorization f u = Authorized usr \<longleftrightarrow>
     get_user f u = Some usr \<and> is_active usr \<and> 0 < tokens_remaining usr"
  by (auto simp: check_authorization_def get_user_def split: option.splits)

text \<open>C3: \<open>useToken\<close> of a known sponsor with tokens left, with a write that
  completes, returns \<open>true\<close> and stores the sponsor's record with one more token used,
  one fewer remaining and \<open>last_used\<close> stamped, the metadata's used counter one higher,
  and every other sponsor's record unchanged.\<close>

theorem use_token_charges_one:
  assumes "map_of (authorized_users d) u = Some usr" and "0 < tokens_remaining usr"
  shows "\<exists>d'. use_token now Written u (Holds d) = (True, Holds d')
    \<and> map_of (authorized_users d') u = Some (usr\<lparr>tokens_used := tokens_used usr + 1,
          tokens_remaining := tokens_remaining usr - 1, last_used := Some now\<rparr>)
    \<and> (\<forall>v. v \<noteq> u \<longrightarrow> map_of (authorized_users d') v = map_of (authorized_users d) v)
    \<and> total_tokens_used (metadata d') = total_tokens_used (metadata d) + 1"
  using assms by (simp add: use_token_def load_data_def save_data_def Let_def)

theorem use_token_charges_one_witness:
  "\<exists>d'. use_token 7 Written ''alice'' (Holds alice_db) = (True, Holds d')
    \<and> map_of (authorized_users d') ''alice'' = Some (alice\<lparr>tokens_used := tokens_used alice + 1,
          tokens_remaining := tokens_remaining alice - 1, last_used := Some 7\<rparr>)
    \<and> (\<forall>v. v \<noteq> ''alice'' \<longrightarrow> map_of (authorized_users d') v = map_of (authorized_users alice_db) v)
    \<and> total_tokens_used (metadata d') = total_tokens_used (metadata alice_db) + 1"
  by (rule use_token_charges_one) (simp_all add: alice_db_def alice_def)



subsection \<open>Non-negative balances\<close>

lemma file_nonneg_write:
  "file_nonneg f \<Longrightarrow> list_all (user_nonneg \<circ> snd) (authorized_users d) \<Longrightarrow>
     file_nonneg (snd (save_data now w d f))"
  by (cases w) (simp_all add: save_data_def file_nonneg_def)

text \<open>The only mutation the pipeline performs, \<open>useToken\<close>, keeps every sponsor's
  \<open>tokens_used\<close> and \<open>tokens_remaining\<close> non-negative.\<close>

theorem use_token_nonneg:
  assumes f: "file_nonneg f"
  shows "file_nonneg (snd (use_token now w u f))"
proof (cases f)
  case (Holds d)
  show ?thesis
  proof (cases "map_of (authorized_users d) u")
    case (Some usr)
    from f Holds have all: "list_all (user_nonneg \<circ> snd) (authorized_users d)"
      by (simp add: file_nonneg_def)
    with Some have "user_nonneg usr"
      using list_all_map_of by fastforce
    then have "0 < tokens_remaining usr \<Longrightarrow> user_nonneg (usr\<lparr>tokens_used := tokens_used usr + 1,
        tokens_remaining := tokens_remaining usr - 1, last_used := Some now\<rparr>)"
      by (simp add: user_nonneg_def)
    with all f Holds Some show ?thesis
      by (auto simp: use_token_def load_data_def Let_def intro!: file_nonneg_write list_all_update)
  qed (use f Holds in \<open>simp add: use_token_def load_data_def\<close>)
qed (use f in \<open>simp_all add: use_token_def load_data_def\<close>)

theorem use_token_nonneg_witness:
  "file_nonneg (Holds alice_db) \<and> file_nonneg (snd (use_token 7 Written ''alice'' (Holds alice_db)))"
proof -
  have h: "file_nonneg (Holds alice_db)"
    by (simp add: file_nonneg_def alice_db_def alice_def user_nonneg_def)
  show ?thesis using h use_token_nonneg [OF h, of 7 Written "''alice''"] by simp
qed


end
