(* ===== verification/Pending.thy ===== *)
theory Pending
  imports Quota
begin

text \<open>
  The pending-credentials ledger: the recovery store of \<open>BlockchainMonitor\<close>
  (\<open>backend/services/blockchain-monitor.js\<close>, lines 60--95), the file
  \<open>pending_credentials.json\<close> holding \<open>{pending: [...]}\<close>. \<open>loadPending\<close> turns
  every read or parse error into the empty list; \<open>savePending\<close> rewrites the file in
  place with \<open>fs.writeFileSync\<close> and swallows a failure; \<open>addPending\<close> appends,
  \<open>removePending\<close> keeps the records whose \<open>username\<close> is not \<open>!==\<close> to the given
  one. The lemmas give the contents after each operation and show the consequence of the
  two choices together: a write torn by a crash or a full disk leaves a file that no longer
  parses, and the next \<open>addPending\<close> then replaces every earlier record by the new one.
\<close>

record pending_record =
  p_username :: jval
  p_created_at :: timestamp
  p_requester :: string
  p_master_password :: string
  p_owner_key :: string
  p_active_key :: string
  p_posting_key :: string
  p_memo_key :: string
  p_transaction_id :: string

type_synonym pending_file = "pending_record list store"

definition ensure_recovery_file :: "write_outcome \<Rightarrow> pending_file \<Rightarrow> pending_file" where
  "ensure_recovery_file w f = (if file_exists f then f else write_file w [] f)"

definition load_pending :: "pending_file \<Rightarrow> pending_record list" where
  "load_pending f = (case read_file f of Some rs \<Rightarrow> rs | None \<Rightarrow> [])"

definition save_pending :: "write_outcome \<Rightarrow> pending_record list \<Rightarrow> pending_file \<Rightarrow> pending_file" where
  "save_pending w rs f = write_file w rs f"

definition add_pending :: "write_outcome \<Rightarrow> pending_record \<Rightarrow> pending_file \<Rightarrow> pending_file" where
  "add_pending w r f = save_pending w (load_pending f @ [r]) f"

definition remove_pending :: "write_outcome \<Rightarrow> jval \<Rightarrow> pending_file \<Rightarrow> pending_file" where
  "remove_pending w u f = save_pending w (filter (\<lambda>r. \<not> js_strict_eq (p_username r) u) (load_pending f)) f"

definition pending_names :: "pending_file \<Rightarrow> jval list" where
  "pending_names f = map p_username (load_pending f)"

lemma load_pending_Holds [simp]: "load_pending (Holds rs) = rs"
  by (simp add: load_pending_def)

lemma load_add_pending [simp]:
  "load_pending (add_pending Written r f) = load_pending f @ [r]"
  by (simp add: add_pending_def save_pending_def)

lemma load_remove_pending [simp]:
  "load_pending (remove_pending Written u f) = filter (\<lambda>r. \<not> js_strict_eq (p_username r) u) (load_pending f)"
  by (simp add: remove_pending_def save_pending_def)

lemma add_pending_failed [simp]: "add_pending WriteFailed r f = f"
  by (simp add: add_pending_def save_pending_def)

lemma remove_pending_failed [simp]: "remove_pending WriteFailed u f = f"
  by (simp add: remove_pending_def save_pending_def)

lemma js_strict_eq_JStr [simp]: "js_strict_eq v (JStr u) \<longleftrightarrow> v = JStr u"
  by (cases v) auto



text \<open>The recovery store is not crash-safe. A write torn mid-way (process killed,
  disk full) leaves a file that does not parse; \<open>loadPending\<close> reads it as the empty
  list, so the next \<open>addPending\<close> writes a file holding only its own record: every
  credential recorded before, including the one whose write was torn, is lost.\<close>

theorem torn_pending_write_loses_records:
  "add_pending Written r2 (add_pending WriteTorn r1 f) = Holds [r2]"
  by (simp add: add_pending_def save_pending_def load_pending_def)

end
