(* ===== verification/Validator.thy ===== *)
theory Validator
  imports Prelude
begin

text \<open>
  The request validator and the request envelopes that reach it.
  \<^item> \<open>validate_request\<close> is \<open>BlockchainMonitor.validateRequest\<close>
    (\<open>backend/services/blockchain-monitor.js\<close>, lines 280--289): a chain of \<open>===\<close>
    tests and truthiness tests joined by \<open>&&\<close>, evaluated left to right; its value is used
    only as the condition of an \<open>if\<close>, so the model returns the truthiness, and a
    member access on \<open>null\<close> (the payload \<open>"null"\<close>) is the \<open>TypeError\<close> that
    \<open>processCustomJson\<close> catches.
  \<^item> \<open>js_to_string\<close> is the string conversion of a template literal, which the
    pipeline applies to the requested name before deriving keys from it.
  \<^item> \<open>app_envelope\<close> and \<open>keychain_envelope\<close> are the payloads built by the two
    frontend scripts (\<open>scripts/app.js\<close> lines 180--191, \<open>scripts/keychain.js\<close> lines
    186--199), as \<open>JSON.parse(JSON.stringify(.))\<close> returns them.
  \<^item> \<open>validate_hive_username\<close> is \<open>FormValidator.validateHiveUsername\<close>
    (\<open>scripts/validation.js\<close> lines 21--75), the frontend's name check.
  The lemmas characterise what the validator accepts, prove that the \<open>app.js\<close> envelope
  passes whenever its two fields are non-empty and that the \<open>keychain.js\<close> envelope never
  passes, and bound the names the frontend check accepts.
\<close>

subsection \<open>Validation of a decoded payload\<close>

definition js_bind :: "js_error + 'a \<Rightarrow> ('a \<Rightarrow> js_error + 'b) \<Rightarrow> js_error + 'b" where
  "js_bind r f = (case r of Inl e \<Rightarrow> Inl e | Inr v \<Rightarrow> f v)"

definition faucet_app_id :: string where "faucet_app_id = ''hive_account_faucet''"
definition faucet_version :: string where "faucet_version = ''1.0.0''"
definition faucet_action :: string where "faucet_action = ''create_account_request''"

definition validate_request :: "jval \<Rightarrow> js_error + bool" where
  "validate_request v =
     js_bind (js_member v ''app'') (\<lambda>app.
     if \<not> js_str_eq app faucet_app_id then Inr False else
     js_bind (js_member v ''version'') (\<lambda>ver.
     if \<not> js_str_eq ver faucet_version then Inr False else
     js_bind (js_member v ''action'') (\<lambda>act.
     if \<not> js_str_eq act faucet_action then Inr False else
     js_bind (js_member v ''data'') (\<lambda>d.
     if \<not> js_truthy d then Inr False else
     js_bind (js_member d ''requested_username'') (\<lambda>n.
     if \<not> js_truthy n then Inr False else
     js_bind (js_member d ''delivery_method'') (\<lambda>m.
     Inr (js_truthy m)))))))"

subsection \<open>Template-literal string conversion\<close>

fun nat_digits :: "nat \<Rightarrow> string" where
  "nat_digits n = (if n < 10 then [char_of (48 + n)] else nat_digits (n div 10) @ [char_of (48 + n mod 10)])"

definition int_string :: "int \<Rightarrow> string" where
  "int_string i = (if i < 0 then CHR ''-'' # nat_digits (nat (- i)) else nat_digits (nat i))"

text \<open>\<open>Array.prototype.join(sep)\<close> on the converted elements.\<close>

fun js_join :: "string \<Rightarrow> string list \<Rightarrow> string" where
  "js_join sep [] = []"
| "js_join sep [s] = s"
| "js_join sep (s # ss) = s @ sep @ js_join sep ss"

fun js_to_string :: "jval \<Rightarrow> string" where
  "js_to_string JUndefined = ''undefined''"
| "js_to_string JNull = ''null''"
| "js_to_string (JBool b) = (if b then ''true'' else ''false'')"
| "js_to_string (JNum n) = int_string n"
| "js_to_string (JStr s) = s"
| "js_to_string (JArr vs) =
     js_join '','' (map (\<lambda>v. case v of JUndefined \<Rightarrow> [] | JNull \<Rightarrow> [] | _ \<Rightarrow> js_to_string v) vs)"
| "js_to_string (JObj _) = ''[object Object]''"

subsection \<open>The frontend envelopes\<close>

text \<open>\<open>app.js\<close>: the form's fields, with \<open>email || null\<close> and \<open>notes || null\<close>.\<close>

definition js_or_null :: "string \<Rightarrow> jval" where
  "js_or_null s = (if s = [] then JNull else JStr s)"

definition app_envelope :: "string \<Rightarrow> string \<Rightarrow> string \<Rightarrow> string \<Rightarrow> string \<Rightarrow> string \<Rightarrow> jval" where
  "app_envelope current_user name method em nts ts =
     JObj [(''app'', JStr ''hive_account_faucet''), (''version'', JStr ''1.0.0''),
           (''action'', JStr ''create_account_request''),
           (''data'', JObj [(''requester'', JStr current_user), (''requested_username'', JStr name),
                            (''delivery_method'', JStr method), (''email'', js_or_null em),
                            (''notes'', js_or_null nts), (''timestamp'', JStr ts)])]"

text \<open>\<open>keychain.js\<close>, \<open>KeychainManager.createAccountRequestJson\<close>.\<close>

definition keychain_envelope :: "jval \<Rightarrow> jval \<Rightarrow> jval \<Rightarrow> string \<Rightarrow> string \<Rightarrow> jval" where
  "keychain_envelope name method nts ts req_id =
     JObj [(''app'', JStr ''hive-account-faucet''), (''version'', JStr ''1.0.0''),
           (''action'', JStr ''create_account_request''), (''timestamp'', JStr ts),
           (''requestId'', JStr req_id),
           (''data'', JObj [(''requestedUsername'', name), (''deliveryMethod'', method),
                            (''notes'', nts)])]"

subsection \<open>The frontend name check\<close>

datatype name_check =
    NameValid | NameRequired | NameTooShort | NameTooLong | NameBadChars
  | NameHyphenEdge | NameDoubleHyphen | NameReserved

definition name_chars :: "char list" where
  "name_chars = ''abcdefghijklmnopqrstuvwxyz0123456789-''"

text \<open>\<open>toLowerCase\<close> on the ASCII letters.\<close>

definition js_lower :: "char \<Rightarrow> char" where
  "js_lower c = (if (65::nat) \<le> of_char c \<and> of_char c \<le> (90::nat) then char_of (of_char c + (32::nat)) else c)"

definition reserved_prefixes :: "string list" where
  "reserved_prefixes = [''hive'', ''steem'', ''admin'', ''system'']"

definition reserved_names :: "string list" where
  "reserved_names = [''null'', ''test'', ''api'', ''www'', ''blog'', ''wallet'']"

definition validate_hive_username :: "string \<Rightarrow> name_check" where
  "validate_hive_username raw =
     (if raw = [] then NameRequired else
      let name = map js_lower (js_trim raw) in
      if length name < 3 then NameTooShort
      else if 16 < length name then NameTooLong
      else if \<not> list_all (\<lambda>c. c \<in> set name_chars) name then NameBadChars
      else if hd name = CHR ''-'' \<or> last name = CHR ''-'' then NameHyphenEdge
      else if sublist ''--'' name then NameDoubleHyphen
      else if list_ex (\<lambda>p. prefix p name) reserved_prefixes \<or> name \<in> set reserved_names then NameReserved
      else NameValid)"

subsection \<open>Properties of the validator\<close>

lemma js_bind_Inr [simp]: "js_bind (Inr v) f = f v"
  by (simp add: js_bind_def)

lemma js_bind_Inl [simp]: "js_bind (Inl e) f = Inl e"
  by (simp add: js_bind_def)

lemma js_member_truthy: "js_truthy d \<Longrightarrow> \<exists>v. js_member d k = Inr v"
  by (cases d) auto

lemma js_str_eq_iff [simp]: "js_str_eq v s \<longleftrightarrow> v = JStr s"
  by (cases v) auto

text \<open>C7: \<open>validateRequest\<close> accepts a payload exactly when its \<open>app\<close>,
  \<open>version\<close> and \<open>action\<close> are the three fixed strings and its \<open>data\<close> member is
  truthy with truthy \<open>requested_username\<close> and \<open>delivery_method\<close>; every other
  payload is rejected (fails closed).\<close>

theorem validate_request_iff:
  "validate_request v = Inr True \<longleftrightarrow>
     js_member v ''app'' = Inr (JStr ''hive_account_faucet'')
   \<and> js_member v ''version'' = Inr (JStr ''1.0.0'')
   \<and> js_member v ''action'' = Inr (JStr ''create_account_request'')
   \<and> (\<exists>d n m. js_member v ''data'' = Inr d \<and> js_truthy d
          \<and> js_member d ''requested_username'' = Inr n \<and> js_truthy n
          \<and> js_member d ''delivery_method'' = Inr m \<and> js_truthy m)"
  (is "?l \<longleftrightarrow> ?r")
proof
  assume ?l
  then show ?r
    by (cases v) (auto simp: validate_request_def faucet_app_id_def faucet_version_def
        faucet_action_def js_bind_def split: sum.splits if_splits)
next
  assume ?r
  then show ?l
    by (cases v) (auto simp: validate_request_def faucet_app_id_def faucet_version_def
        faucet_action_def)
qed

text \<open>C8: \<open>validateRequest\<close> throws (a \<open>TypeError\<close>, which \<open>processCustomJson\<close>
  catches and logs) exactly for the payloads \<open>null\<close> and \<open>undefined\<close>; on every other
  decoded payload it returns a verdict.\<close>

theorem validate_request_throws_iff:
  "validate_request v = Inl TypeError \<longleftrightarrow> v = JNull \<or> v = JUndefined"
proof -
  have "v \<noteq> JNull \<Longrightarrow> v \<noteq> JUndefined \<Longrightarrow> \<exists>b. validate_request v = Inr b"
    by (cases v) (auto simp: validate_request_def js_bind_def split: sum.splits dest: js_member_truthy [of _ "''requested_username''"] js_member_truthy [of _ "''delivery_method''"])
  then show ?thesis
    by (cases "v = JNull \<or> v = JUndefined") (auto simp: validate_request_def)
qed

text \<open>The payload that \<open>app.js\<close> broadcasts passes \<open>validateRequest\<close> exactly when the
  requested name and the delivery method are non-empty.\<close>

lemma app_envelope_validates:
  "validate_request (app_envelope cu name method em nts ts) = Inr (name \<noteq> [] \<and> method \<noteq> [])"
  by (simp add: validate_request_def app_envelope_def faucet_app_id_def faucet_version_def
      faucet_action_def)

text \<open>The payload that \<open>keychain.js\<close> builds never passes \<open>validateRequest\<close>: its
  \<open>app\<close> is spelt with hyphens (and its data fields are camel-case).\<close>

lemma keychain_envelope_rejected:
  "validate_request (keychain_envelope name method nts ts req_id) = Inr False"
  by (simp add: validate_request_def keychain_envelope_def faucet_app_id_def)

text \<open>C11: a name that \<open>validateHiveUsername\<close> accepts is, after trimming and lower-casing,
  3 to 16 characters of lower-case letters, digits and hyphens, neither starting nor ending
  with a hyphen and without two hyphens in a row. Nothing requires a leading letter, which
  the chain's own account-name rule does.\<close>

theorem validate_hive_username_valid:
  assumes "validate_hive_username raw = NameValid"
  defines "name \<equiv> map js_lower (js_trim raw)"
  shows "3 \<le> length name \<and> length name \<le> 16 \<and> set name \<subseteq> set name_chars
    \<and> hd name \<noteq> CHR ''-'' \<and> last name \<noteq> CHR ''-'' \<and> \<not> sublist ''--'' name"
  using assms by (auto simp: validate_hive_username_def Let_def list_all_iff split: if_splits)

theorem validate_hive_username_valid_witness:
  "validate_hive_username ''9lives'' = NameValid
   \<and> 3 \<le> length (map js_lower (js_trim ''9lives'')) \<and> length (map js_lower (js_trim ''9lives'')) \<le> 16
   \<and> set (map js_lower (js_trim ''9lives'')) \<subseteq> set name_chars
   \<and> hd (map js_lower (js_trim ''9lives'')) \<noteq> CHR ''-'' \<and> last (map js_lower (js_trim ''9lives'')) \<noteq> CHR ''-''
   \<and> \<not> sublist ''--'' (map js_lower (js_trim ''9lives''))"
proof -
  have h: "validate_hive_username ''9lives'' = NameValid"
    by (simp add: validate_hive_username_def js_trim_def js_ws_def js_lower_def name_chars_def
        reserved_prefixes_def reserved_names_def Let_def sublist_Cons_right)
  show ?thesis using validate_hive_username_valid [OF h] h by simp
qed

end
