(* ===== verification/Chain.thy ===== *)
theory Chain
  imports Validator
begin

text \<open>
  The Hive node as the faucet sees it: an environment, not code of this repository. It is
  modelled from the spec's description of the ledger (\<open>spec.md\<close> sections 4.4 and 4.6)
  and only as far as the faucet's calls need: accounts with their public memo key, HBD
  balance (in thousandths) and claimed creation tokens; the public list of transfers with
  their memos; and a transaction counter that names transactions. \<open>get_account\<close> is
  \<open>getAccounts([name])\<close> (an RPC that can fail, and that rejects a name that is not a
  string); \<open>broadcast\<close> applies one operation, or rejects it with an error text:
  an injected failure (network, signature), a duplicate account name, a creator without
  creation tokens, a transfer without funds.
\<close>

record hive_account =
  memo_pub :: string
  hbd_milli :: int
  claimed_tokens :: nat

record chain =
  ch_accounts :: "(string \<times> hive_account) list"
  ch_transfers :: "(string \<times> string \<times> int \<times> string) list"
  ch_tx_count :: nat

datatype chain_op =
    CreateClaimedAccount string jval string string string string
  | TransferOp string string int string

datatype account_lookup = LookupError string | LookupEmpty | LookupFound hive_account

definition get_account :: "bool \<Rightarrow> chain \<Rightarrow> jval \<Rightarrow> account_lookup" where
  "get_account rpc_ok c n =
     (if \<not> rpc_ok then LookupError ''RPC error''
      else case n of
        JStr s \<Rightarrow> (case map_of (ch_accounts c) s of None \<Rightarrow> LookupEmpty | Some a \<Rightarrow> LookupFound a)
      | _ \<Rightarrow> LookupError ''Invalid parameters'')"

definition tx_id :: "chain \<Rightarrow> string" where
  "tx_id c = ''tx'' @ nat_digits (ch_tx_count c)"

fun apply_op :: "chain \<Rightarrow> chain_op \<Rightarrow> (string + string) \<times> chain" where
  "apply_op c (CreateClaimedAccount creator (JStr name) owner active posting memo) =
     (case map_of (ch_accounts c) creator of
        None \<Rightarrow> (Inl ''missing creator account'', c)
      | Some ca \<Rightarrow>
          if map_of (ch_accounts c) name \<noteq> None then (Inl ''account name already exists'', c)
          else if claimed_tokens ca = 0 then (Inl ''insufficient claimed accounts'', c)
          else (Inr (tx_id c),
                c\<lparr>ch_accounts := AList.update creator (ca\<lparr>claimed_tokens := claimed_tokens ca - 1\<rparr>)
                                   (ch_accounts c) @ [(name, \<lparr>memo_pub = memo, hbd_milli = 0, claimed_tokens = 0\<rparr>)],
                  ch_tx_count := Suc (ch_tx_count c)\<rparr>))"
| "apply_op c (CreateClaimedAccount creator _ owner active posting memo) = (Inl ''Invalid parameters'', c)"
| "apply_op c (TransferOp from to amount memo) =
     (case (map_of (ch_accounts c) from, map_of (ch_accounts c) to) of
        (Some fa, Some ta) \<Rightarrow>
          if from = to \<or> hbd_milli fa < amount then (Inl ''insufficient funds'', c)
          else (Inr (tx_id c),
                c\<lparr>ch_accounts := AList.update to (ta\<lparr>hbd_milli := hbd_milli ta + amount\<rparr>)
                                   (AList.update from (fa\<lparr>hbd_milli := hbd_milli fa - amount\<rparr>) (ch_accounts c)),
                  ch_transfers := ch_transfers c @ [(from, to, amount, memo)],
                  ch_tx_count := Suc (ch_tx_count c)\<rparr>)
      | _ \<Rightarrow> (Inl ''unknown account'', c))"

definition broadcast :: "string option \<Rightarrow> chain \<Rightarrow> chain_op \<Rightarrow> (string + string) \<times> chain" where
  "broadcast fail c op = (case fail of Some e \<Rightarrow> (Inl e, c) | None \<Rightarrow> apply_op c op)"

lemma broadcast_error_unchanged:
  "broadcast fail c op = (Inl e, c') \<Longrightarrow> c' = c"
  by (cases "(c, op)" rule: apply_op.cases)
     (auto simp: broadcast_def split: option.splits if_splits prod.splits)

lemma broadcast_transfers:
  "broadcast fail c op = (r, c') \<Longrightarrow>
     ch_transfers c' = ch_transfers c \<or>
     (\<exists>from to amount memo. op = TransferOp from to amount memo \<and> ch_transfers c' = ch_transfers c @ [(from, to, amount, memo)])"
  by (cases "(c, op)" rule: apply_op.cases)
     (auto simp: broadcast_def split: option.splits if_splits prod.splits)

lemma broadcast_transfer_ok:
  "broadcast fail c (TransferOp from to amount memo) = (Inr tx, c') \<Longrightarrow>
     ch_transfers c' = ch_transfers c @ [(from, to, amount, memo)]"
  by (auto simp: broadcast_def split: option.splits if_splits)

end
