(* ===== verification/Provisioner.thy ===== *)
theory Provisioner
  imports Chain "HOL-Library.Word"
begin

text \<open>
  The resource provisioner: the account-creation half of \<open>BlockchainMonitor\<close>
  (\<open>backend/services/blockchain-monitor.js\<close>).
  \<^item> \<open>generate_master_password\<close> is \<open>generateMasterPassword\<close> (lines 570--588): the
    prefix \<open>P5\<close> and 50 characters of a 58-letter alphabet, the i-th taken from byte
    \<open>i mod 32\<close> of \<open>crypto.randomBytes(32)\<close>, modelled as a function from byte index to
    an 8-bit word.
  \<^item> \<open>generate_account_keys\<close> is \<open>generateAccountKeys\<close> (lines 676--697): four private
    keys from the seeds \<open>name ^ role ^ password\<close>; \<open>PrivateKey.fromSeed\<close> and
    \<open>createPublic\<close> of the ledger library are parameters.
  \<^item> \<open>check_username_availability\<close> (lines 593--601) and \<open>create_hive_account\<close> (lines
    606--671): an RPC lookup, then one signed \<open>create_claimed_account\<close> broadcast.
  \<^item> \<open>generate_mock_account_data\<close> is the unused \<open>generateMockAccountData\<close> (lines
    702--717).
  The lemmas bound the password's shape, prove that it repeats itself after 32 characters
  and that at most \<open>58^32\<close> passwords can be produced, that distinct (name, role) pairs
  never share a derivation seed, and what account creation does on each branch.
\<close>

definition base58_chars :: string where
  "base58_chars = ''123456789ABCDEFGHJKLMNPQRSTUVWXYZabcdefghijkmnopqrstuvwxyz''"

definition generate_master_password :: "(nat \<Rightarrow> 8 word) \<Rightarrow> string" where
  "generate_master_password rb =
     ''P5'' @ map (\<lambda>i. base58_chars ! (unat (rb (i mod 32)) mod length base58_chars)) [0..<50]"

record account_keys =
  k_master_password :: string
  k_owner_key :: string
  k_active_key :: string
  k_posting_key :: string
  k_memo_key :: string
  k_owner_public :: string
  k_active_public :: string
  k_posting_public :: string
  k_memo_public :: string

definition key_roles :: "string list" where
  "key_roles = [''owner'', ''active'', ''posting'', ''memo'']"

definition role_seed :: "jval \<Rightarrow> string \<Rightarrow> string \<Rightarrow> string" where
  "role_seed name role pw = js_to_string name @ role @ pw"

definition generate_account_keys ::
  "(string \<Rightarrow> string) \<Rightarrow> (string \<Rightarrow> string) \<Rightarrow> jval \<Rightarrow> string \<Rightarrow> account_keys" where
  "generate_account_keys from_seed public_of name pw =
     (let owner = from_seed (role_seed name ''owner'' pw);
          active = from_seed (role_seed name ''active'' pw);
          posting = from_seed (role_seed name ''posting'' pw);
          memo = from_seed (role_seed name ''memo'' pw)
      in \<lparr>k_master_password = pw, k_owner_key = owner, k_active_key = active,
          k_posting_key = posting, k_memo_key = memo,
          k_owner_public = public_of owner, k_active_public = public_of active,
          k_posting_public = public_of posting, k_memo_public = public_of memo\<rparr>)"

definition check_username_availability :: "account_lookup \<Rightarrow> bool" where
  "check_username_availability l = (case l of LookupEmpty \<Rightarrow> True | _ \<Rightarrow> False)"

definition create_account_op :: "string \<Rightarrow> jval \<Rightarrow> account_keys \<Rightarrow> chain_op" where
  "create_account_op creator name keys =
     CreateClaimedAccount creator name (k_owner_public keys) (k_active_public keys)
       (k_posting_public keys) (k_memo_public keys)"

datatype create_result = Created string | CreateFailed string

text \<open>\<open>fail\<close> is what stops the signed broadcast before the node applies it: an invalid
  creator key (\<open>PrivateKey.fromString\<close> throws) or a network or signature error.\<close>

definition create_hive_account ::
  "bool \<Rightarrow> string option \<Rightarrow> jval \<Rightarrow> account_keys \<Rightarrow> string \<Rightarrow> chain \<Rightarrow> create_result \<times> chain" where
  "create_hive_account rpc_ok fail name keys creator c =
     (if \<not> check_username_availability (get_account rpc_ok c name)
      then (CreateFailed (''Username @'' @ js_to_string name @ '' is already taken''), c)
      else case broadcast fail c (create_account_op creator name keys) of
             (Inl e, c') \<Rightarrow> (CreateFailed e, c')
           | (Inr tx, c') \<Rightarrow> (Created tx, c'))"

text \<open>\<open>generateMockAccountData(username, requester)\<close> (lines 702-717): a fresh master
  password and the keys derived from it, with the two names; no caller uses it.\<close>

record mock_account =
  ma_username :: jval
  ma_keys :: account_keys
  ma_requester :: jval

definition generate_mock_account_data ::
  "(nat \<Rightarrow> 8 word) \<Rightarrow> (string \<Rightarrow> string) \<Rightarrow> (string \<Rightarrow> string) \<Rightarrow> jval \<Rightarrow> jval \<Rightarrow> mock_account" where
  "generate_mock_account_data rnd from_seed public_of username requester =
     (let pw = generate_master_password rnd;
          keys = generate_account_keys from_seed public_of username pw
      in \<lparr>ma_username = username, ma_keys = keys, ma_requester = requester\<rparr>)"

subsection \<open>Example chain\<close>

text \<open>A chain holding only the faucet's account, with one claimed creation token and one
  HBD, and a key set, for the witnesses.\<close>

definition demo_chain :: chain where
  "demo_chain = \<lparr>ch_accounts = [(''faucet'', \<lparr>memo_pub = ''STMfaucet'', hbd_milli = 1000, claimed_tokens = 1\<rparr>)],
                  ch_transfers = [], ch_tx_count = 0\<rparr>"

definition demo_keys :: account_keys where
  "demo_keys = generate_account_keys (\<lambda>s. ''5K'' @ s) (\<lambda>k. ''STM'' @ k) (JStr ''newuser1'')
                 (generate_master_password (\<lambda>_. 7))"

subsection \<open>The master password\<close>

lemma length_base58_chars [simp]: "length base58_chars = 58"
  by (simp add: base58_chars_def)

lemma base58_nth_mem: "base58_chars ! (n mod 58) \<in> set base58_chars"
  by (rule nth_mem) simp

lemma master_password_alphabet: "set (generate_master_password rb) \<subseteq> set base58_chars"
proof -
  have "set ''P5'' \<subseteq> set base58_chars" by (simp add: base58_chars_def)
  then show ?thesis by (auto simp: generate_master_password_def base58_nth_mem)
qed

text \<open>Every generated master password is 52 characters long, starts with \<open>P5\<close>,
  uses only the 58 characters of the alphabet, and so contains none of the look-alike
  characters \<open>0\<close>, \<open>O\<close>, \<open>I\<close>, \<open>l\<close>.\<close>

theorem master_password_shape:
  "length (generate_master_password rb) = 52
   \<and> take 2 (generate_master_password rb) = ''P5''
   \<and> set (generate_master_password rb) \<subseteq> set base58_chars
   \<and> set (generate_master_password rb) \<inter> set ''0OIl'' = {}"
proof -
  have "set base58_chars \<inter> set ''0OIl'' = {}" by (simp add: base58_chars_def)
  with master_password_alphabet [of rb] show ?thesis
    by (auto simp: generate_master_password_def)
qed

text \<open>The generator draws 32 random bytes for 50 characters, so the last 18
  characters of every password repeat the 18 that follow the prefix (positions 34 to 51
  equal positions 2 to 19): a third of the password carries no entropy of its own.\<close>

theorem master_password_repeats:
  "drop 34 (generate_master_password rb) = take 18 (drop 2 (generate_master_password rb))"
proof -
  let ?f = "\<lambda>i. base58_chars ! (unat (rb (i mod 32)) mod length base58_chars)"
  have up: "[32..<50] = map (\<lambda>i. i + 32) [0..<18]"
    by (simp add: map_add_upt)
  have shift: "(\<lambda>i. ?f (i + 32)) = ?f"
    by (rule ext) simp
  have "drop 32 (map ?f [0..<50]) = map ?f [32..<50]"
    by (simp add: drop_map)
  also have "\<dots> = map (\<lambda>i. ?f (i + 32)) [0..<18]"
    by (simp only: up map_map comp_def)
  also have "\<dots> = map ?f [0..<18]"
    by (simp only: shift)
  also have "\<dots> = take 18 (map ?f [0..<50])"
    by (simp add: take_map)
  finally show ?thesis by (simp add: generate_master_password_def)
qed

text \<open>Whatever the random bytes, at most \<open>58^32\<close> different master passwords can be
  generated (each password is a function of 32 residues modulo 58), fewer than
  \<open>2^188\<close>, against the 256 bits of entropy the source's comment claims.\<close>

theorem master_password_count:
  "card (range generate_master_password) \<le> 58 ^ 32 \<and> (58::nat) ^ 32 < 2 ^ 188"
proof -
  let ?S = "{xs. set xs \<subseteq> {0..<58::nat} \<and> length xs = 32}"
  let ?g = "\<lambda>xs. ''P5'' @ map (\<lambda>i. base58_chars ! (xs ! (i mod 32))) [0..<50]"
  let ?h = "\<lambda>rb. map (\<lambda>j. unat (rb j :: 8 word) mod 58) [0..<32]"
  have eq: "generate_master_password rb = ?g (?h rb)" for rb
    by (simp add: generate_master_password_def)
  have "?h rb \<in> ?S" for rb by auto
  then have sub: "range generate_master_password \<subseteq> ?g ` ?S"
    using eq by blast
  have fin: "finite ?S" by (simp add: finite_lists_length_eq)
  have "card (range generate_master_password) \<le> card (?g ` ?S)"
    using sub fin by (simp add: card_mono)
  also have "\<dots> \<le> card ?S" by (rule card_image_le [OF fin])
  also have "\<dots> = 58 ^ 32" by (simp add: card_lists_length_eq)
  finally show ?thesis by simp
qed

subsection \<open>Key derivation\<close>

lemma key_role_last_inj:
  "r1 \<in> set key_roles \<Longrightarrow> r2 \<in> set key_roles \<Longrightarrow> last r1 = last r2 \<Longrightarrow> r1 = r2"
  by (auto simp: key_roles_def)

text \<open>For passwords of equal length (every generated password has 52 characters),
  two derivation seeds \<open>name ^ role ^ password\<close> with roles among owner, active, posting
  and memo are equal only when the names' strings, the roles and the passwords are: keys of
  different accounts or different roles never come from one seed.\<close>

theorem role_seed_injective:
  assumes "r1 \<in> set key_roles" and "r2 \<in> set key_roles" and "length p1 = length p2"
    and "role_seed n1 r1 p1 = role_seed n2 r2 p2"
  shows "js_to_string n1 = js_to_string n2 \<and> r1 = r2 \<and> p1 = p2"
proof -
  from assms(4) have eq: "(js_to_string n1 @ r1) @ p1 = (js_to_string n2 @ r2) @ p2"
    by (simp add: role_seed_def)
  have "js_to_string n1 @ r1 = js_to_string n2 @ r2 \<and> p1 = p2"
    using append_eq_append_conv [of "js_to_string n1 @ r1" "js_to_string n2 @ r2" p1 p2] assms(3) eq
    by blast
  then have pre: "js_to_string n1 @ r1 = js_to_string n2 @ r2" and "p1 = p2" by simp_all
  have "r1 \<noteq> []" "r2 \<noteq> []" using assms(1,2) by (auto simp: key_roles_def)
  then have "last r1 = last r2" using arg_cong [OF pre, of last] by simp
  with assms(1,2) have "r1 = r2" by (rule key_role_last_inj)
  with pre \<open>p1 = p2\<close> show ?thesis by simp
qed

theorem role_seed_injective_witness:
  "js_to_string (JStr ''newuser1'') = js_to_string (JStr ''newuser1'') \<and> ''owner'' = ''owner''
   \<and> generate_master_password (\<lambda>_. 7) = generate_master_password (\<lambda>_. 7)"
proof -
  have "''owner'' \<in> set key_roles" by (simp add: key_roles_def)
  from role_seed_injective [of "''owner''" "''owner''" "generate_master_password (\<lambda>_. 7)"
      "generate_master_password (\<lambda>_. 7)" "JStr ''newuser1''" "JStr ''newuser1''", OF this this refl refl]
  show ?thesis .
qed

subsection \<open>Account creation\<close>

lemma create_hive_account_cases:
  assumes "create_hive_account rpc_ok fail name keys creator c = (r, c')"
  shows "case r of
           CreateFailed e \<Rightarrow> c' = c
         | Created tx \<Rightarrow> (\<exists>s. name = JStr s \<and> map_of (ch_accounts c) s = None
              \<and> map_of (ch_accounts c') s = Some \<lparr>memo_pub = k_memo_public keys, hbd_milli = 0, claimed_tokens = 0\<rparr>)"
proof (cases fail)
  case None
  show ?thesis
  proof (cases name)
    case (JStr s)
    with None assms show ?thesis
      by (auto simp: create_hive_account_def broadcast_def create_account_op_def get_account_def
          check_username_availability_def map_of_update_fresh map_add_def
          split: option.splits if_splits account_lookup.splits create_result.splits)
  qed (use None assms in \<open>auto simp: create_hive_account_def broadcast_def create_account_op_def
        check_username_availability_def split: if_splits create_result.splits\<close>)
qed (use assms in \<open>auto simp: create_hive_account_def broadcast_def split: if_splits create_result.splits\<close>)

text \<open>C18: \<open>createHiveAccount\<close> either fails and leaves the chain as it was (no
  account, no creation token spent), or succeeds for a string name that was free before and
  afterwards names an account whose memo key is the generated public memo key.\<close>

theorem create_hive_account_result:
  assumes "create_hive_account rpc_ok fail name keys creator c = (r, c')"
  shows "case r of
           CreateFailed e \<Rightarrow> c' = c
         | Created tx \<Rightarrow> (\<exists>s. name = JStr s \<and> map_of (ch_accounts c) s = None
              \<and> map_of (ch_accounts c') s = Some \<lparr>memo_pub = k_memo_public keys, hbd_milli = 0, claimed_tokens = 0\<rparr>)"
  using assms by (rule create_hive_account_cases)

theorem create_hive_account_result_witness:
  "\<exists>c'. create_hive_account True None (JStr ''newuser1'') demo_keys ''faucet'' demo_chain = (Created (tx_id demo_chain), c')
     \<and> map_of (ch_accounts c') ''newuser1'' = Some \<lparr>memo_pub = k_memo_public demo_keys, hbd_milli = 0, claimed_tokens = 0\<rparr>"
proof -
  obtain r c' where eq: "create_hive_account True None (JStr ''newuser1'') demo_keys ''faucet'' demo_chain = (r, c')"
    by fastforce
  have r: "r = Created (tx_id demo_chain)"
    using eq by (simp add: create_hive_account_def get_account_def check_username_availability_def
        broadcast_def create_account_op_def demo_chain_def)
  from create_hive_account_result [OF eq] r eq show ?thesis by auto
qed

text \<open>The mock account's credentials are recoverable: deriving the keys again from its
  name and master password gives back every key it holds, and its master password has the
  generator's shape.\<close>

lemma mock_account_recoverable:
  "generate_account_keys from_seed public_of (ma_username d) (k_master_password (ma_keys d)) = ma_keys d
   \<and> length (k_master_password (ma_keys d)) = 52
   \<and> set (k_master_password (ma_keys d)) \<subseteq> set base58_chars"
  if "d = generate_mock_account_data rnd from_seed public_of u r"
  using that master_password_alphabet [of rnd]
  by (simp add: generate_mock_account_data_def generate_account_keys_def Let_def generate_master_password_def)

end
