(* ===== verification/Delivery.thy ===== *)
theory Delivery
  imports Provisioner
begin

text \<open>
  The delivery router: step 3 of \<open>processAccountRequest\<close>
  (\<open>backend/services/blockchain-monitor.js\<close> lines 376--420) with the two channels it
  calls, \<open>EmailService.sendAccountCredentials\<close> (\<open>email-service.js\<close>, the second file of
  \<open>src/unnamed/part_001\<close>, lines 278--320) and \<open>sendAccountMemo\<close> (lines 449--531) behind
  the balance gate \<open>checkHBDBalance\<close>/\<open>canSendMemo\<close> (lines 536--565).
  Outbound actions go to an explicit log of \<open>effect\<close>s (mail sent, credentials printed to
  the console, operations submitted to the chain); transfers the chain accepts appear in
  its public transfer list. The mail transport and \<open>hive.memo.encode\<close> are parameters of
  \<open>delivery_env\<close>, as are the configuration values the service reads from its
  environment. The lemmas give the overall-success policy (both channels for \<open>both\<close>, the
  requested one otherwise, none for any other method), show that a memo reaches the chain
  only if its payload contains neither the account name nor the master password, and that a
  channel reports success only after its transport accepted the message.
\<close>

record account_data =
  ad_username :: jval
  ad_master_password :: string
  ad_owner_key :: string
  ad_active_key :: string
  ad_posting_key :: string
  ad_memo_key :: string
  ad_transaction_id :: string
  ad_requester :: string

datatype effect =
    MailSent string string
  | CredentialsLogged string
  | ChainSubmit chain_op
  | PendingAdded jval
  | PendingRemoved jval
  | TokenCharged string

datatype chan_error =
    NotRequested | NoRegisteredEmail | EmailNotConfigured | MailError string
  | InsufficientHBD | MissingMemoKey | RecipientLookupFailed string | RecipientNotFound
  | EncryptFailed string | EncryptionLeak | TransferFailed string

datatype channel = ChanOk | ChanFail chan_error

record delivery_env =
  email_configured :: bool
  mail_error :: "string \<Rightarrow> string option"
  rpc_ok :: bool
  creating_account :: string
  creating_memo_key :: string
  memo_encode :: "string \<Rightarrow> string \<Rightarrow> string \<Rightarrow> string + string"
  transfer_fail :: "string option"

subsection \<open>Email channel\<close>

definition email_text :: "account_data \<Rightarrow> string" where
  "email_text ad =
     ''Username: '' @ js_to_string (ad_username ad) @ ''\<newline>Owner Key: '' @ ad_owner_key ad @
     ''\<newline>Active Key: '' @ ad_active_key ad @ ''\<newline>Posting Key: '' @ ad_posting_key ad @
     ''\<newline>Memo Key: '' @ ad_memo_key ad @ ''\<newline>Created by: @'' @ ad_requester ad"

text \<open>\<open>EmailService\<close>'s constructor and \<open>initializeTransporter\<close> (part_001 lines 249-275):
  the service is configured when both \<open>EMAIL_USER\<close> and \<open>EMAIL_APP_PASSWORD\<close> are set
  and \<open>nodemailer.createTransport\<close> did not throw; \<open>email_configured\<close> of the delivery
  environment is this value.\<close>

definition env_set :: "string option \<Rightarrow> bool" where
  "env_set v = (case v of Some s \<Rightarrow> s \<noteq> [] | None \<Rightarrow> False)"

definition initialize_transporter :: "string option \<Rightarrow> string option \<Rightarrow> bool \<Rightarrow> bool" where
  "initialize_transporter user pass create_ok = (env_set user \<and> env_set pass \<and> create_ok)"

datatype conn_result = ConnVerified | ConnNotConfigured | ConnFailed string

text \<open>\<open>testConnection\<close> (lines 322-336): \<open>transporter.verify()\<close> fails with the given error
  or succeeds.\<close>

definition test_connection :: "bool \<Rightarrow> string option \<Rightarrow> conn_result" where
  "test_connection configured verify_error =
     (if \<not> configured then ConnNotConfigured
      else case verify_error of None \<Rightarrow> ConnVerified | Some e \<Rightarrow> ConnFailed e)"

definition send_account_credentials ::
  "delivery_env \<Rightarrow> string \<Rightarrow> account_data \<Rightarrow> channel \<times> effect list" where
  "send_account_credentials env addr ad =
     (if email_configured env then
        (case mail_error env addr of
           None \<Rightarrow> (ChanOk, [MailSent addr (email_text ad)])
         | Some e \<Rightarrow> (ChanFail (MailError e), []))
      else (ChanFail EmailNotConfigured, [CredentialsLogged (email_text ad)]))"

definition deliver_email ::
  "delivery_env \<Rightarrow> jval \<Rightarrow> string option \<Rightarrow> account_data \<Rightarrow> channel \<times> effect list" where
  "deliver_email env dm requester_email ad =
     (if js_str_eq dm ''email'' \<or> js_str_eq dm ''both'' then
        (case requester_email of
           Some addr \<Rightarrow> if js_trim addr \<noteq> [] then send_account_credentials env addr ad
                        else (ChanFail NoRegisteredEmail, [])
         | None \<Rightarrow> (ChanFail NoRegisteredEmail, []))
      else (ChanFail NotRequested, []))"

text \<open>The e-mail test script (\<open>src/unnamed/part_000\<close>): abort without a recipient, stop
  unless the connection verifies, otherwise send the placeholder credentials.\<close>

datatype test_run = TestAborted | TestStopped conn_result | TestSent channel "effect list"

definition email_test_run :: "string option \<Rightarrow> delivery_env \<Rightarrow> string option \<Rightarrow> account_data \<Rightarrow> test_run" where
  "email_test_run recipient env verify_error ad =
     (if \<not> env_set recipient then TestAborted
      else let conn = test_connection (email_configured env) verify_error in
        if conn \<noteq> ConnVerified then TestStopped conn
        else case send_account_credentials env (the recipient) ad of (ch, effs) \<Rightarrow> TestSent ch effs)"

subsection \<open>Memo channel\<close>

definition check_hbd_balance :: "delivery_env \<Rightarrow> chain \<Rightarrow> string \<Rightarrow> int" where
  "check_hbd_balance env c user =
     (case get_account (rpc_ok env) c (JStr user) of LookupFound a \<Rightarrow> hbd_milli a | _ \<Rightarrow> 0)"

definition can_send_memo :: "delivery_env \<Rightarrow> chain \<Rightarrow> string \<Rightarrow> bool" where
  "can_send_memo env c user = (1 \<le> check_hbd_balance env c user)"

definition memo_message :: "account_data \<Rightarrow> string" where
  "memo_message ad =
     ''Account created: '' @ js_to_string (ad_username ad) @ ''\<newline>Master Password: '' @
     ad_master_password ad @ ''\<newline>\<newline>Import this to Keychain to access your account.''"

definition send_account_memo ::
  "delivery_env \<Rightarrow> chain \<Rightarrow> string \<Rightarrow> account_data \<Rightarrow> channel \<times> effect list \<times> chain" where
  "send_account_memo env c recipient ad =
     (case get_account (rpc_ok env) c (JStr recipient) of
        LookupError e \<Rightarrow> (ChanFail (RecipientLookupFailed e), [], c)
      | LookupEmpty \<Rightarrow> (ChanFail RecipientNotFound, [], c)
      | LookupFound a \<Rightarrow>
          (case memo_encode env (creating_memo_key env) (memo_pub a) (''#'' @ memo_message ad) of
             Inl e \<Rightarrow> (ChanFail (EncryptFailed e), [], c)
           | Inr enc \<Rightarrow>
               if js_includes enc (js_to_string (ad_username ad)) \<or> js_includes enc (ad_master_password ad)
               then (ChanFail EncryptionLeak, [], c)
               else
                 let op = TransferOp (creating_account env) recipient 1 enc in
                 (case broadcast (transfer_fail env) c op of
                    (Inl e, c') \<Rightarrow> (ChanFail (TransferFailed e), [ChainSubmit op], c')
                  | (Inr tx, c') \<Rightarrow> (ChanOk, [ChainSubmit op], c'))))"

definition deliver_memo ::
  "delivery_env \<Rightarrow> chain \<Rightarrow> jval \<Rightarrow> string \<Rightarrow> account_data \<Rightarrow> channel \<times> effect list \<times> chain" where
  "deliver_memo env c dm requester ad =
     (if js_str_eq dm ''hive_memo'' \<or> js_str_eq dm ''both'' then
        if \<not> can_send_memo env c (creating_account env) then (ChanFail InsufficientHBD, [], c)
        else if creating_memo_key env = [] then (ChanFail MissingMemoKey, [], c)
        else send_account_memo env c requester ad
      else (ChanFail NotRequested, [], c))"

subsection \<open>Overall success\<close>

definition overall_success :: "jval \<Rightarrow> channel \<Rightarrow> channel \<Rightarrow> bool" where
  "overall_success dm e m =
     (if js_str_eq dm ''both'' then e = ChanOk \<and> m = ChanOk else e = ChanOk \<or> m = ChanOk)"

record delivery_report =
  email_result :: channel
  memo_result :: channel
  delivered :: bool

definition deliver ::
  "delivery_env \<Rightarrow> chain \<Rightarrow> jval \<Rightarrow> string option \<Rightarrow> string \<Rightarrow> account_data \<Rightarrow>
     delivery_report \<times> effect list \<times> chain" where
  "deliver env c dm requester_email requester ad =
     (let (e, effs1) = deliver_email env dm requester_email ad;
          (m, effs2, c') = deliver_memo env c dm requester ad
      in (\<lparr>email_result = e, memo_result = m, delivered = overall_success dm e m\<rparr>, effs1 @ effs2, c'))"

subsection \<open>Example environment\<close>

definition demo_env :: delivery_env where
  "demo_env = \<lparr>email_configured = True, mail_error = (\<lambda>_. None), rpc_ok = True,
     creating_account = ''faucet'', creating_memo_key = ''5Kmemo'',
     memo_encode = (\<lambda>_ _ _. Inr ''#3vK9qR''), transfer_fail = None\<rparr>"

definition demo_delivery_chain :: chain where
  "demo_delivery_chain = \<lparr>ch_accounts =
       [(''faucet'', \<lparr>memo_pub = ''STMfaucet'', hbd_milli = 1000, claimed_tokens = 1\<rparr>),
        (''alice'', \<lparr>memo_pub = ''STMalice'', hbd_milli = 0, claimed_tokens = 0\<rparr>)],
     ch_transfers = [], ch_tx_count = 0\<rparr>"

definition demo_account_data :: account_data where
  "demo_account_data = \<lparr>ad_username = JStr ''newuser1'', ad_master_password = ''P5Jx2'',
     ad_owner_key = ''5Kown'', ad_active_key = ''5Kact'', ad_posting_key = ''5Kpost'',
     ad_memo_key = ''5Kmem'', ad_transaction_id = ''tx0'', ad_requester = ''alice''\<rparr>"

definition demo_delivery :: "delivery_report \<times> effect list \<times> chain" where
  "demo_delivery = deliver demo_env demo_delivery_chain (JStr ''both'') (Some ''alice@example.com'')
     ''alice'' demo_account_data"

text \<open>What the memo channel does to the chain: nothing and no success, or it submitted a
  transfer from the faucet to the recipient whose memo holds neither the account name nor
  the master password, which the chain records exactly when the channel reports success.\<close>

definition memo_outcome :: "delivery_env \<Rightarrow> chain \<Rightarrow> string \<Rightarrow> account_data \<Rightarrow>
    channel \<Rightarrow> effect list \<Rightarrow> chain \<Rightarrow> bool" where
  "memo_outcome env c r ad ch effs c' \<longleftrightarrow>
     (c' = c \<and> ch \<noteq> ChanOk) \<or>
     (\<exists>enc. \<not> sublist (js_to_string (ad_username ad)) enc \<and> \<not> sublist (ad_master_password ad) enc
        \<and> ChainSubmit (TransferOp (creating_account env) r 1 enc) \<in> set effs
        \<and> (if ch = ChanOk then ch_transfers c' = ch_transfers c @ [(creating_account env, r, 1, enc)]
           else c' = c))"

subsection \<open>The channels\<close>

lemma deliver_email_ok:
  "deliver_email env dm em ad = (ChanOk, effs) \<Longrightarrow>
     \<exists>addr. em = Some addr \<and> MailSent addr (email_text ad) \<in> set effs"
  by (auto simp: deliver_email_def send_account_credentials_def split: if_splits option.splits)

lemma email_test_never_logs:
  "email_test_run recipient env verify_error ad = TestSent ch effs \<Longrightarrow> CredentialsLogged (email_text ad) \<notin> set effs"
  by (auto simp: email_test_run_def test_connection_def send_account_credentials_def Let_def
      split: if_splits option.splits)

lemma deliver_email_requested:
  "\<not> (js_str_eq dm ''email'' \<or> js_str_eq dm ''both'') \<Longrightarrow>
     fst (deliver_email env dm em ad) = ChanFail NotRequested"
  by (simp add: deliver_email_def)

lemma send_account_memo_outcome:
  assumes "send_account_memo env c r ad = (ch, effs, c')"
  shows "memo_outcome env c r ad ch effs c'"
  using assms
  by (auto simp: send_account_memo_def memo_outcome_def Let_def
      split: account_lookup.splits sum.splits if_splits prod.splits
      dest: broadcast_transfer_ok broadcast_error_unchanged)

lemma deliver_memo_outcome:
  assumes "deliver_memo env c dm r ad = (ch, effs, c')"
  shows "memo_outcome env c r ad ch effs c'"
  using assms send_account_memo_outcome [of env c r ad]
  by (auto simp: deliver_memo_def memo_outcome_def split: if_splits)

lemma deliver_memo_requested:
  "\<not> (js_str_eq dm ''hive_memo'' \<or> js_str_eq dm ''both'') \<Longrightarrow>
     fst (deliver_memo env c dm r ad) = ChanFail NotRequested"
  by (simp add: deliver_memo_def)

lemma deliver_split:
  "deliver env c dm em r ad =
     (\<lparr>email_result = fst (deliver_email env dm em ad),
       memo_result = fst (deliver_memo env c dm r ad),
       delivered = overall_success dm (fst (deliver_email env dm em ad)) (fst (deliver_memo env c dm r ad))\<rparr>,
      snd (deliver_email env dm em ad) @ fst (snd (deliver_memo env c dm r ad)),
      snd (snd (deliver_memo env c dm r ad)))"
  by (simp add: deliver_def split: prod.splits)

text \<open>C19: the overall-success policy. For \<open>both\<close> the delivery succeeds only if both
  channels do; for \<open>email\<close> or \<open>hive_memo\<close> the requested channel decides; for any
  other \<open>delivery_method\<close> (which \<open>validateRequest\<close> lets through) no channel is tried
  and the delivery never succeeds.\<close>

theorem deliver_policy:
  "delivered (fst (deliver env c dm em r ad)) =
     (if js_str_eq dm ''both'' then email_result (fst (deliver env c dm em r ad)) = ChanOk
                                     \<and> memo_result (fst (deliver env c dm em r ad)) = ChanOk
      else if js_str_eq dm ''email'' then email_result (fst (deliver env c dm em r ad)) = ChanOk
      else if js_str_eq dm ''hive_memo'' then memo_result (fst (deliver env c dm em r ad)) = ChanOk
      else False)"
  by (cases dm) (auto simp: deliver_split overall_success_def deliver_email_requested deliver_memo_requested)

text \<open>C20: whatever the environment returns, the only transfer a delivery adds to the
  chain's public record is one from the faucet to the requester, and its memo contains
  neither the new account's name nor its master password: a payload that does is stopped
  before broadcast as an encryption leak.\<close>

theorem deliver_memo_no_leak:
  "ch_transfers (snd (snd (deliver env c dm em r ad))) = ch_transfers c
   \<or> (\<exists>enc. ch_transfers (snd (snd (deliver env c dm em r ad))) = ch_transfers c @ [(creating_account env, r, 1, enc)]
        \<and> \<not> sublist (js_to_string (ad_username ad)) enc \<and> \<not> sublist (ad_master_password ad) enc)"
proof -
  obtain ch effs c' where eq: "deliver_memo env c dm r ad = (ch, effs, c')"
    by (cases "deliver_memo env c dm r ad") auto
  from deliver_memo_outcome [OF eq] show ?thesis
    by (auto simp: deliver_split eq memo_outcome_def split: if_splits)
qed

text \<open>C21: a channel reports success only after its transport accepted the message: the
  email channel only with a registered address to which the credentials mail was sent, the
  memo channel only with a transfer carrying the encrypted memo that the chain recorded.\<close>

theorem deliver_success_sent:
  assumes "deliver env c dm em r ad = (rep, effs, c')"
  shows "(email_result rep = ChanOk \<longrightarrow> (\<exists>addr. em = Some addr \<and> MailSent addr (email_text ad) \<in> set effs))
       \<and> (memo_result rep = ChanOk \<longrightarrow> (\<exists>enc. ChainSubmit (TransferOp (creating_account env) r 1 enc) \<in> set effs
             \<and> ch_transfers c' = ch_transfers c @ [(creating_account env, r, 1, enc)]))"
proof -
  obtain e effs1 where e: "deliver_email env dm em ad = (e, effs1)"
    by fastforce
  obtain m effs2 c2 where m: "deliver_memo env c dm r ad = (m, effs2, c2)"
    by (cases "deliver_memo env c dm r ad") auto
  from assms have rep: "email_result rep = e" "memo_result rep = m" "effs = effs1 @ effs2" "c' = c2"
    by (auto simp: deliver_split e m)
  have "e = ChanOk \<longrightarrow> (\<exists>addr. em = Some addr \<and> MailSent addr (email_text ad) \<in> set effs1)"
    using deliver_email_ok e by blast
  moreover have "memo_outcome env c r ad m effs2 c2"
    using m by (rule deliver_memo_outcome)
  ultimately show ?thesis
    using rep by (auto simp: memo_outcome_def)
qed

theorem deliver_success_sent_witness:
  "email_result (fst demo_delivery) = ChanOk
   \<and> MailSent ''alice@example.com'' (email_text demo_account_data) \<in> set (fst (snd demo_delivery))
   \<and> memo_result (fst demo_delivery) = ChanOk
   \<and> (\<exists>enc. ChainSubmit (TransferOp ''faucet'' ''alice'' 1 enc) \<in> set (fst (snd demo_delivery))
       \<and> ch_transfers (snd (snd demo_delivery)) = [(''faucet'', ''alice'', 1, enc)])"
proof -
  obtain rep effs c' where d: "demo_delivery = (rep, effs, c')"
    by (cases demo_delivery) auto
  have ok: "email_result rep = ChanOk" "memo_result rep = ChanOk"
    using d [symmetric] by (simp_all add: demo_delivery_def deliver_def deliver_email_def
        deliver_memo_def send_account_credentials_def send_account_memo_def can_send_memo_def
        check_hbd_balance_def demo_env_def demo_delivery_chain_def Let_def js_trim_def js_ws_def
        get_account_def broadcast_def demo_account_data_def sublist_Cons_right)
  have "deliver demo_env demo_delivery_chain (JStr ''both'') (Some ''alice@example.com'') ''alice''
      demo_account_data = (rep, effs, c')"
    using d by (simp only: demo_delivery_def)
  from deliver_success_sent [OF this] ok show ?thesis
    by (simp add: d demo_env_def demo_delivery_chain_def)
qed

end
