(* ===== verification/Pipeline.thy ===== *)
theory Pipeline
  imports Pending Delivery
begin

text \<open>
  The request pipeline of \<open>BlockchainMonitor\<close>
  (\<open>backend/services/blockchain-monitor.js\<close>): \<open>processBlock\<close> (lines 186--201) walks
  the transactions and operations of a block in order, \<open>processCustomJson\<close> (lines
  206--240) filters the faucet's custom_json operations, decodes and validates them, and
  \<open>processAccountRequest\<close> (lines 294--444) runs one request through authorization,
  password and key generation, account creation, the recovery record, delivery, and on
  success the token charge and the removal of the recovery record.
  The state \<open>faucet_state\<close> holds the three things the pipeline changes: the quota file,
  the recovery file and the chain, plus the count of random draws and the log of outbound
  effects. \<open>faucet_env\<close> holds what the pipeline reads but does not change: the delivery
  environment, the clock, the random bytes of each draw, the ledger library's key
  derivation, the failures injected into account-creation broadcasts, and the outcome of
  each kind of file write.
\<close>

record account_request =
  rq_requester :: string
  rq_username :: jval
  rq_method :: jval
  rq_block :: nat
  rq_tx :: string

record faucet_state =
  users :: user_file
  pending :: pending_file
  hive :: chain
  rng_calls :: nat
  effects :: "effect list"

record faucet_env =
  denv :: delivery_env
  clock :: timestamp
  random_bytes :: "nat \<Rightarrow> nat \<Rightarrow> 8 word"
  from_seed :: "string \<Rightarrow> string"
  public_of :: "string \<Rightarrow> string"
  create_fail :: "jval \<Rightarrow> string option"
  users_write :: write_outcome
  pending_add_write :: write_outcome
  pending_remove_write :: write_outcome

datatype request_outcome =
    Rejected auth_denial
  | CreationFailed string
  | Stranded delivery_report
  | Fulfilled bool

definition account_data_of :: "account_request \<Rightarrow> string \<Rightarrow> account_keys \<Rightarrow> string \<Rightarrow> account_data" where
  "account_data_of rq pw keys tx =
     \<lparr>ad_username = rq_username rq, ad_master_password = pw,
      ad_owner_key = k_owner_key keys, ad_active_key = k_active_key keys,
      ad_posting_key = k_posting_key keys, ad_memo_key = k_memo_key keys,
      ad_transaction_id = tx, ad_requester = rq_requester rq\<rparr>"

definition pending_record_of :: "timestamp \<Rightarrow> account_data \<Rightarrow> pending_record" where
  "pending_record_of now ad =
     \<lparr>p_username = ad_username ad, p_created_at = now, p_requester = ad_requester ad,
      p_master_password = ad_master_password ad, p_owner_key = ad_owner_key ad,
      p_active_key = ad_active_key ad, p_posting_key = ad_posting_key ad,
      p_memo_key = ad_memo_key ad, p_transaction_id = ad_transaction_id ad\<rparr>"

text \<open>Step 4 after a successful delivery: \<open>useToken\<close>, whose result is only logged, then
  \<open>removePending\<close>.\<close>

definition finish_request :: "faucet_env \<Rightarrow> account_request \<Rightarrow> faucet_state \<Rightarrow> bool \<times> faucet_state" where
  "finish_request env rq s =
     (let (ok, uf) = use_token (clock env) (users_write env) (rq_requester rq) (users s);
          s1 = s\<lparr>users := uf, effects := effects s @ (if ok then [TokenCharged (rq_requester rq)] else [])\<rparr>
      in (ok, s1\<lparr>pending := remove_pending (pending_remove_write env) (rq_username rq) (pending s1),
                 effects := effects s1 @ [PendingRemoved (rq_username rq)]\<rparr>))"

definition process_account_request ::
  "faucet_env \<Rightarrow> account_request \<Rightarrow> faucet_state \<Rightarrow> request_outcome \<times> faucet_state" where
  "process_account_request env rq s =
     (case check_authorization (users s) (rq_requester rq) of
        Denied r \<Rightarrow> (Rejected r, s)
      | Authorized usr \<Rightarrow>
          let pw = generate_master_password (random_bytes env (rng_calls s));
              s1 = s\<lparr>rng_calls := Suc (rng_calls s)\<rparr>;
              keys = generate_account_keys (from_seed env) (public_of env) (rq_username rq) pw
          in case create_hive_account (rpc_ok (denv env)) (create_fail env (rq_username rq)) (rq_username rq)
                    keys (creating_account (denv env)) (hive s1) of
               (CreateFailed e, c1) \<Rightarrow> (CreationFailed e, s1\<lparr>hive := c1\<rparr>)
             | (Created tx, c1) \<Rightarrow>
                 let ad = account_data_of rq pw keys tx;
                     s2 = s1\<lparr>hive := c1,
                             pending := add_pending (pending_add_write env) (pending_record_of (clock env) ad) (pending s1),
                             effects := effects s1 @ [PendingAdded (rq_username rq)]\<rparr>
                 in case deliver (denv env) (hive s2) (rq_method rq) (email usr) (rq_requester rq) ad of
                      (rep, effs, c2) \<Rightarrow>
                        let s3 = s2\<lparr>hive := c2, effects := effects s2 @ effs\<rparr>
                        in if delivered rep then (case finish_request env rq s3 of (ok, s4) \<Rightarrow> (Fulfilled ok, s4))
                           else (Stranded rep, s3))"

subsection \<open>Operations of a block\<close>

record custom_json_op =
  cj_id :: string
  cj_json :: "jval option"
  cj_posting_auths :: "string list"
  cj_auths :: "string list"

datatype block_op = CustomJsonOp custom_json_op | OtherOp string

record transaction =
  transaction_id :: string
  operations :: "block_op list"

datatype op_outcome =
    NotFaucetOp
  | ParseFailed
  | ValidationThrew
  | InvalidFormat
  | Processed request_outcome

text \<open>\<open>required_posting_auths[0] || required_auths[0]\<close>; a missing first element is
  \<open>undefined\<close>, which becomes the key \<open>"undefined"\<close> of the ledger lookup.\<close>

definition first_auth :: "string list \<Rightarrow> string list \<Rightarrow> string" where
  "first_auth pa ra =
     (case pa of p # _ \<Rightarrow> if p \<noteq> [] then p else (case ra of r # _ \<Rightarrow> r | [] \<Rightarrow> ''undefined'')
               | [] \<Rightarrow> (case ra of r # _ \<Rightarrow> r | [] \<Rightarrow> ''undefined''))"

text \<open>\<open>v.data.k\<close> of a payload that \<open>validateRequest\<close> accepted.\<close>

definition request_field :: "jval \<Rightarrow> string \<Rightarrow> jval" where
  "request_field v k =
     (case js_member v ''data'' of
        Inr d \<Rightarrow> (case js_member d k of Inr x \<Rightarrow> x | Inl _ \<Rightarrow> JUndefined)
      | Inl _ \<Rightarrow> JUndefined)"

definition process_custom_json ::
  "faucet_env \<Rightarrow> custom_json_op \<Rightarrow> nat \<Rightarrow> string \<Rightarrow> faucet_state \<Rightarrow> op_outcome \<times> faucet_state" where
  "process_custom_json env op blk txid s =
     (if cj_id op \<noteq> faucet_app_id then (NotFaucetOp, s)
      else case cj_json op of
        None \<Rightarrow> (ParseFailed, s)
      | Some v \<Rightarrow>
          (case validate_request v of
             Inl _ \<Rightarrow> (ValidationThrew, s)
           | Inr False \<Rightarrow> (InvalidFormat, s)
           | Inr True \<Rightarrow>
               let rq = \<lparr>rq_requester = first_auth (cj_posting_auths op) (cj_auths op),
                         rq_username = request_field v ''requested_username'',
                         rq_method = request_field v ''delivery_method'', rq_block = blk, rq_tx = txid\<rparr>
               in case process_account_request env rq s of (out, s') \<Rightarrow> (Processed out, s')))"

fun process_ops ::
  "faucet_env \<Rightarrow> nat \<Rightarrow> string \<Rightarrow> block_op list \<Rightarrow> faucet_state \<Rightarrow> op_outcome list \<times> faucet_state" where
  "process_ops env blk txid [] s = ([], s)"
| "process_ops env blk txid (OtherOp _ # ops) s = process_ops env blk txid ops s"
| "process_ops env blk txid (CustomJsonOp op # ops) s =
     (case process_custom_json env op blk txid s of
        (o1, s1) \<Rightarrow> (case process_ops env blk txid ops s1 of (os, s2) \<Rightarrow> (o1 # os, s2)))"

fun process_block ::
  "faucet_env \<Rightarrow> nat \<Rightarrow> transaction list \<Rightarrow> faucet_state \<Rightarrow> op_outcome list \<times> faucet_state" where
  "process_block env blk [] s = ([], s)"
| "process_block env blk (t # ts) s =
     (case process_ops env blk (transaction_id t) (operations t) s of
        (os1, s1) \<Rightarrow> (case process_block env blk ts s1 of (os2, s2) \<Rightarrow> (os1 @ os2, s2)))"

text \<open>The effects a delivery can have: a mail, credentials printed, a chain submission.\<close>

definition delivery_effect :: "effect \<Rightarrow> bool" where
  "delivery_effect e = (case e of MailSent _ _ \<Rightarrow> True | CredentialsLogged _ \<Rightarrow> True
                                 | ChainSubmit _ \<Rightarrow> True | _ \<Rightarrow> False)"

subsection \<open>Scenarios\<close>

text \<open>The spec's scenarios (\<open>spec.md\<close> section 8): sponsor \<open>alice\<close> with one token and
  a registered address, the faucet holding one claimed token and one HBD, every write and
  transport succeeding unless a scenario says otherwise.\<close>

definition scen_env :: faucet_env where
  "scen_env = \<lparr>denv = demo_env, clock = 100, random_bytes = (\<lambda>_ _. 7), from_seed = (\<lambda>s. ''5K'' @ s),
     public_of = (\<lambda>k. ''STM'' @ k), create_fail = (\<lambda>_. None), users_write = Written,
     pending_add_write = Written, pending_remove_write = Written\<rparr>"

definition scen_env_no_memo :: faucet_env where
  "scen_env_no_memo = scen_env\<lparr>denv := demo_env\<lparr>creating_memo_key := []\<rparr>\<rparr>"

definition scen_user :: auth_user where
  "scen_user = \<lparr>tokens_allocated = 1, tokens_used = 0, tokens_remaining = 1,
     email = Some ''alice@example.com'', user_created_at = 0, last_used = None,
     is_active = True, user_notes = []\<rparr>"

definition scen_db :: "auth_user \<Rightarrow> user_db" where
  "scen_db u = \<lparr>authorized_users = [(''alice'', u)],
       metadata = \<lparr>meta_created_at = 0, last_updated = 0, total_users = 1,
                   total_tokens_allocated = 1, total_tokens_used = tokens_used u\<rparr>\<rparr>"

definition scen_state :: "auth_user \<Rightarrow> faucet_state" where
  "scen_state u = \<lparr>users = Holds (scen_db u), pending = Holds [], hive = demo_delivery_chain,
     rng_calls = 0, effects = []\<rparr>"

definition scen_request :: "string \<Rightarrow> string \<Rightarrow> account_request" where
  "scen_request name dm = \<lparr>rq_requester = ''alice'', rq_username = JStr name,
     rq_method = JStr dm, rq_block = 5, rq_tx = ''T''\<rparr>"

lemmas scenario_defs = process_account_request_def scen_env_def scen_state_def scen_request_def
  scen_user_def scen_db_def check_authorization_def load_data_def create_hive_account_def
  get_account_def check_username_availability_def broadcast_def create_account_op_def
  demo_delivery_chain_def deliver_def deliver_email_def deliver_memo_def send_account_credentials_def
  demo_env_def overall_success_def finish_request_def use_token_def save_data_def get_user_def
  pending_names_def account_data_of_def pending_record_of_def add_pending_def remove_pending_def
  save_pending_def load_pending_def js_trim_def js_ws_def Let_def generate_account_keys_def
  can_send_memo_def check_hbd_balance_def

text \<open>The spec's first scenario. \<open>alice\<close> has one token left; a valid request for
  \<open>newuser1\<close> by email arrives; the account is created and the mail sent. The request
  ends fulfilled with the token charged: \<open>alice\<close> has no token left and no recovery
  record for \<open>newuser1\<close> remains.\<close>

theorem scenario_fulfilled:
  "fst (process_account_request scen_env (scen_request ''newuser1'' ''email'') (scen_state scen_user)) = Fulfilled True
   \<and> map_option tokens_remaining (get_user (users (snd (process_account_request scen_env
         (scen_request ''newuser1'' ''email'') (scen_state scen_user)))) ''alice'') = Some 0
   \<and> JStr ''newuser1'' \<notin> set (pending_names (pending (snd (process_account_request scen_env
         (scen_request ''newuser1'' ''email'') (scen_state scen_user)))))"
  by (simp add: scenario_defs)

text \<open>When account creation fails (name taken, RPC error, broadcast rejected) the
  request ends there: the quota file, the recovery file, the chain and the effect log are
  as before, so no token is spent and the same request can safely be retried.\<close>

theorem process_request_creation_failed:
  assumes "process_account_request env rq s = (CreationFailed e, s')"
  shows "users s' = users s \<and> pending s' = pending s \<and> hive s' = hive s \<and> effects s' = effects s"
proof (cases "check_authorization (users s) (rq_requester rq)")
  case (Authorized usr)
  let ?pw = "generate_master_password (random_bytes env (rng_calls s))"
  let ?keys = "generate_account_keys (from_seed env) (public_of env) (rq_username rq) ?pw"
  obtain r c1 where cr: "create_hive_account (rpc_ok (denv env)) (create_fail env (rq_username rq))
      (rq_username rq) ?keys (creating_account (denv env)) (hive s) = (r, c1)"
    by fastforce
  show ?thesis
  proof (cases r)
    case (CreateFailed e')
    with create_hive_account_cases [OF cr] have "c1 = hive s" by simp
    with assms Authorized cr CreateFailed show ?thesis
      by (auto simp: process_account_request_def Let_def)
  next
    case (Created tx)
    with assms Authorized cr show ?thesis
      by (simp add: process_account_request_def Let_def split: prod.splits if_splits)
  qed
qed (use assms in \<open>simp add: process_account_request_def\<close>)

theorem process_request_creation_failed_witness:
  "fst (process_account_request scen_env (scen_request ''alice'' ''email'') (scen_state scen_user)) = CreationFailed ''Username @alice is already taken''
   \<and> users (snd (process_account_request scen_env (scen_request ''alice'' ''email'') (scen_state scen_user))) = users (scen_state scen_user) \<and> pending (snd (process_account_request scen_env (scen_request ''alice'' ''email'') (scen_state scen_user))) = pending (scen_state scen_user)
   \<and> hive (snd (process_account_request scen_env (scen_request ''alice'' ''email'') (scen_state scen_user))) = hive (scen_state scen_user) \<and> effects (snd (process_account_request scen_env (scen_request ''alice'' ''email'') (scen_state scen_user))) = effects (scen_state scen_user)"
proof -
  have out: "fst (process_account_request scen_env (scen_request ''alice'' ''email'') (scen_state scen_user)) = CreationFailed ''Username @alice is already taken''"
    by (simp add: scenario_defs)
  then have "(process_account_request scen_env (scen_request ''alice'' ''email'') (scen_state scen_user)) = (CreationFailed ''Username @alice is already taken'', snd (process_account_request scen_env (scen_request ''alice'' ''email'') (scen_state scen_user)))"
    by (metis prod.collapse)
  from process_request_creation_failed [OF this] out show ?thesis by simp
qed

lemma deliver_email_effects: "list_all delivery_effect (snd (deliver_email env dm em ad))"
  by (simp add: deliver_email_def send_account_credentials_def delivery_effect_def split: option.splits)

lemma deliver_memo_effects: "list_all delivery_effect (fst (snd (deliver_memo env c dm r ad)))"
  by (simp add: deliver_memo_def send_account_memo_def delivery_effect_def Let_def
      split: account_lookup.splits sum.splits prod.splits)

lemma deliver_effects: "list_all delivery_effect (fst (snd (deliver env c dm em r ad)))"
  by (simp add: deliver_split deliver_email_effects deliver_memo_effects)

lemma finish_request_shape:
  "finish_request env rq s = (ok, s') \<Longrightarrow>
     effects s' = effects s @ (if ok then [TokenCharged (rq_requester rq)] else []) @ [PendingRemoved (rq_username rq)]
   \<and> users s' = snd (use_token (clock env) (users_write env) (rq_requester rq) (users s))
   \<and> pending s' = remove_pending (pending_remove_write env) (rq_username rq) (pending s)
   \<and> hive s' = hive s \<and> ok = fst (use_token (clock env) (users_write env) (rq_requester rq) (users s))"
  by (auto simp: finish_request_def Let_def split: prod.splits)

text \<open>The run of one request once its account was created, as the theorems below use it.\<close>

lemma process_request_created:
  assumes auth: "check_authorization (users s) (rq_requester rq) = Authorized usr"
    and cr: "create_hive_account (rpc_ok (denv env)) (create_fail env (rq_username rq)) (rq_username rq)
       (generate_account_keys (from_seed env) (public_of env) (rq_username rq)
          (generate_master_password (random_bytes env (rng_calls s))))
       (creating_account (denv env)) (hive s) = (Created tx, c1)"
    and dl: "deliver (denv env) c1 (rq_method rq) (email usr) (rq_requester rq)
       (account_data_of rq (generate_master_password (random_bytes env (rng_calls s)))
          (generate_account_keys (from_seed env) (public_of env) (rq_username rq)
             (generate_master_password (random_bytes env (rng_calls s)))) tx) = (rep, effs, c2)"
  defines "pw \<equiv> generate_master_password (random_bytes env (rng_calls s))"
  defines "s3 \<equiv> s\<lparr>rng_calls := Suc (rng_calls s),
       pending := add_pending (pending_add_write env)
         (pending_record_of (clock env) (account_data_of rq pw
            (generate_account_keys (from_seed env) (public_of env) (rq_username rq) pw) tx)) (pending s),
       hive := c2, effects := effects s @ [PendingAdded (rq_username rq)] @ effs\<rparr>"
  shows "process_account_request env rq s =
     (if delivered rep then (case finish_request env rq s3 of (ok, s4) \<Rightarrow> (Fulfilled ok, s4))
      else (Stranded rep, s3))"
  using auth cr dl by (simp add: process_account_request_def pw_def s3_def Let_def)

text \<open>C25: a request that is created but not delivered (the stranded state) keeps its
  recovery record and spends no token: if the recovery write completed, the recovery file
  holds the earlier records followed by one record for the requested name, whose stored
  keys are exactly the keys derived from the stored master password, so the operator can
  hand them over or re-derive them.\<close>

theorem process_request_stranded:
  assumes run: "process_account_request env rq s = (Stranded rep, s')"
    and w: "pending_add_write env = Written"
  shows "\<not> delivered rep \<and> users s' = users s
   \<and> (\<exists>r. load_pending (pending s') = load_pending (pending s) @ [r]
          \<and> p_username r = rq_username rq \<and> p_requester r = rq_requester rq
          \<and> p_owner_key r = from_seed env (role_seed (rq_username rq) ''owner'' (p_master_password r))
          \<and> p_active_key r = from_seed env (role_seed (rq_username rq) ''active'' (p_master_password r))
          \<and> p_posting_key r = from_seed env (role_seed (rq_username rq) ''posting'' (p_master_password r))
          \<and> p_memo_key r = from_seed env (role_seed (rq_username rq) ''memo'' (p_master_password r)))"
proof (cases "check_authorization (users s) (rq_requester rq)")
  case (Authorized usr)
  let ?pw = "generate_master_password (random_bytes env (rng_calls s))"
  let ?keys = "generate_account_keys (from_seed env) (public_of env) (rq_username rq) ?pw"
  obtain r c1 where cr: "create_hive_account (rpc_ok (denv env)) (create_fail env (rq_username rq))
      (rq_username rq) ?keys (creating_account (denv env)) (hive s) = (r, c1)"
    by fastforce
  show ?thesis
  proof (cases r)
    case (CreateFailed e)
    with run Authorized cr show ?thesis by (simp add: process_account_request_def Let_def)
  next
    case (Created tx)
    obtain rep' effs c2 where dl: "deliver (denv env) c1 (rq_method rq) (email usr) (rq_requester rq)
        (account_data_of rq ?pw ?keys tx) = (rep', effs, c2)"
      by (cases "deliver (denv env) c1 (rq_method rq) (email usr) (rq_requester rq) (account_data_of rq ?pw ?keys tx)") auto
    from process_request_created [OF Authorized cr [unfolded Created] dl] run
    have "\<not> delivered rep' \<and> rep = rep'" and s': "s' = s\<lparr>rng_calls := Suc (rng_calls s),
       pending := add_pending (pending_add_write env) (pending_record_of (clock env) (account_data_of rq ?pw ?keys tx)) (pending s),
       hive := c2, effects := effects s @ [PendingAdded (rq_username rq)] @ effs\<rparr>"
      by (auto split: if_splits prod.splits)
    then show ?thesis
      using w by (simp add: pending_record_of_def account_data_of_def generate_account_keys_def Let_def)
  qed
qed (use run in \<open>simp add: process_account_request_def\<close>)


theorem process_request_stranded_witness:
  "fst (process_account_request scen_env_no_memo (scen_request ''newuser3'' ''both'') (scen_state (scen_user\<lparr>email := None\<rparr>))) = Stranded \<lparr>email_result = ChanFail NoRegisteredEmail, memo_result = ChanFail MissingMemoKey, delivered = False\<rparr>
   \<and> users (snd (process_account_request scen_env_no_memo (scen_request ''newuser3'' ''both'') (scen_state (scen_user\<lparr>email := None\<rparr>)))) = users (scen_state (scen_user\<lparr>email := None\<rparr>))
   \<and> (\<exists>r. load_pending (pending (snd (process_account_request scen_env_no_memo (scen_request ''newuser3'' ''both'') (scen_state (scen_user\<lparr>email := None\<rparr>))))) = [r] \<and> p_username r = JStr ''newuser3''
         \<and> p_owner_key r = from_seed scen_env_no_memo (role_seed (JStr ''newuser3'') ''owner'' (p_master_password r)))"
proof -
  have out: "fst (process_account_request scen_env_no_memo (scen_request ''newuser3'' ''both'') (scen_state (scen_user\<lparr>email := None\<rparr>))) = Stranded \<lparr>email_result = ChanFail NoRegisteredEmail, memo_result = ChanFail MissingMemoKey, delivered = False\<rparr>"
    by (simp add: scenario_defs scen_env_no_memo_def)
  then have eq: "(process_account_request scen_env_no_memo (scen_request ''newuser3'' ''both'') (scen_state (scen_user\<lparr>email := None\<rparr>))) = (Stranded \<lparr>email_result = ChanFail NoRegisteredEmail, memo_result = ChanFail MissingMemoKey, delivered = False\<rparr>, snd (process_account_request scen_env_no_memo (scen_request ''newuser3'' ''both'') (scen_state (scen_user\<lparr>email := None\<rparr>))))"
    by (metis prod.collapse)
  have w: "pending_add_write scen_env_no_memo = Written"
    by (simp add: scen_env_no_memo_def scen_env_def)
  from process_request_stranded [OF eq w] out show ?thesis
    by (auto simp: scen_state_def scen_request_def)
qed

text \<open>The order of one request's effects. A rejected request or a failed creation
  has none. Otherwise the recovery record is added first, before any delivery effect (mail,
  printed credentials, chain submission); a stranded request stops there; a fulfilled one
  then charges the token (at most once, and only if \<open>useToken\<close> succeeded) and removes
  the recovery record last.\<close>

theorem process_request_effects:
  assumes run: "process_account_request env rq s = (out, s')"
  shows "\<exists>new. effects s' = effects s @ new \<and>
    (case out of
       Rejected _ \<Rightarrow> new = []
     | CreationFailed _ \<Rightarrow> new = []
     | Stranded _ \<Rightarrow> (\<exists>d. new = PendingAdded (rq_username rq) # d \<and> list_all delivery_effect d)
     | Fulfilled ok \<Rightarrow> (\<exists>d. new = PendingAdded (rq_username rq) # d
           @ (if ok then [TokenCharged (rq_requester rq)] else []) @ [PendingRemoved (rq_username rq)]
         \<and> list_all delivery_effect d))"
proof (cases "check_authorization (users s) (rq_requester rq)")
  case (Authorized usr)
  let ?pw = "generate_master_password (random_bytes env (rng_calls s))"
  let ?keys = "generate_account_keys (from_seed env) (public_of env) (rq_username rq) ?pw"
  obtain r c1 where cr: "create_hive_account (rpc_ok (denv env)) (create_fail env (rq_username rq))
      (rq_username rq) ?keys (creating_account (denv env)) (hive s) = (r, c1)"
    by fastforce
  show ?thesis
  proof (cases r)
    case (CreateFailed e)
    with run Authorized cr show ?thesis by (auto simp: process_account_request_def Let_def)
  next
    case (Created tx)
    obtain rep effs c2 where dl: "deliver (denv env) c1 (rq_method rq) (email usr) (rq_requester rq)
        (account_data_of rq ?pw ?keys tx) = (rep, effs, c2)"
      by (cases "deliver (denv env) c1 (rq_method rq) (email usr) (rq_requester rq) (account_data_of rq ?pw ?keys tx)") auto
    have d: "list_all delivery_effect effs"
      using deliver_effects [of "denv env" c1 "rq_method rq" "email usr" "rq_requester rq" "account_data_of rq ?pw ?keys tx"] dl
      by simp
    note unfold = process_request_created [OF Authorized cr [unfolded Created] dl]
    show ?thesis
    proof (cases "delivered rep")
      case True
      obtain ok s4 where fin: "finish_request env rq (s\<lparr>rng_calls := Suc (rng_calls s),
          pending := add_pending (pending_add_write env) (pending_record_of (clock env) (account_data_of rq ?pw ?keys tx)) (pending s),
          hive := c2, effects := effects s @ [PendingAdded (rq_username rq)] @ effs\<rparr>) = (ok, s4)"
        by fastforce
      from unfold True fin run have "out = Fulfilled ok" "s' = s4" by simp_all
      with finish_request_shape [OF fin] d show ?thesis by auto
    next
      case False
      with unfold run d show ?thesis by auto
    qed
  qed
qed (use run in \<open>auto simp: process_account_request_def\<close>)

theorem process_request_effects_witness:
  "\<exists>new. effects (snd (process_account_request scen_env (scen_request ''newuser1'' ''email'') (scen_state scen_user))) = effects (scen_state scen_user) @ new \<and>
    (case fst (process_account_request scen_env (scen_request ''newuser1'' ''email'') (scen_state scen_user)) of
       Rejected _ \<Rightarrow> new = []
     | CreationFailed _ \<Rightarrow> new = []
     | Stranded _ \<Rightarrow> (\<exists>d. new = PendingAdded (rq_username (scen_request ''newuser1'' ''email'')) # d \<and> list_all delivery_effect d)
     | Fulfilled ok \<Rightarrow> (\<exists>d. new = PendingAdded (rq_username (scen_request ''newuser1'' ''email'')) # d
           @ (if ok then [TokenCharged (rq_requester (scen_request ''newuser1'' ''email''))] else []) @ [PendingRemoved (rq_username (scen_request ''newuser1'' ''email''))]
         \<and> list_all delivery_effect d))"
  by (rule process_request_effects) (rule prod.collapse [symmetric])


text \<open>Replaying a request whose account already exists (a block processed again
  after a restart from an older cursor) has no effect beyond drawing a password: it is
  rejected by the quota ledger or fails at creation, with the quota file, the recovery
  file, the chain and the effect log unchanged.\<close>

theorem replay_existing_name_harmless:
  assumes "rq_username rq = JStr n" and "map_of (ch_accounts (hive s)) n \<noteq> None"
  shows "(\<exists>r. process_account_request env rq s = (Rejected r, s))
       \<or> (\<exists>e. process_account_request env rq s = (CreationFailed e, s\<lparr>rng_calls := Suc (rng_calls s)\<rparr>))"
  using assms
  by (auto simp: process_account_request_def create_hive_account_def get_account_def
      check_username_availability_def Let_def split: auth_result.splits option.splits)

theorem replay_existing_name_harmless_witness:
  "(\<exists>r. process_account_request scen_env (scen_request ''alice'' ''email'') (scen_state scen_user) = (Rejected r, scen_state scen_user))
   \<or> (\<exists>e. process_account_request scen_env (scen_request ''alice'' ''email'') (scen_state scen_user)
          = (CreationFailed e, (scen_state scen_user)\<lparr>rng_calls := Suc (rng_calls (scen_state scen_user))\<rparr>))"
  by (rule replay_existing_name_harmless [where n="''alice''"]) (simp_all add: scen_request_def scen_state_def demo_delivery_chain_def)

end
