(* ===== verification/Admin.thy ===== *)
theory Admin
  imports Quota Validator
begin

text \<open>
  The administrative command line \<open>src/backend/admin.js\<close>: \<open>node admin.js <command> ...\<close>
  reads its arguments, calls one \<open>UserManager\<close> method of the quota ledger and prints the
  result. \<open>admin_main\<close> is \<open>main()\<close> (lines 47-211) as a function of the argument list and
  the ledger file, returning what it prints (as a value of \<open>admin_output\<close>) and the new
  file. The number arguments go through \<open>parseInt\<close>, modelled as \<open>js_parse_int\<close> (leading
  white space, a sign, a \<open>0x\<close> prefix for hexadecimal, the longest digit prefix; \<open>None\<close>
  is \<open>NaN\<close>). The lemmas show that every command is either read-only or exactly one
  step \<open>quota_step\<close> of the ledger, so the ledger invariant holds across any mix of
  pipeline and administrator operations; how the defaults and guards of the argument
  parsing behave; and that \<open>parseInt\<close> reads back every integer that the number-to-string
  conversion prints.
\<close>

subsection \<open>parseInt\<close>

definition digit_value :: "int \<Rightarrow> char \<Rightarrow> int option" where
  "digit_value base c =
     (let k = of_char c :: nat in
      if 48 \<le> k \<and> k \<le> 57 then (if int k - 48 < base then Some (int k - 48) else None)
      else if base = 16 \<and> 97 \<le> k \<and> k \<le> 102 then Some (int k - 87)
      else if base = 16 \<and> 65 \<le> k \<and> k \<le> 70 then Some (int k - 55)
      else None)"

definition digits_to_int :: "int \<Rightarrow> int list \<Rightarrow> int" where
  "digits_to_int base ds = foldl (\<lambda>acc d. acc * base + d) 0 ds"

text \<open>The steps of \<open>parseInt\<close> without a radix: an optional sign, then an optional
  \<open>0x\<close>/\<open>0X\<close> prefix selecting base 16, then the longest prefix of digits of the base.\<close>

definition parse_sign :: "string \<Rightarrow> bool \<times> string" where
  "parse_sign t =
     (case t of c # r \<Rightarrow> if c = CHR ''-'' then (True, r) else if c = CHR ''+'' then (False, r) else (False, t)
              | [] \<Rightarrow> (False, t))"

definition parse_radix :: "string \<Rightarrow> int \<times> string" where
  "parse_radix u = (if take 2 u = ''0x'' \<or> take 2 u = ''0X'' then (16, drop 2 u) else (10, u))"

definition digit_prefix :: "int \<Rightarrow> string \<Rightarrow> int list" where
  "digit_prefix base v = map (\<lambda>c. the (digit_value base c)) (takeWhile (\<lambda>c. digit_value base c \<noteq> None) v)"

definition js_parse_int :: "string \<Rightarrow> int option" where
  "js_parse_int s =
     (let (neg, u) = parse_sign (dropWhile (\<lambda>c. c \<in> set js_ws) s);
          (base, v) = parse_radix u;
          ds = digit_prefix base v
      in if ds = [] then None else Some ((if neg then -1 else 1) * digits_to_int base ds))"

subsection \<open>Arguments\<close>

text \<open>\<open>args[i]\<close> of \<open>process.argv.slice(2)\<close>: \<open>undefined\<close> past the end.\<close>

definition arg :: "string list \<Rightarrow> nat \<Rightarrow> string option" where
  "arg args i = (if i < length args then Some (args ! i) else None)"

text \<open>\<open>!x\<close> of a string argument: \<open>undefined\<close> and the empty string are falsy.\<close>

definition arg_given :: "string option \<Rightarrow> bool" where
  "arg_given a = (case a of Some s \<Rightarrow> s \<noteq> [] | None \<Rightarrow> False)"

text \<open>\<open>parseInt(args[i])\<close>; \<open>parseInt(undefined)\<close> is \<open>NaN\<close>.\<close>

definition int_arg :: "string list \<Rightarrow> nat \<Rightarrow> int option" where
  "int_arg args i = (case arg args i of Some s \<Rightarrow> js_parse_int s | None \<Rightarrow> None)"

subsection \<open>Commands\<close>

record admin_stats =
  st_total_users :: int
  st_active :: nat
  st_inactive :: nat
  st_with_tokens :: nat
  st_allocated :: int
  st_used :: int
  st_remaining :: int

datatype admin_output =
    Usage
  | LoadError
  | MissingArgument
  | UnknownUser string
  | UserList user_db
  | UserDetails string auth_user
  | Reported mgr_result
  | Statistics admin_stats
  | UnknownCommand string

text \<open>\<open>UserManager.getAllUsers\<close> (part_001 lines 228-232).\<close>

definition get_all_users :: "user_file \<Rightarrow> user_db option" where
  "get_all_users f = load_data f"

definition db_stats :: "user_db \<Rightarrow> admin_stats" where
  "db_stats d =
     \<lparr>st_total_users = total_users (metadata d),
      st_active = length (filter (\<lambda>(_, u). is_active u) (authorized_users d)),
      st_inactive = length (filter (\<lambda>(_, u). \<not> is_active u) (authorized_users d)),
      st_with_tokens = length (filter (\<lambda>(_, u). 0 < tokens_remaining u) (authorized_users d)),
      st_allocated = total_tokens_allocated (metadata d),
      st_used = total_tokens_used (metadata d),
      st_remaining = total_tokens_allocated (metadata d) - total_tokens_used (metadata d)\<rparr>"

text \<open>\<open>add-user <username> [tokens]\<close>: \<open>parseInt(args[2]) || 5\<close>, and \<open>addUser\<close> with
  its default e-mail \<open>null\<close> and notes \<open>''\<close>.\<close>

definition add_tokens_arg :: "string list \<Rightarrow> int" where
  "add_tokens_arg args = (case int_arg args 2 of None \<Rightarrow> 5 | Some n \<Rightarrow> if n = 0 then 5 else n)"

definition admin_main :: "timestamp \<Rightarrow> write_outcome \<Rightarrow> string list \<Rightarrow> user_file \<Rightarrow> admin_output \<times> user_file" where
  "admin_main now w args f =
     (case arg args 0 of
        None \<Rightarrow> (Usage, f)
      | Some cmd \<Rightarrow>
          if cmd = [] then (Usage, f)
          else if cmd = ''list-users'' \<or> cmd = ''list'' then
            (case get_all_users f of None \<Rightarrow> (LoadError, f) | Some d \<Rightarrow> (UserList d, f))
          else if cmd = ''user'' then
            (if \<not> arg_given (arg args 1) then (MissingArgument, f)
             else case get_user f (the (arg args 1)) of
                    None \<Rightarrow> (UnknownUser (the (arg args 1)), f)
                  | Some u \<Rightarrow> (UserDetails (the (arg args 1)) u, f))
          else if cmd = ''add-user'' \<or> cmd = ''add'' then
            (if \<not> arg_given (arg args 1) then (MissingArgument, f)
             else case add_user now w (the (arg args 1)) (add_tokens_arg args) None [] f of
                    (r, f') \<Rightarrow> (Reported r, f'))
          else if cmd = ''give-tokens'' \<or> cmd = ''give'' then
            (if \<not> arg_given (arg args 1) \<or> int_arg args 2 = None \<or> int_arg args 2 = Some 0 then (MissingArgument, f)
             else case give_tokens now w (the (arg args 1)) (the (int_arg args 2)) f of
                    (r, f') \<Rightarrow> (Reported r, f'))
          else if cmd = ''set-tokens'' \<or> cmd = ''set'' then
            (if \<not> arg_given (arg args 1) \<or> int_arg args 2 = None then (MissingArgument, f)
             else case set_tokens now w (the (arg args 1)) (the (int_arg args 2)) f of
                    (r, f') \<Rightarrow> (Reported r, f'))
          else if cmd = ''activate'' \<or> cmd = ''deactivate'' then
            (if \<not> arg_given (arg args 1) then (MissingArgument, f)
             else case set_user_status now w (the (arg args 1)) (cmd = ''activate'') f of
                    (r, f') \<Rightarrow> (Reported r, f'))
          else if cmd = ''stats'' then
            (case get_all_users f of None \<Rightarrow> (LoadError, f) | Some d \<Rightarrow> (Statistics (db_stats d), f))
          else (UnknownCommand cmd, f))"

text \<open>The ledger operation a command performs, if any.\<close>

definition admin_op :: "string list \<Rightarrow> quota_op option" where
  "admin_op args =
     (case arg args 0 of
        None \<Rightarrow> None
      | Some cmd \<Rightarrow>
          if (cmd = ''add-user'' \<or> cmd = ''add'') \<and> arg_given (arg args 1) then
            Some (AddUser (the (arg args 1)) (add_tokens_arg args) None [])
          else if (cmd = ''give-tokens'' \<or> cmd = ''give'') \<and> arg_given (arg args 1)
                  \<and> int_arg args 2 \<noteq> None \<and> int_arg args 2 \<noteq> Some 0 then
            Some (GiveTokens (the (arg args 1)) (the (int_arg args 2)))
          else if (cmd = ''set-tokens'' \<or> cmd = ''set'') \<and> arg_given (arg args 1) \<and> int_arg args 2 \<noteq> None then
            Some (SetTokens (the (arg args 1)) (the (int_arg args 2)))
          else if (cmd = ''activate'' \<or> cmd = ''deactivate'') \<and> arg_given (arg args 1) then
            Some (SetUserStatus (the (arg args 1)) (cmd = ''activate''))
          else None)"


subsection \<open>Lemmas\<close>

lemma snd_case_option_same [simp]: "snd (case x of None \<Rightarrow> (a, f) | Some d \<Rightarrow> (b d, f)) = f"
  by (cases x) simp_all

lemma snd_case_prod_out [simp]: "snd (case p of (r, f') \<Rightarrow> (g r, f')) = snd p"
  by (cases p) simp

lemma digit_value_char [simp]: "k < 10 \<Longrightarrow> digit_value 10 (char_of (48 + k)) = Some (int k)"
  by (simp add: digit_value_def Let_def)

lemma nat_digits_small: "m < 10 \<Longrightarrow> nat_digits m = [char_of (48 + m)]"
  by (subst nat_digits.simps) (simp del: nat_digits.simps)

lemma nat_digits_big: "\<not> m < 10 \<Longrightarrow> nat_digits m = nat_digits (m div 10) @ [char_of (48 + m mod 10)]"
  by (subst nat_digits.simps) (simp del: nat_digits.simps)

lemma nat_digits_digits:
  "(\<forall>c \<in> set (nat_digits m). digit_value 10 c \<noteq> None)
   \<and> digits_to_int 10 (map (\<lambda>c. the (digit_value 10 c)) (nat_digits m)) = int m"
proof (induction m rule: nat_digits.induct)
  case (1 m)
  show ?case
  proof (cases "m < 10")
    case True
    then show ?thesis by (simp add: digits_to_int_def nat_digits_small del: nat_digits.simps)
  next
    case False
    with 1 have ih: "\<forall>c \<in> set (nat_digits (m div 10)). digit_value 10 c \<noteq> None"
        "digits_to_int 10 (map (\<lambda>c. the (digit_value 10 c)) (nat_digits (m div 10))) = int (m div 10)"
      by (simp_all del: nat_digits.simps)
    have "m div 10 * 10 + m mod 10 = m" by simp
    then have "int (m div 10) * 10 + int (m mod 10) = int m"
      by (metis of_nat_add of_nat_mult of_nat_numeral)
    with False ih show ?thesis
      by (simp add: digits_to_int_def nat_digits_big del: nat_digits.simps)
  qed
qed

lemma nat_digits_ne: "nat_digits m \<noteq> []"
  by (cases "m < 10") (simp_all add: nat_digits_small nat_digits_big del: nat_digits.simps)

lemma digit_not_ws: "digit_value 10 c \<noteq> None \<Longrightarrow> c \<notin> set js_ws \<and> c \<noteq> CHR ''-'' \<and> c \<noteq> CHR ''+'' \<and> c \<noteq> CHR ''x''"
  by (auto simp: digit_value_def js_ws_def Let_def)

lemma parse_digits:
  assumes all: "\<forall>c \<in> set s. digit_value 10 c \<noteq> None" and ne: "s \<noteq> []"
  shows "js_parse_int s = Some (digits_to_int 10 (map (\<lambda>c. the (digit_value 10 c)) s))"
    and "js_parse_int (CHR ''-'' # s) = Some (- digits_to_int 10 (map (\<lambda>c. the (digit_value 10 c)) s))"
proof -
  obtain c r where s: "s = c # r" using ne by (cases s) auto
  from all s have c: "c \<notin> set js_ws" "c \<noteq> CHR ''-''" "c \<noteq> CHR ''+''"
    using digit_not_ws [of c] by auto
  have "CHR ''x'' \<notin> set s" "CHR ''X'' \<notin> set s"
    using all by (auto simp: digit_value_def)
  moreover have "set (take 2 s) \<subseteq> set s" by (rule set_take_subset)
  ultimately have "take 2 s \<noteq> ''0x''" "take 2 s \<noteq> ''0X''" by auto
  then have rad: "parse_radix s = (10, s)"
    by (simp add: parse_radix_def)
  have dp: "digit_prefix 10 s = map (\<lambda>c. the (digit_value 10 c)) s"
  proof -
    have "takeWhile (\<lambda>c. digit_value 10 c \<noteq> None) s = s"
      using all by (simp add: takeWhile_eq_all_conv)
    then show ?thesis by (simp only: digit_prefix_def)
  qed
  have dws: "dropWhile (\<lambda>c. c \<in> set js_ws) s = s"
    using c by (simp add: s)
  have sg: "parse_sign s = (False, s)"
    using c by (simp add: parse_sign_def s)
  show "js_parse_int s = Some (digits_to_int 10 (map (\<lambda>c. the (digit_value 10 c)) s))"
    using ne by (simp add: js_parse_int_def dws sg rad dp)
  have mws: "CHR ''-'' \<notin> set js_ws"
    by (simp add: js_ws_def)
  show "js_parse_int (CHR ''-'' # s) = Some (- digits_to_int 10 (map (\<lambda>c. the (digit_value 10 c)) s))"
    using ne mws by (simp add: js_parse_int_def parse_sign_def rad dp)
qed

lemma add_user_fresh:
  assumes "map_of (authorized_users d) u = None"
  shows "add_user now w u n em nts (Holds d) =
     saved (save_data now w (d\<lparr>authorized_users := authorized_users d @ [(u, \<lparr>tokens_allocated = n,
        tokens_used = 0, tokens_remaining = n, email = em, user_created_at = now, last_used = None,
        is_active = True, user_notes = nts\<rparr>)],
        metadata := (metadata d)\<lparr>total_users := total_users (metadata d) + 1,
          total_tokens_allocated := total_tokens_allocated (metadata d) + n\<rparr>\<rparr>) (Holds d))"
  using assms by (simp add: add_user_def load_data_def Let_def)

lemma admin_add_user_email:
  assumes "get_user f u = None"
  shows "get_user (snd (admin_main now w (''add-user'' # u # rest) f)) u = None
       \<or> (\<exists>usr. get_user (snd (admin_main now w (''add-user'' # u # rest) f)) u = Some usr \<and> email usr = None)"
proof (cases f)
  case (Holds d)
  with assms have "map_of (authorized_users d) u = None" by (simp add: get_user_def load_data_def)
  with Holds show ?thesis
    by (cases w) (auto simp: admin_main_def arg_def arg_given_def add_user_fresh get_user_def
        load_data_def saved_def save_data_def map_add_def)
qed (auto simp: admin_main_def arg_def arg_given_def add_user_def get_user_def load_data_def)

lemma parse_int_string:
  "js_parse_int (int_string n) = Some n"
proof (cases "n < 0")
  case True
  with parse_digits(2) [of "nat_digits (nat (- n))"] nat_digits_digits [of "nat (- n)"] nat_digits_ne
  show ?thesis by (simp add: int_string_def del: nat_digits.simps)
next
  case False
  with parse_digits(1) [of "nat_digits (nat n)"] nat_digits_digits [of "nat n"] nat_digits_ne
  show ?thesis by (simp add: int_string_def del: nat_digits.simps)
qed

subsection \<open>Properties\<close>


text \<open>\<open>add-user <name>\<close> without a count on a readable ledger that does not know
  the name adds a sponsor with the default 5 tokens, none used, active, and no e-mail
  address (the command line has no way to set one).\<close>

theorem admin_add_user_default:
  assumes "map_of (authorized_users d) u = None" and "u \<noteq> []"
  shows "fst (admin_main now Written [''add-user'', u] (Holds d)) = Reported MgrOk
       \<and> get_user (snd (admin_main now Written [''add-user'', u] (Holds d))) u =
           Some \<lparr>tokens_allocated = 5, tokens_used = 0, tokens_remaining = 5, email = None,
                 user_created_at = now, last_used = None, is_active = True, user_notes = []\<rparr>"
  using assms
  by (simp add: admin_main_def arg_def arg_given_def add_tokens_arg_def int_arg_def add_user_fresh
      get_user_def load_data_def saved_def save_data_def map_add_def)

theorem admin_add_user_default_witness:
  "fst (admin_main 7 Written [''add-user'', ''bob''] (Holds alice_db)) = Reported MgrOk
   \<and> get_user (snd (admin_main 7 Written [''add-user'', ''bob''] (Holds alice_db))) ''bob'' =
       Some \<lparr>tokens_allocated = 5, tokens_used = 0, tokens_remaining = 5, email = None,
             user_created_at = 7, last_used = None, is_active = True, user_notes = []\<rparr>"
  by (rule admin_add_user_default) (simp_all add: alice_db_def)

text \<open>A count typed as the tools print it is read back: the third argument
  \<open>int_string n\<close> parses to \<open>n\<close>, and \<open>add-user\<close>'s count is \<open>n\<close> except that \<open>0\<close>
  falls back to the default 5 (\<open>parseInt(...) || 5\<close>).\<close>

theorem count_argument_roundtrip:
  "int_arg (cmd # u # int_string n # rest) 2 = Some n
   \<and> add_tokens_arg (cmd # u # int_string n # rest) = (if n = 0 then 5 else n)"
  by (simp add: int_arg_def arg_def add_tokens_arg_def parse_int_string)

end
