(* ===== verification/Tools.thy ===== *)
theory Tools
  imports Admin Chain
begin

text \<open>
  The Account Creation Token checker script (\<open>src/unnamed/part_001\<close> lines 343-425):
  it looks up the faucet account on the node and reports its pending claimed accounts,
  \<open>parseInt(account.pending_claimed_accounts) || 0\<close>. The node's number reaches
  \<open>parseInt\<close> as its decimal string. The lemma shows the report is exact: the script
  says the account is ready with \<open>n\<close> tokens exactly when the chain holds \<open>n > 0\<close> claimed
  accounts for it, which is the condition under which the chain accepts the faucet's
  \<open>create_claimed_account\<close>.
\<close>

datatype act_report = ActCheckFailed string | ActNotFound | ActReady int | ActNone

definition check_account_creation_tokens :: "bool \<Rightarrow> chain \<Rightarrow> string \<Rightarrow> act_report" where
  "check_account_creation_tokens rpc_ok c u =
     (case get_account rpc_ok c (JStr u) of
        LookupError e \<Rightarrow> ActCheckFailed e
      | LookupEmpty \<Rightarrow> ActNotFound
      | LookupFound a \<Rightarrow>
          let p = (case js_parse_int (int_string (int (claimed_tokens a))) of None \<Rightarrow> 0 | Some n \<Rightarrow> n)
          in if 0 < p then ActReady p else ActNone)"

text \<open>\<open>main()\<close>: the account is \<open>CREATING_ACCOUNT_USERNAME || 'thelittlebank'\<close>.\<close>

definition act_main :: "string option \<Rightarrow> bool \<Rightarrow> chain \<Rightarrow> act_report" where
  "act_main creating rpc_ok c =
     check_account_creation_tokens rpc_ok c
       (case creating of Some s \<Rightarrow> if s = [] then ''thelittlebank'' else s | None \<Rightarrow> ''thelittlebank'')"

lemma act_report_exact:
  "map_of (ch_accounts c) u = Some a \<Longrightarrow>
     check_account_creation_tokens True c u =
       (if 0 < claimed_tokens a then ActReady (int (claimed_tokens a)) else ActNone)"
  by (simp add: check_account_creation_tokens_def get_account_def parse_int_string Let_def)

end
