(* ===== verification/FormValidation.thy ===== *)
theory FormValidation
  imports Validator
begin

text \<open>
  The other validators of \<open>FormValidator\<close> (\<open>src/scripts/validation.js\<close>): \<open>validateEmail\<close>
  (lines 82-101), \<open>validateRequired\<close> (109-114), \<open>validatePhone\<close> (141-162) and
  \<open>validateForm\<close> (169-198), the check of the whole request form before it is signed.
  Their \<open>{isValid, message}\<close> results are \<open>field_result\<close>. The regular expressions are
  written out as functions over the string; \<open>email_shape\<close> is shown equal to the language
  of \<open>/^[^\s@]+@[^\s@]+\.[^\s@]+$/\<close>, stated as a decomposition of the string.
  \<open>validateUrl\<close> takes the WHATWG URL parser as a parameter. The theory also holds the
  validator table of the constructor and the error display of the page: \<open>clearErrors\<close>,
  \<open>displayErrors\<close> and the listeners of \<open>setupRealtimeValidation\<close> over \<open>form_dom\<close>.
\<close>

datatype field_result = Valid | Invalid string

text \<open>\<open>[^\s@]\<close>.\<close>

definition plain_char :: "char \<Rightarrow> bool" where
  "plain_char c \<longleftrightarrow> c \<noteq> CHR ''@'' \<and> c \<notin> set js_ws"

text \<open>\<open>/^[^\s@]+@[^\s@]+\.[^\s@]+$/.test(s)\<close>: the part before the first \<open>@\<close> is a
  non-empty run of plain characters; the rest is plain and has a dot that is neither its
  first nor its last character.\<close>

definition email_shape :: "string \<Rightarrow> bool" where
  "email_shape s =
     (let a = takeWhile (\<lambda>c. c \<noteq> CHR ''@'') s; rest = drop (Suc (length a)) s in
      a \<noteq> [] \<and> length a < length s \<and> list_all plain_char a \<and> list_all plain_char rest
      \<and> CHR ''.'' \<in> set (butlast (drop 1 rest)))"

definition validate_email :: "string \<Rightarrow> field_result" where
  "validate_email e =
     (if e = [] then Invalid ''Email address is required.''
      else let e' = js_trim e in
        if \<not> email_shape e' then Invalid ''Please enter a valid email address.''
        else if 254 < length e' then Invalid ''Email address is too long.''
        else Valid)"

definition validate_required :: "string \<Rightarrow> string \<Rightarrow> field_result" where
  "validate_required v field_name =
     (if v = [] \<or> js_trim v = [] then Invalid (field_name @ '' is required.'') else Valid)"

text \<open>\<open>phone.replace(/[\s\-\(\)\+\.]/g, '')\<close>.\<close>

definition phone_punct :: "char \<Rightarrow> bool" where
  "phone_punct c \<longleftrightarrow> c \<in> set js_ws \<or> c \<in> set ''-()+.''"

definition is_digit :: "char \<Rightarrow> bool" where
  "is_digit c \<longleftrightarrow> (48::nat) \<le> of_char c \<and> of_char c \<le> (57::nat)"

definition validate_phone :: "string \<Rightarrow> field_result" where
  "validate_phone p =
     (if p = [] \<or> js_trim p = [] then Valid
      else let clean = filter (\<lambda>c. \<not> phone_punct c) (js_trim p) in
        if clean = [] \<or> \<not> list_all is_digit clean
        then Invalid ''Phone number should contain only numbers and common formatting characters.''
        else if length clean < 7 \<or> 15 < length clean
        then Invalid ''Phone number should be between 7 and 15 digits.''
        else Valid)"

text \<open>\<open>validateForm\<close>: the requested name (\<open>None\<close> when the form has no such field), the
  connected Keychain user if any, and the terms checkbox. The errors object is an
  association list; a later assignment to the same field replaces the earlier message.\<close>

definition name_message :: "name_check \<Rightarrow> string" where
  "name_message r = (case r of
       NameValid \<Rightarrow> []
     | NameRequired \<Rightarrow> ''Username is required.''
     | NameTooShort \<Rightarrow> ''Username must be at least 3 characters long.''
     | NameTooLong \<Rightarrow> ''Username cannot be longer than 16 characters.''
     | NameBadChars \<Rightarrow> ''Username can only contain lowercase letters, numbers, and hyphens.''
     | NameHyphenEdge \<Rightarrow> ''Username cannot start or end with a hyphen.''
     | NameDoubleHyphen \<Rightarrow> ''Username cannot contain consecutive hyphens.''
     | NameReserved \<Rightarrow> ''This username contains reserved words and cannot be used.'')"

definition validate_form ::
  "string option \<Rightarrow> string option \<Rightarrow> string option \<Rightarrow> bool \<times> (string \<times> string) list" where
  "validate_form requested connected terms =
     (let rn = (case requested of Some s \<Rightarrow> s | None \<Rightarrow> []);
          r = validate_hive_username rn;
          (ok1, e1) = (if r = NameValid then (True, []) else (False, [(''requestedUsername'', name_message r)]));
          same = (case connected of
                    Some cu \<Rightarrow> cu \<noteq> [] \<and> rn \<noteq> [] \<and> map js_lower cu = map js_lower rn
                  | None \<Rightarrow> False);
          (ok2, e2) = (if same then (False, AList.update ''requestedUsername''
                          ''The new account name cannot be the same as your connected username.'' e1)
                       else (ok1, e1));
          (ok3, e3) = (if terms = None \<or> terms = Some [] then
                         (False, AList.update ''termsAccepted'' ''You must confirm authorization to continue.'' e2)
                       else (ok2, e2))
      in (ok3, e3))"

subsection \<open>The validator table and \<open>validateUrl\<close>\<close>

text \<open>The table of the constructor (lines 5-14), keyed by the validator type's name. Only
  the five own properties are modelled: a type name inherited from \<open>Object.prototype\<close>
  would also be truthy.\<close>

datatype validator_kind = VHiveUsername | VEmail | VRequired | VUrl | VPhone

definition validators :: "string \<Rightarrow> validator_kind option" where
  "validators = map_of [(''hiveUsername'', VHiveUsername), (''email'', VEmail), (''required'', VRequired),
                        (''url'', VUrl), (''phone'', VPhone)]"

text \<open>\<open>validateUrl\<close> (lines 115-135): \<open>new URL(url)\<close> is the WHATWG URL parser, a
  parameter here (whether it accepts the trimmed string).\<close>

definition validate_url :: "(string \<Rightarrow> bool) \<Rightarrow> string \<Rightarrow> field_result" where
  "validate_url parses u =
     (if u = [] \<or> js_trim u = [] then Valid
      else if parses (js_trim u) then Valid
      else Invalid ''Please enter a valid URL (e.g., https://example.com).'')"

definition name_result :: "name_check \<Rightarrow> field_result" where
  "name_result r = (if r = NameValid then Valid else Invalid (name_message r))"

text \<open>A validator of the table applied as the blur handler applies it: \<open>required\<close> gets
  the field's \<open>data-field-name\<close> or \<open>This field\<close>.\<close>

definition run_validator :: "(string \<Rightarrow> bool) \<Rightarrow> validator_kind \<Rightarrow> string \<Rightarrow> string option \<Rightarrow> field_result" where
  "run_validator parses k v dfn =
     (case k of
        VHiveUsername \<Rightarrow> name_result (validate_hive_username v)
      | VEmail \<Rightarrow> validate_email v
      | VRequired \<Rightarrow> validate_required v (case dfn of Some n \<Rightarrow> if n = [] then ''This field'' else n | None \<Rightarrow> ''This field'')
      | VUrl \<Rightarrow> validate_url parses v
      | VPhone \<Rightarrow> validate_phone v)"

subsection \<open>The error display\<close>

text \<open>The part of the page the error display touches: error elements by id (text, shown,
  whether they carry the class \<open>field-error\<close>), form fields by id (value,
  \<open>data-field-name\<close>, the class \<open>error\<close>, \<open>aria-invalid\<close>, \<open>aria-describedby\<close>), and the
  id of the first element with a given \<open>name\<close> attribute.\<close>

record err_elem =
  ee_text :: string
  ee_shown :: bool
  ee_field_error :: bool

record input_elem =
  ie_value :: string
  ie_field_name :: "string option"
  ie_error :: bool
  ie_aria_invalid :: bool
  ie_described_by :: "string option"

record form_dom =
  fd_err :: "string \<Rightarrow> err_elem option"
  fd_input :: "string \<Rightarrow> input_elem option"
  fd_named :: "string \<Rightarrow> string option"

definition hide_err :: "err_elem \<Rightarrow> err_elem" where
  "hide_err e = e\<lparr>ee_text := [], ee_shown := False\<rparr>"

definition unmark_input :: "input_elem \<Rightarrow> input_elem" where
  "unmark_input i = i\<lparr>ie_error := False, ie_aria_invalid := False, ie_described_by := None\<rparr>"

text \<open>\<open>clearErrors\<close> (lines 232-248): every \<open>.field-error\<close> element is emptied and hidden,
  every \<open>.error\<close> field loses the class and its two ARIA attributes.\<close>

definition clear_errors :: "form_dom \<Rightarrow> form_dom" where
  "clear_errors d =
     d\<lparr>fd_err := (\<lambda>i. map_option (\<lambda>e. if ee_field_error e then hide_err e else e) (fd_err d i)),
       fd_input := (\<lambda>i. map_option (\<lambda>x. if ie_error x then unmark_input x else x) (fd_input d i))\<rparr>"

text \<open>The element a field's message goes to: \<open>fieldNameError\<close>, else the same with the
  capitals of the field name lowered.\<close>

definition error_elem_id :: "form_dom \<Rightarrow> string \<Rightarrow> string option" where
  "error_elem_id d f =
     (if fd_err d (f @ ''Error'') \<noteq> None then Some (f @ ''Error'')
      else if fd_err d (map js_lower f @ ''Error'') \<noteq> None then Some (map js_lower f @ ''Error'')
      else None)"

definition input_elem_id :: "form_dom \<Rightarrow> string \<Rightarrow> string option" where
  "input_elem_id d f = (if fd_input d f \<noteq> None then Some f else fd_named d f)"

text \<open>One iteration of the \<open>forEach\<close> of \<open>displayErrors\<close> (lines 209-226).\<close>

definition show_field_error :: "string \<Rightarrow> string \<Rightarrow> form_dom \<Rightarrow> form_dom" where
  "show_field_error f msg d =
     (let d1 = (case error_elem_id d f of
                  None \<Rightarrow> d
                | Some i \<Rightarrow> d\<lparr>fd_err := (fd_err d)(i := map_option (\<lambda>e. e\<lparr>ee_text := msg, ee_shown := True\<rparr>) (fd_err d i))\<rparr>)
      in case input_elem_id d1 f of
           None \<Rightarrow> d1
         | Some i \<Rightarrow> d1\<lparr>fd_input := (fd_input d1)(i := map_option
                        (\<lambda>x. x\<lparr>ie_error := True, ie_aria_invalid := True, ie_described_by := Some (f @ ''Error'')\<rparr>)
                        (fd_input d1 i))\<rparr>)"

text \<open>\<open>displayErrors\<close> (lines 204-227): clear, then each field of the errors object in
  key order.\<close>

definition display_errors :: "(string \<times> string) list \<Rightarrow> form_dom \<Rightarrow> form_dom" where
  "display_errors errs d = fold (\<lambda>(f, msg). show_field_error f msg) errs (clear_errors d)"

text \<open>The two listeners of \<open>setupRealtimeValidation\<close> (lines 254-295) for the field
  \<open>fid\<close> and its element \<open>fidError\<close>; without that element they do nothing.\<close>

definition rt_blur :: "(string \<Rightarrow> bool) \<Rightarrow> validator_kind \<Rightarrow> string \<Rightarrow> form_dom \<Rightarrow> form_dom" where
  "rt_blur parses k fid d =
     (case (fd_input d fid, fd_err d (fid @ ''Error'')) of
        (Some x, Some e) \<Rightarrow>
          (case run_validator parses k (ie_value x) (ie_field_name x) of
             Invalid msg \<Rightarrow> d\<lparr>fd_err := (fd_err d)(fid @ ''Error'' \<mapsto> e\<lparr>ee_text := msg, ee_shown := True\<rparr>),
                             fd_input := (fd_input d)(fid \<mapsto> x\<lparr>ie_error := True, ie_aria_invalid := True\<rparr>)\<rparr>
           | Valid \<Rightarrow> d\<lparr>fd_err := (fd_err d)(fid @ ''Error'' \<mapsto> hide_err e),
                         fd_input := (fd_input d)(fid \<mapsto> x\<lparr>ie_error := False, ie_aria_invalid := False\<rparr>)\<rparr>)
      | _ \<Rightarrow> d)"

definition rt_focus :: "string \<Rightarrow> form_dom \<Rightarrow> form_dom" where
  "rt_focus fid d =
     (case (fd_input d fid, fd_err d (fid @ ''Error'')) of
        (Some x, Some e) \<Rightarrow> d\<lparr>fd_err := (fd_err d)(fid @ ''Error'' \<mapsto> hide_err e),
                              fd_input := (fd_input d)(fid \<mapsto> x\<lparr>ie_error := False, ie_aria_invalid := False\<rparr>)\<rparr>
      | _ \<Rightarrow> d)"

text \<open>\<open>setupRealtimeValidation(fieldId, validatorType)\<close>: the blur and focus listeners it
  attaches, or none when the field or the validator type is unknown.\<close>

definition setup_realtime_validation ::
  "(string \<Rightarrow> bool) \<Rightarrow> string \<Rightarrow> string \<Rightarrow> form_dom \<Rightarrow> ((form_dom \<Rightarrow> form_dom) \<times> (form_dom \<Rightarrow> form_dom)) option" where
  "setup_realtime_validation parses fid vtype d =
     (if fd_input d fid = None then None
      else case validators vtype of
             None \<Rightarrow> None
           | Some k \<Rightarrow> Some (rt_blur parses k fid, rt_focus fid))"


subsection \<open>The e-mail pattern\<close>

lemma email_split_at:
  assumes "length (takeWhile (\<lambda>c. c \<noteq> CHR ''@'') s) < length s"
  shows "s = takeWhile (\<lambda>c. c \<noteq> CHR ''@'') s @ CHR ''@'' # drop (Suc (length (takeWhile (\<lambda>c. c \<noteq> CHR ''@'') s))) s"
proof -
  let ?P = "\<lambda>c. c \<noteq> CHR ''@''"
  have ne: "dropWhile ?P s \<noteq> []"
    using assms by (metis append_Nil2 length_append less_not_refl2 takeWhile_dropWhile_id)
  then have "hd (dropWhile ?P s) = CHR ''@''" using hd_dropWhile [OF ne] by simp
  with ne have "dropWhile ?P s = CHR ''@'' # tl (dropWhile ?P s)" by (cases "dropWhile ?P s") auto
  moreover have "tl (dropWhile ?P s) = drop (Suc (length (takeWhile ?P s))) s"
    by (metis drop_Suc dropWhile_eq_drop tl_drop)
  ultimately show ?thesis by (metis takeWhile_dropWhile_id)
qed

lemma dot_inside:
  "CHR ''.'' \<in> set (butlast (drop 1 r)) \<longleftrightarrow> (\<exists>b c. r = b @ CHR ''.'' # c \<and> b \<noteq> [] \<and> c \<noteq> [])"
proof
  assume "CHR ''.'' \<in> set (butlast (drop 1 r))"
  then obtain x y where xy: "butlast (drop 1 r) = x @ CHR ''.'' # y" by (meson split_list)
  then have "drop 1 r \<noteq> []" by auto
  then obtain z where "drop 1 r = x @ CHR ''.'' # y @ [z]"
    using xy append_butlast_last_id by (metis append.assoc append_Cons)
  moreover obtain r0 where "r = r0 # drop 1 r" using \<open>drop 1 r \<noteq> []\<close> by (cases r) auto
  ultimately have "r = (r0 # x) @ CHR ''.'' # (y @ [z])" by simp
  then show "\<exists>b c. r = b @ CHR ''.'' # c \<and> b \<noteq> [] \<and> c \<noteq> []" by blast
next
  assume "\<exists>b c. r = b @ CHR ''.'' # c \<and> b \<noteq> [] \<and> c \<noteq> []"
  then obtain b c where "r = b @ CHR ''.'' # c" "b \<noteq> []" "c \<noteq> []" by blast
  then show "CHR ''.'' \<in> set (butlast (drop 1 r))"
    by (cases b) (auto simp: butlast_append)
qed

text \<open>C28: the hand-written matcher \<open>email_shape\<close> of \<open>validateEmail\<close> accepts exactly
  the language of its regular expression \<open>/^[^\s@]+@[^\s@]+\.[^\s@]+$/\<close>: a non-empty
  local part, one \<open>@\<close>, and a domain with a dot strictly inside it, no white space and no
  other \<open>@\<close> anywhere.\<close>

theorem email_shape_iff:
  "email_shape s \<longleftrightarrow>
     (\<exists>a b c. s = a @ CHR ''@'' # b @ CHR ''.'' # c \<and> a \<noteq> [] \<and> b \<noteq> [] \<and> c \<noteq> []
        \<and> list_all plain_char (a @ b @ c))"
proof
  assume e: "email_shape s"
  let ?a = "takeWhile (\<lambda>c. c \<noteq> CHR ''@'') s"
  let ?r = "drop (Suc (length ?a)) s"
  from e have a: "?a \<noteq> []" "length ?a < length s" "list_all plain_char ?a" "list_all plain_char ?r"
      "CHR ''.'' \<in> set (butlast (drop 1 ?r))"
    by (simp_all add: email_shape_def Let_def)
  from a(5) obtain b c where bc: "?r = b @ CHR ''.'' # c" "b \<noteq> []" "c \<noteq> []"
    using dot_inside by blast
  from email_split_at [OF a(2)] bc have "s = ?a @ CHR ''@'' # b @ CHR ''.'' # c" by simp
  moreover have "list_all plain_char (?a @ b @ c)" using a(3,4) bc(1) by simp
  ultimately show "\<exists>a b c. s = a @ CHR ''@'' # b @ CHR ''.'' # c \<and> a \<noteq> [] \<and> b \<noteq> [] \<and> c \<noteq> []
        \<and> list_all plain_char (a @ b @ c)" using a(1) bc(2,3) by blast
next
  assume "\<exists>a b c. s = a @ CHR ''@'' # b @ CHR ''.'' # c \<and> a \<noteq> [] \<and> b \<noteq> [] \<and> c \<noteq> []
        \<and> list_all plain_char (a @ b @ c)"
  then obtain a b c where s: "s = a @ CHR ''@'' # b @ CHR ''.'' # c" and ne: "a \<noteq> []" "b \<noteq> []" "c \<noteq> []"
      and p: "list_all plain_char (a @ b @ c)" by blast
  from p have na: "\<forall>x \<in> set a. x \<noteq> CHR ''@''" by (auto simp: list_all_iff plain_char_def)
  then have tw: "takeWhile (\<lambda>c. c \<noteq> CHR ''@'') s = a" by (simp add: s takeWhile_append2)
  have pd: "plain_char CHR ''.''" by (simp add: plain_char_def js_ws_def)
  have "CHR ''.'' \<in> set (butlast (drop 1 (b @ CHR ''.'' # c)))" using dot_inside ne by blast
  with tw ne p pd show "email_shape s" by (simp add: email_shape_def s)
qed

subsection \<open>Properties of the error display\<close>

text \<open>Focusing a field undoes whatever its blur check displayed.\<close>

lemma rt_focus_after_blur:
  "rt_focus fid (rt_blur parses k fid d) = rt_focus fid d"
  by (auto simp: rt_focus_def rt_blur_def hide_err_def split: option.splits field_result.splits)

text \<open>Which element a field's message goes to depends only on which error elements exist,
  and the display writes change no element's existence.\<close>

lemma error_elem_id_cong:
  "(\<And>i. (fd_err d i = None) = (fd_err d' i = None)) \<Longrightarrow> error_elem_id d = error_elem_id d'"
  by (simp add: error_elem_id_def fun_eq_iff)

lemma fd_err_show_field_error:
  "fd_err (show_field_error f msg d) =
     (case error_elem_id d f of
        None \<Rightarrow> fd_err d
      | Some i \<Rightarrow> (fd_err d)(i := map_option (\<lambda>e. e\<lparr>ee_text := msg, ee_shown := True\<rparr>) (fd_err d i)))"
  by (simp add: show_field_error_def Let_def split: option.splits)

lemma error_elem_id_show_field_error:
  "error_elem_id (show_field_error f msg d) = error_elem_id d"
  by (rule error_elem_id_cong) (simp add: fd_err_show_field_error split: option.splits)

lemma error_elem_id_clear_errors:
  "error_elem_id (clear_errors d) = error_elem_id d"
  by (rule error_elem_id_cong) (simp add: clear_errors_def)

lemma error_elem_id_fold_show:
  "error_elem_id (fold (\<lambda>(f, msg). show_field_error f msg) errs d) = error_elem_id d"
  by (induction errs arbitrary: d) (auto simp: error_elem_id_show_field_error)

text \<open>\<open>displayErrors\<close> on a page whose error elements all carry \<open>field-error\<close>: each
  error element shows the last message of the fields that resolve to it, and every other
  one is empty and hidden.\<close>

lemma display_errors_err:
  assumes "\<And>i e. fd_err d i = Some e \<Longrightarrow> ee_field_error e"
  shows "fd_err (display_errors errs d) i =
           map_option (\<lambda>e. case map snd (filter (\<lambda>(f, _). error_elem_id d f = Some i) errs) of
                              [] \<Rightarrow> hide_err e
                            | ms \<Rightarrow> e\<lparr>ee_text := last ms, ee_shown := True\<rparr>) (fd_err d i)"
proof (induction errs rule: rev_induct)
  case Nil
  show ?case using assms [of i] by (cases "fd_err d i") (simp_all add: display_errors_def clear_errors_def)
next
  case (snoc x errs)
  obtain f msg where x: "x = (f, msg)" by fastforce
  have ids: "error_elem_id (fold (\<lambda>(f, msg). show_field_error f msg) errs (clear_errors d)) f = error_elem_id d f"
    by (simp add: error_elem_id_fold_show error_elem_id_clear_errors)
  show ?case
    using snoc.IH unfolding display_errors_def
    by (cases "fd_err d i") (auto simp: x fd_err_show_field_error ids hide_err_def split: list.splits option.splits)
qed

text \<open>The blur check of the requested name and the check of the whole form agree on the
  name's message when no Keychain user is connected.\<close>

lemma realtime_name_agrees_with_form:
  "map_of (snd (validate_form (Some v) None terms)) ''requestedUsername'' =
     (case run_validator parses VHiveUsername v dfn of Valid \<Rightarrow> None | Invalid msg \<Rightarrow> Some msg)"
  by (simp add: validate_form_def run_validator_def name_result_def Let_def update_conv')

end
