(* ===== verification/FrontendApp.thy ===== *)
theory FrontendApp
  imports FormValidation
begin

text \<open>
  The request form of the browser front end, \<open>src/scripts/app.js\<close>: \<open>handleFormSubmit\<close>
  (lines 138-228), which checks the form and broadcasts the request envelope through
  Hive Keychain, and \<open>checkUsernameAvailability\<close> (lines 234-291), which checks a name as
  it is typed, with the API client's \<open>checkAccountAvailability\<close>
  (\<open>src/scripts/api.js\<close> lines 140-170). The module's \<open>isProcessing\<close> flag is passed in and
  returned; \<open>FormData.get\<close> gives \<open>None\<close> for a missing field. What the page shows is a
  value of \<open>submit_outcome\<close> or \<open>name_display\<close>; an exception that escapes the handler is
  \<open>SubmitThrows\<close> or \<open>CheckThrows\<close>. The DOM elements are assumed present.
\<close>

text \<open>\<open>!x\<close> of a form field: \<open>null\<close> and the empty string are falsy.\<close>

definition field_given :: "string option \<Rightarrow> bool" where
  "field_given v = (case v of Some s \<Rightarrow> s \<noteq> [] | None \<Rightarrow> False)"

text \<open>\<open>x || null\<close> of a field, as the empty string that \<open>js_or_null\<close> turns into \<open>null\<close>.\<close>

definition field_or_empty :: "string option \<Rightarrow> string" where
  "field_or_empty v = (case v of Some s \<Rightarrow> s | None \<Rightarrow> [])"

datatype submit_outcome =
    SubmitIgnored
  | SubmitError string
  | SubmitThrows js_error
  | SubmitBroadcast jval

text \<open>\<open>handleFormSubmit\<close>. A name that \<open>validateHiveUsername\<close> rejects reaches
  \<open>validation.errors.join(', ')\<close>, but the validator's result has no \<open>errors\<close> field:
  reading \<open>join\<close> of \<open>undefined\<close> throws, outside the handler's \<open>try\<close>.\<close>

definition handle_form_submit ::
  "bool \<Rightarrow> string \<Rightarrow> string option \<Rightarrow> string option \<Rightarrow> string option \<Rightarrow> string option \<Rightarrow> string \<Rightarrow>
     submit_outcome \<times> bool" where
  "handle_form_submit processing current_user rn dm em nts ts =
     (if processing then (SubmitIgnored, processing)
      else if \<not> field_given rn then (SubmitError ''Please enter a username for the new account'', processing)
      else if \<not> field_given dm then (SubmitError ''Please select a credential delivery method'', processing)
      else if dm = Some ''email'' \<and> \<not> field_given em then (SubmitError ''Please enter an email address'', processing)
      else if validate_hive_username (the rn) \<noteq> NameValid then (SubmitThrows TypeError, processing)
      else (SubmitBroadcast (app_envelope current_user (the rn) (the dm) (field_or_empty em)
              (field_or_empty nts) ts), True))"

text \<open>\<open>apiClient.checkAccountAvailability\<close>: the \<open>result\<close> member of the node's answer to
  \<open>condenser_api.get_accounts\<close>, or \<open>None\<close> when the request failed, which the client
  turns into a thrown error.\<close>

record availability =
  av_available :: bool
  av_exists :: bool

datatype api_error = AvailabilityUnknown

definition check_account_availability :: "jval option \<Rightarrow> api_error + availability" where
  "check_account_availability resp =
     (case resp of
        None \<Rightarrow> Inl AvailabilityUnknown
      | Some res \<Rightarrow>
          let ex = js_truthy res \<and> (case res of JArr xs \<Rightarrow> 0 < length xs | JStr s \<Rightarrow> 0 < length s | _ \<Rightarrow> False)
          in Inr \<lparr>av_available = \<not> ex, av_exists = ex\<rparr>)"

text \<open>The object the client returns, as the caller sees it.\<close>

definition availability_json :: "availability \<Rightarrow> jval" where
  "availability_json av = JObj [(''available'', JBool (av_available av)), (''exists'', JBool (av_exists av))]"

datatype name_display =
    NoCheck
  | CheckThrows js_error
  | ShowAvailable string
  | ShowTaken string
  | ShowCheckFailed

text \<open>\<open>checkUsernameAvailability(username, type)\<close> of \<open>app.js\<close>: the answer is tested with
  \<open>if (isAvailable)\<close>, the truthiness of the returned object.\<close>

definition app_check_username :: "string \<Rightarrow> string \<Rightarrow> jval option \<Rightarrow> name_display" where
  "app_check_username username type resp =
     (if type \<noteq> ''requested'' then NoCheck
      else if validate_hive_username username \<noteq> NameValid then CheckThrows TypeError
      else case check_account_availability resp of
             Inl _ \<Rightarrow> ShowCheckFailed
           | Inr av \<Rightarrow> if js_truthy (availability_json av) then ShowAvailable username else ShowTaken username)"

subsection \<open>The page session\<close>

text \<open>The page state of \<open>app.js\<close>: the module variables \<open>currentUser\<close> and
  \<open>isProcessing\<close>, the \<open>hive_username\<close> entry of \<open>localStorage\<close>, whether an answer of
  the extension to the broadcast is still to come, whether the faucet section (rather than
  the login section) is shown, the loading overlay's text, and the status message with its
  type.\<close>

record app_state =
  current_user :: "string option"
  stored_user :: "string option"
  processing :: bool
  awaiting_answer :: bool
  logged_in_view :: bool
  loading :: "string option"
  status_msg :: "(string \<times> string) option"

definition app_initial :: "string option \<Rightarrow> app_state" where
  "app_initial stored =
     \<lparr>current_user = None, stored_user = stored, processing = False, awaiting_answer = False,
      logged_in_view = False, loading = None, status_msg = None\<rparr>"

definition show_status :: "string \<Rightarrow> string \<Rightarrow> app_state \<Rightarrow> app_state" where
  "show_status msg ty s = s\<lparr>status_msg := Some (msg, ty)\<rparr>"

text \<open>\<open>showLoggedInState\<close> and \<open>showLoggedOutState\<close>: which section is shown (the
  header's user name and avatar follow \<open>currentUser\<close>; the form reset is not modelled).\<close>

definition show_logged_in_state :: "app_state \<Rightarrow> app_state" where
  "show_logged_in_state s = s\<lparr>logged_in_view := True\<rparr>"

definition show_logged_out_state :: "app_state \<Rightarrow> app_state" where
  "show_logged_out_state s = s\<lparr>logged_in_view := False\<rparr>"

text \<open>What the page's \<open>error\<close> and \<open>unhandledrejection\<close> listeners show.\<close>

definition uncaught_message :: string where
  "uncaught_message = ''An unexpected error occurred. Please refresh the page.''"

text \<open>\<open>checkExistingSession\<close>: a non-empty stored name logs the page in.\<close>

definition check_existing_session :: "app_state \<Rightarrow> app_state" where
  "check_existing_session s =
     (case stored_user s of
        Some u \<Rightarrow> if u \<noteq> [] then show_logged_in_state (s\<lparr>current_user := Some u\<rparr>) else s
      | None \<Rightarrow> s)"

text \<open>\<open>handleLogin\<close> with the input's value, the presence of \<open>window.hive_keychain\<close> and the
  answer passed to the \<open>requestSignBuffer\<close> callback; a callback that throws reaches the
  page's \<open>error\<close> listener.\<close>

definition handle_login :: "string \<Rightarrow> bool \<Rightarrow> jval \<Rightarrow> app_state \<Rightarrow> app_state" where
  "handle_login raw keychain response s =
     (let u = js_trim raw in
      if u = [] then show_status ''Please enter a username'' ''error'' s
      else if \<not> keychain then
        show_status ''Hive Keychain not found. Please install the Hive Keychain browser extension.'' ''error'' s
      else
        (let s1 = s\<lparr>loading := None\<rparr> in
         case js_member response ''success'' of
           Inl _ \<Rightarrow> show_status uncaught_message ''error'' s1
         | Inr ok \<Rightarrow>
             if js_truthy ok then
               show_status (''Successfully logged in as @'' @ u) ''success''
                 (show_logged_in_state (s1\<lparr>current_user := Some u, stored_user := Some u\<rparr>))
             else
               (case js_member response ''message'' of
                  Inl _ \<Rightarrow> show_status uncaught_message ''error'' s1
                | Inr m \<Rightarrow> show_status (''Login failed: '' @ (if js_truthy m then js_to_string m else ''Unknown error''))
                            ''error'' s1)))"

definition handle_logout :: "app_state \<Rightarrow> app_state" where
  "handle_logout s =
     show_status ''Logged out successfully'' ''info''
       (show_logged_out_state (s\<lparr>current_user := None, stored_user := None\<rparr>))"

text \<open>A submission of the form by the logged-in user: \<open>handleFormSubmit\<close>, whose thrown
  \<open>TypeError\<close> reaches the \<open>unhandledrejection\<close> listener.\<close>

definition app_submit ::
  "string option \<Rightarrow> string option \<Rightarrow> string option \<Rightarrow> string option \<Rightarrow> string \<Rightarrow> app_state \<Rightarrow> app_state" where
  "app_submit rn dm em nts ts s =
     (case handle_form_submit (processing s) (the (current_user s)) rn dm em nts ts of
        (SubmitIgnored, _) \<Rightarrow> s
      | (SubmitError m, _) \<Rightarrow> show_status m ''error'' s
      | (SubmitThrows _, _) \<Rightarrow> show_status uncaught_message ''error'' s
      | (SubmitBroadcast _, b) \<Rightarrow>
          s\<lparr>processing := b, awaiting_answer := True, loading := Some ''Broadcasting account request...''\<rparr>)"

text \<open>The \<open>requestCustomJson\<close> callback: it clears \<open>isProcessing\<close> before it reads the
  answer.\<close>

definition submit_answer :: "jval \<Rightarrow> app_state \<Rightarrow> app_state" where
  "submit_answer response s =
     (let s1 = s\<lparr>loading := None, processing := False, awaiting_answer := False\<rparr> in
      case js_member response ''success'' of
        Inl _ \<Rightarrow> show_status uncaught_message ''error'' s1
      | Inr ok \<Rightarrow>
          if js_truthy ok then
            show_status ''Account request submitted successfully! Your request has been broadcast to the blockchain and will be processed shortly.''
              ''success'' s1
          else
            (case js_member response ''message'' of
               Inl _ \<Rightarrow> show_status uncaught_message ''error'' s1
             | Inr m \<Rightarrow> show_status (''Failed to submit request: '' @ (if js_truthy m then js_to_string m else ''Unknown error''))
                         ''error'' s1))"

text \<open>The user's actions and the extension's answers. The login controls are visible only
  while logged out, the logout button and the form only while logged in; an answer comes
  only to a broadcast that is waiting for one.\<close>

datatype app_event =
    Login string bool jval
  | Logout
  | Submit "string option" "string option" "string option" "string option" string
  | SubmitAnswer jval

fun app_step :: "app_state \<Rightarrow> app_event \<Rightarrow> app_state option" where
  "app_step s (Login u k r) = (if logged_in_view s then None else Some (handle_login u k r s))"
| "app_step s Logout = (if logged_in_view s then Some (handle_logout s) else None)"
| "app_step s (Submit rn dm em nts ts) =
     (if logged_in_view s \<and> current_user s \<noteq> None then Some (app_submit rn dm em nts ts s) else None)"
| "app_step s (SubmitAnswer r) = (if awaiting_answer s then Some (submit_answer r s) else None)"

text \<open>The states reachable after \<open>DOMContentLoaded\<close> from what \<open>localStorage\<close> holds.\<close>

inductive app_reach :: "string option \<Rightarrow> app_state \<Rightarrow> bool" where
  reach_load: "app_reach stored (check_existing_session (app_initial stored))"
| reach_step: "app_reach stored s \<Longrightarrow> app_step s e = Some s' \<Longrightarrow> app_reach stored s'"

definition app_inv :: "app_state \<Rightarrow> bool" where
  "app_inv s \<longleftrightarrow>
     (logged_in_view s \<longleftrightarrow> current_user s \<noteq> None)
     \<and> (case current_user s of Some u \<Rightarrow> u \<noteq> [] \<and> stored_user s = Some u | None \<Rightarrow> True)
     \<and> (processing s \<longleftrightarrow> awaiting_answer s)"


subsection \<open>Properties\<close>

text \<open>C9: what \<open>handleFormSubmit\<close> broadcasts is always a request the backend's
  \<open>validateRequest\<close> accepts; but a filled-in form whose name \<open>validateHiveUsername\<close>
  rejects does not show the validator's message: the handler throws a \<open>TypeError\<close>
  (\<open>validation.errors\<close> is undefined), and all the page shows is the
  \<open>unhandledrejection\<close> listener's \<open>An unexpected error occurred. Please refresh the page.\<close>\<close>

theorem handle_form_submit_outcomes:
  "(\<forall>v b. handle_form_submit False cu rn dm em nts ts = (SubmitBroadcast v, b) \<longrightarrow> validate_request v = Inr True)
   \<and> (field_given rn \<and> field_given dm \<and> (dm = Some ''email'' \<longrightarrow> field_given em)
      \<and> validate_hive_username (the rn) \<noteq> NameValid
      \<longrightarrow> fst (handle_form_submit False cu rn dm em nts ts) = SubmitThrows TypeError
        \<and> (\<forall>s. \<not> processing s \<and> current_user s = Some cu
             \<longrightarrow> status_msg (app_submit rn dm em nts ts s) = Some (uncaught_message, ''error'')))"
  by (auto simp: handle_form_submit_def app_envelope_validates field_given_def app_submit_def show_status_def
      split: option.splits)

theorem handle_form_submit_outcomes_witness:
  "fst (handle_form_submit False ''alice'' (Some ''ab'') (Some ''hive_memo'') None None ''t'') = SubmitThrows TypeError
   \<and> validate_request (app_envelope ''alice'' ''newuser1'' ''hive_memo'' [] [] ''t'') = Inr True"
proof -
  have b: "handle_form_submit False ''alice'' (Some ''newuser1'') (Some ''hive_memo'') None None ''t''
      = (SubmitBroadcast (app_envelope ''alice'' ''newuser1'' ''hive_memo'' [] [] ''t''), True)"
    by (simp add: handle_form_submit_def field_given_def field_or_empty_def validate_hive_username_def
        Let_def js_trim_def js_ws_def js_lower_def name_chars_def reserved_prefixes_def reserved_names_def
        sublist_Cons_right)
  have t: "fst (handle_form_submit False ''alice'' (Some ''ab'') (Some ''hive_memo'') None None ''t'') = SubmitThrows TypeError"
    using handle_form_submit_outcomes [of "''alice''" "Some ''ab''" "Some ''hive_memo''" None None "''t''"]
    by (simp add: field_given_def validate_hive_username_def Let_def js_trim_def js_ws_def js_lower_def)
  from handle_form_submit_outcomes [of "''alice''" "Some ''newuser1''" "Some ''hive_memo''" None None "''t''"] b t
  show ?thesis by blast
qed

text \<open>C23: the live name check of \<open>app.js\<close> tests the object returned by
  \<open>checkAccountAvailability\<close> for truthiness instead of its \<open>available\<close> field, so every
  well-formed name is reported available whenever the node answers, including a name
  the node reports as an existing account.\<close>

theorem app_check_always_available:
  assumes "validate_hive_username n = NameValid" and "resp \<noteq> None"
  shows "app_check_username n ''requested'' resp = ShowAvailable n"
  using assms by (auto simp: app_check_username_def check_account_availability_def availability_json_def Let_def)

theorem app_check_always_available_witness:
  "app_check_username ''alice1'' ''requested'' (Some (JArr [JObj [(''name'', JStr ''alice1'')]])) = ShowAvailable ''alice1''
   \<and> check_account_availability (Some (JArr [JObj [(''name'', JStr ''alice1'')]])) = Inr \<lparr>av_available = False, av_exists = True\<rparr>"
proof -
  have "validate_hive_username ''alice1'' = NameValid"
    by (simp add: validate_hive_username_def Let_def js_trim_def js_ws_def js_lower_def name_chars_def
        reserved_prefixes_def reserved_names_def sublist_Cons_right)
  from app_check_always_available [OF this] show ?thesis
    by (simp add: check_account_availability_def)
qed

subsection \<open>The session invariant\<close>

lemma handle_form_submit_broadcast_locks:
  "handle_form_submit p cu rn dm em nts ts = (SubmitBroadcast v, b) \<Longrightarrow> \<not> p \<and> b"
  by (simp add: handle_form_submit_def split: if_splits)

lemma app_inv_load: "app_inv (check_existing_session (app_initial stored))"
  by (auto simp: app_inv_def check_existing_session_def app_initial_def show_logged_in_state_def
      split: option.splits)

lemma app_inv_login: "app_inv s \<Longrightarrow> app_inv (handle_login raw k r s)"
  by (auto simp: app_inv_def handle_login_def show_status_def show_logged_in_state_def Let_def
      split: sum.splits option.splits)

lemma app_inv_logout: "app_inv s \<Longrightarrow> app_inv (handle_logout s)"
  by (simp add: app_inv_def handle_logout_def show_status_def show_logged_out_state_def)

lemma app_inv_submit: "app_inv s \<Longrightarrow> app_inv (app_submit rn dm em nts ts s)"
  unfolding app_submit_def
  by (auto simp: app_inv_def show_status_def dest: handle_form_submit_broadcast_locks
      split: prod.splits submit_outcome.splits)

lemma app_inv_answer: "app_inv s \<Longrightarrow> app_inv (submit_answer r s)"
  by (auto simp: app_inv_def submit_answer_def show_status_def Let_def split: sum.splits)

lemma app_step_inv: "app_inv s \<Longrightarrow> app_step s e = Some s' \<Longrightarrow> app_inv s'"
  by (cases e) (auto simp: app_inv_login app_inv_logout app_inv_submit app_inv_answer split: if_splits)

text \<open>C16: in every state the page of \<open>app.js\<close> reaches after loading, whatever
  \<open>localStorage\<close> held and whatever the user and the extension do, the faucet section is
  shown exactly when a user is logged in; that user is a non-empty name and the one stored
  in \<open>localStorage\<close>; and the form is locked (\<open>isProcessing\<close>) exactly while the
  extension's answer to a broadcast is outstanding.\<close>

theorem app_session_consistent: "app_reach stored s \<Longrightarrow> app_inv s"
  by (induction rule: app_reach.induct) (auto intro: app_inv_load app_step_inv)

theorem app_session_consistent_witness:
  "app_inv (handle_login '' alice '' True (JObj [(''success'', JBool True)]) (check_existing_session (app_initial None)))"
proof -
  have "app_step (check_existing_session (app_initial None)) (Login '' alice '' True (JObj [(''success'', JBool True)]))
        = Some (handle_login '' alice '' True (JObj [(''success'', JBool True)]) (check_existing_session (app_initial None)))"
    by (simp add: check_existing_session_def app_initial_def)
  from app_session_consistent [OF app_reach.reach_step [OF app_reach.reach_load this]] show ?thesis .
qed

end
