(* ===== verification/ApiClient.thy ===== *)
theory ApiClient
  imports FrontendApp
begin

text \<open>
  The browser's API client, \<open>src/scripts/api.js\<close>: class \<open>ApiClient\<close> (lines 5-317), its
  development stand-in \<open>MockApiClient\<close> (lines 320-393) and the choice between them
  (lines 397-399). \<open>fetch\<close> is the environment: what one call of it does is a value of
  \<open>fetch_result\<close> (aborted by the 30-second timer, rejected by the network, or a response
  with its \<open>ok\<close> flag, status code and body as \<open>response.json()\<close> reads it). An exception a
  method throws is an \<open>Inl\<close> of \<open>api_exn\<close>: an \<open>Error\<close> the code builds with its message,
  or an error the engine raises (\<open>TypeError\<close>, \<open>SyntaxError\<close>) with the engine's message.
  The client's fields \<open>isRequesting\<close> and \<open>currentRequestId\<close> are the record
  \<open>api_client\<close>; \<open>submitAccountRequest\<close> is split at its \<open>await\<close> into the part before the
  request and the part after the response, so that other calls can run in between.
  \<open>pollRequestStatus\<close> is a recursion on its \<open>attempts\<close> counter; the answers of the
  successive status requests are a function of the attempt number.
\<close>

subsection \<open>Configuration and state\<close>

record api_config =
  base_url :: string
  timeout_ms :: nat
  create_account_ep :: string
  check_status_ep :: string
  health_check_ep :: string

text \<open>\<open>getApiBaseUrl\<close>: the backend of the local development server, or the production one.\<close>

definition api_base_url :: "string \<Rightarrow> string" where
  "api_base_url hostname =
     (if hostname = ''localhost'' \<or> hostname = ''127.0.0.1'' then ''http://localhost:3000''
      else ''https://your-backend-domain.com'')"

record api_client =
  config :: api_config
  is_requesting :: bool
  current_request_id :: jval

text \<open>The constructor; the default \<open>Content-Type\<close> header is not modelled.\<close>

definition new_api_client :: "string \<Rightarrow> api_client" where
  "new_api_client hostname =
     \<lparr>config = \<lparr>base_url = api_base_url hostname, timeout_ms = 30000,
                create_account_ep = ''/api/create-account'', check_status_ep = ''/api/status'',
                health_check_ep = ''/api/health''\<rparr>,
      is_requesting = False, current_request_id = JNull\<rparr>"

subsection \<open>makeRequest\<close>

datatype fetch_result =
    FetchAborted
  | FetchRejected string
  | FetchResponse bool int "string + jval"

datatype api_exn = ErrorMsg string | EngineError string

primrec exn_message :: "api_exn \<Rightarrow> string" where
  "exn_message (ErrorMsg m) = m"
| "exn_message (EngineError m) = m"

text \<open>The engine's message for reading a property of \<open>null\<close>.\<close>

definition null_read_message :: "string \<Rightarrow> string" where
  "null_read_message k = ''Cannot read properties of null (reading '' @ [CHR 0x27] @ k @ [CHR 0x27] @ '')''"

text \<open>\<open>makeRequest(url, options)\<close>. A response that is not \<open>ok\<close> throws its body's
  \<open>message\<close>, or \<open>HTTP error! status: N\<close> when there is none (an unreadable body counts as
  \<open>{}\<close>); an abort becomes the time-out message; everything else is rethrown.\<close>

definition make_request :: "fetch_result \<Rightarrow> api_exn + jval" where
  "make_request r =
     (case r of
        FetchAborted \<Rightarrow> Inl (ErrorMsg ''Request timed out. Please check your connection and try again.'')
      | FetchRejected m \<Rightarrow> Inl (EngineError m)
      | FetchResponse ok status body \<Rightarrow>
          if \<not> ok then
            (let err = (case body of Inl _ \<Rightarrow> JObj [] | Inr v \<Rightarrow> v) in
             case js_member err ''message'' of
               Inl _ \<Rightarrow> Inl (EngineError (null_read_message ''message''))
             | Inr m \<Rightarrow> Inl (ErrorMsg (if js_truthy m then js_to_string m
                                      else ''HTTP error! status: '' @ int_string status)))
          else (case body of Inl m \<Rightarrow> Inl (EngineError m) | Inr v \<Rightarrow> Inr v))"

subsection \<open>Requests\<close>

text \<open>The body of \<open>submitAccountRequest\<close>, from the form's four members.\<close>

definition create_account_body :: "jval \<Rightarrow> jval \<Rightarrow> jval \<Rightarrow> jval \<Rightarrow> jval" where
  "create_account_body requesting requested method notes =
     JObj [(''requestingUsername'', requesting), (''requestedUsername'', requested),
           (''deliveryMethod'', method), (''notes'', if js_truthy notes then notes else JStr [])]"

text \<open>\<open>submitAccountRequest\<close> up to its \<open>await\<close>: refused while a request is in progress,
  otherwise the flag is set and the request (URL and body) goes out.\<close>

definition submit_start ::
  "api_client \<Rightarrow> jval \<Rightarrow> jval \<Rightarrow> jval \<Rightarrow> jval \<Rightarrow> api_exn + (api_client \<times> string \<times> jval)" where
  "submit_start c requesting requested method notes =
     (if is_requesting c then Inl (ErrorMsg ''A request is already in progress. Please wait.'')
      else Inr (c\<lparr>is_requesting := True\<rparr>,
                base_url (config c) @ create_account_ep (config c),
                create_account_body requesting requested method notes))"

text \<open>The rest, when the request has settled: \<open>currentRequestId = response.requestId\<close>
  (which throws on a \<open>null\<close> response), and the \<open>finally\<close> that clears the flag.\<close>

definition submit_finish :: "api_exn + jval \<Rightarrow> api_client \<Rightarrow> (api_exn + jval) \<times> api_client" where
  "submit_finish out c =
     (case out of
        Inl e \<Rightarrow> (Inl e, c\<lparr>is_requesting := False\<rparr>)
      | Inr resp \<Rightarrow>
          (case js_member resp ''requestId'' of
             Inl _ \<Rightarrow> (Inl (EngineError (null_read_message ''requestId'')), c\<lparr>is_requesting := False\<rparr>)
           | Inr rid \<Rightarrow> (Inr resp, c\<lparr>current_request_id := rid, is_requesting := False\<rparr>)))"

text \<open>\<open>checkRequestStatus\<close>, \<open>checkUserAuthorization\<close>: the URL of the request; the
  outcome of the request is that of \<open>makeRequest\<close>.\<close>

definition status_url :: "api_config \<Rightarrow> string \<Rightarrow> string" where
  "status_url cfg rid = base_url cfg @ check_status_ep cfg @ ''/'' @ rid"

definition authorization_url :: "api_config \<Rightarrow> string \<Rightarrow> string" where
  "authorization_url cfg u = base_url cfg @ ''/api/check-authorization/'' @ u"

definition check_user_authorization :: "api_exn + jval \<Rightarrow> api_exn + jval" where
  "check_user_authorization out =
     (case out of Inl _ \<Rightarrow> Inl (ErrorMsg ''Unable to verify authorization'') | Inr r \<Rightarrow> Inr r)"

text \<open>\<open>checkAccountAvailability\<close> reads \<open>response.result\<close>; a failed request or a \<open>null\<close>
  response is the thrown \<open>Unable to check account availability\<close>, the \<open>None\<close> that
  \<open>check_account_availability\<close> takes.\<close>

definition availability_result :: "api_exn + jval \<Rightarrow> jval option" where
  "availability_result out =
     (case out of
        Inl _ \<Rightarrow> None
      | Inr resp \<Rightarrow> (case js_member resp ''result'' of Inl _ \<Rightarrow> None | Inr r \<Rightarrow> Some r))"

text \<open>Object spread \<open>{...v}\<close>: the members of an object, the indexed elements of an array
  or a string, nothing for the other values.\<close>

definition js_spread :: "jval \<Rightarrow> (string \<times> jval) list" where
  "js_spread v =
     (case v of
        JObj kvs \<Rightarrow> kvs
      | JArr vs \<Rightarrow> zip (map (\<lambda>i. int_string (int i)) [0..<length vs]) vs
      | JStr s \<Rightarrow> zip (map (\<lambda>i. int_string (int i)) [0..<length s]) (map (\<lambda>c. JStr [c]) s)
      | _ \<Rightarrow> [])"

text \<open>\<open>checkHealth\<close>: \<open>{healthy: true, ...response}\<close>, or the failure object; it never
  throws.\<close>

definition check_health :: "api_exn + jval \<Rightarrow> jval" where
  "check_health out =
     (case out of
        Inr resp \<Rightarrow> JObj ((''healthy'', JBool True) # js_spread resp)
      | Inl e \<Rightarrow> JObj [(''healthy'', JBool False), (''error'', JStr (exn_message e)),
                      (''suggestion'', JStr ''The backend service may be temporarily unavailable. Please try again later.'')])"

definition get_current_request_info :: "api_client \<Rightarrow> jval" where
  "get_current_request_info c =
     JObj [(''isRequesting'', JBool (is_requesting c)), (''requestId'', current_request_id c)]"

definition reset_request_state :: "api_client \<Rightarrow> api_client" where
  "reset_request_state c = c\<lparr>is_requesting := False, current_request_id := JNull\<rparr>"

subsection \<open>pollRequestStatus\<close>

text \<open>The rejection every failed poll ends in.\<close>

definition poll_unable :: api_exn where
  "poll_unable = ErrorMsg ''Unable to check request status. Please try again later.''"

text \<open>One call of the inner \<open>poll()\<close> after \<open>attempts\<close> earlier ones, with \<open>ans k\<close> the
  outcome of the \<open>k\<close>-th \<open>checkRequestStatus\<close>. The result is the promise's outcome
  (\<open>Inr JUndefined\<close> when the status is none of the four the loop knows), the final value of
  \<open>attempts\<close>, and the statuses handed to \<open>onUpdate\<close>. Every error thrown inside the \<open>try\<close>,
  the \<open>failed\<close> status and the time-out included, lands in the \<open>catch\<close>, which retries
  below \<open>maxAttempts\<close> and otherwise throws \<open>poll_unable\<close>.\<close>

function poll_status :: "(nat \<Rightarrow> api_exn + jval) \<Rightarrow> nat \<Rightarrow> nat \<Rightarrow> (api_exn + jval) \<times> nat \<times> jval list" where
  "poll_status ans max_attempts attempts =
     (case ans (Suc attempts) of
        Inl _ \<Rightarrow>
          (if max_attempts \<le> Suc attempts then (Inl poll_unable, Suc attempts, [])
           else poll_status ans max_attempts (Suc attempts))
      | Inr st \<Rightarrow>
          (case js_member st ''status'' of
             Inl _ \<Rightarrow>
               (if max_attempts \<le> Suc attempts then (Inl poll_unable, Suc attempts, [st])
                else map_prod id (map_prod id (Cons st)) (poll_status ans max_attempts (Suc attempts)))
           | Inr s \<Rightarrow>
               (if js_str_eq s ''completed'' then (Inr st, Suc attempts, [st])
                else if max_attempts \<le> Suc attempts then (Inl poll_unable, Suc attempts, [st])
                else if js_str_eq s ''failed'' \<or> js_str_eq s ''pending'' \<or> js_str_eq s ''processing''
                then map_prod id (map_prod id (Cons st)) (poll_status ans max_attempts (Suc attempts))
                else (Inr JUndefined, Suc attempts, [st]))))"
  by pat_completeness auto
termination
  by (relation "measure (\<lambda>(ans, m, a). m - a)") auto

declare poll_status.simps [simp del]

text \<open>\<open>pollRequestStatus(requestId, onUpdate, maxAttempts)\<close>.\<close>

definition poll_request_status :: "(nat \<Rightarrow> api_exn + jval) \<Rightarrow> nat \<Rightarrow> (api_exn + jval) \<times> nat \<times> jval list" where
  "poll_request_status ans max_attempts = poll_status ans max_attempts 0"

subsection \<open>formatErrorMessage\<close>

definition format_error_message :: "string \<Rightarrow> string" where
  "format_error_message msg =
     (let m = (if msg = [] then ''An unexpected error occurred'' else msg) in
      if js_includes m ''Failed to fetch'' \<or> js_includes m ''NetworkError''
      then ''Unable to connect to the service. Please check your internet connection and try again.''
      else if js_includes m ''timeout'' \<or> js_includes m ''timed out''
      then ''The request is taking longer than expected. Please try again in a few minutes.''
      else if js_includes m ''400''
      then ''There was an error with your request. Please check your information and try again.''
      else if js_includes m ''401'' \<or> js_includes m ''403''
      then ''Authentication failed. Please refresh the page and try again.''
      else if js_includes m ''429''
      then ''Too many requests. Please wait a few minutes before trying again.''
      else if js_includes m ''500'' \<or> js_includes m ''502'' \<or> js_includes m ''503''
      then ''The service is temporarily unavailable. Please try again in a few minutes.''
      else if length m < 200 \<and> \<not> js_includes m ''TypeError'' \<and> \<not> js_includes m ''undefined''
      then m
      else ''An error occurred while processing your request. Please try again.'')"

subsection \<open>The mock client\<close>

text \<open>What the mock reads from the outside: \<open>Date.now()\<close>, \<open>toISOString\<close> of a time, and the
  index \<open>Math.floor(Math.random() * 3)\<close> of the drawn state (taken modulo 3).\<close>

record mock_env =
  mock_now :: int
  mock_iso :: "int \<Rightarrow> string"
  mock_draw :: nat

text \<open>\<open>mockCreateAccount\<close> on the parsed body.\<close>

definition mock_create_account :: "int \<Rightarrow> jval \<Rightarrow> api_exn + jval" where
  "mock_create_account now data =
     (case js_member data ''requestedUsername'' of
        Inl _ \<Rightarrow> Inl (EngineError (null_read_message ''requestedUsername''))
      | Inr rn \<Rightarrow>
          if js_str_eq rn ''taken'' then Inl (ErrorMsg ''Username is already taken'')
          else (case js_member data ''requestingUsername'' of
                  Inl _ \<Rightarrow> Inl (EngineError (null_read_message ''requestingUsername''))
                | Inr ru \<Rightarrow>
                    if js_str_eq ru ''unauthorized'' then Inl (ErrorMsg ''You are not authorized to use this faucet service'')
                    else if js_str_eq ru ''notokens'' then
                      Inl (ErrorMsg ''You have no remaining account creation tokens. Please contact the administrator.'')
                    else Inr (JObj [(''success'', JBool True), (''requestId'', JStr (''req_'' @ int_string now)),
                                    (''message'', JStr ''Account creation request submitted successfully''),
                                    (''estimatedTime'', JStr ''5-10 minutes''), (''tokensRemaining'', JNum 9)])))"

text \<open>\<open>url.split('/').pop()\<close>: what follows the last slash.\<close>

definition last_segment :: "string \<Rightarrow> string" where
  "last_segment s = rev (takeWhile (\<lambda>c. c \<noteq> CHR ''/'') (rev s))"

definition mock_states :: "string list" where
  "mock_states = [''pending'', ''processing'', ''completed'']"

definition mock_status_check :: "mock_env \<Rightarrow> string \<Rightarrow> jval" where
  "mock_status_check env url =
     (let st = mock_states ! (mock_draw env mod 3); done = (st = ''completed'') in
      JObj [(''requestId'', JStr (last_segment url)), (''status'', JStr st),
            (''createdAt'', JStr (mock_iso env (mock_now env - 300000))),
            (''completedAt'', if done then JStr (mock_iso env (mock_now env)) else JNull),
            (''accountName'', if done then JStr ''newuser123'' else JNull),
            (''message'', JStr (if done then ''Account created successfully'' else ''Processing request...''))])"

definition mock_health_check :: "mock_env \<Rightarrow> jval" where
  "mock_health_check env =
     JObj [(''status'', JStr ''healthy''), (''timestamp'', JStr (mock_iso env (mock_now env))),
           (''version'', JStr ''1.0.0'')]"

text \<open>The mock's \<open>makeRequest\<close>: routed on the URL alone. The body is the parsed JSON
  of \<open>options.body\<close>; only \<open>submitAccountRequest\<close> posts to \<open>/create-account\<close>, always with
  a body.\<close>

definition mock_make_request :: "mock_env \<Rightarrow> string \<Rightarrow> jval \<Rightarrow> api_exn + jval" where
  "mock_make_request env url body =
     (if js_includes url ''/create-account'' then mock_create_account (mock_now env) body
      else if js_includes url ''/status/'' then Inr (mock_status_check env url)
      else if js_includes url ''/health'' then Inr (mock_health_check env)
      else Inl (ErrorMsg ''Endpoint not found''))"

subsection \<open>The global client\<close>

datatype client_kind = RealClient | MockClient

text \<open>\<open>window.apiClient\<close>: the mock on \<open>localhost\<close> unless \<open>window.FORCE_REAL_API\<close> is set.\<close>

definition select_client :: "string \<Rightarrow> jval \<Rightarrow> client_kind" where
  "select_client hostname force_real =
     (if hostname = ''localhost'' \<and> \<not> js_truthy force_real then MockClient else RealClient)"

text \<open>\<open>apiClient.makeRequest(url, {body})\<close> of the chosen class; the real one asks the
  network \<open>net\<close>.\<close>

definition client_request ::
  "client_kind \<Rightarrow> mock_env \<Rightarrow> (string \<Rightarrow> fetch_result) \<Rightarrow> string \<Rightarrow> jval \<Rightarrow> api_exn + jval" where
  "client_request k env net url body =
     (case k of RealClient \<Rightarrow> make_request (net url) | MockClient \<Rightarrow> mock_make_request env url body)"

text \<open>The JSON-RPC node \<open>checkAccountAvailability\<close> asks, and its request body.\<close>

definition rpc_endpoint :: string where
  "rpc_endpoint = ''https://api.hive.blog''"

definition get_accounts_body :: "string \<Rightarrow> jval" where
  "get_accounts_body u =
     JObj [(''jsonrpc'', JStr ''2.0''), (''method'', JStr ''condenser_api.get_accounts''),
           (''params'', JArr [JArr [JStr u]]), (''id'', JNum 1)]"

subsection \<open>Interleaved calls of submitAccountRequest\<close>

text \<open>The calls that touch the client's flag, and the settling of an outstanding request.
  The state pairs the client with the number of requests in flight.\<close>

datatype api_call =
    CallSubmit jval jval jval jval
  | Settle "api_exn + jval"
  | CallReset

fun api_event :: "api_client \<times> nat \<Rightarrow> api_call \<Rightarrow> api_client \<times> nat" where
  "api_event (c, n) (CallSubmit a b m t) =
     (case submit_start c a b m t of Inl _ \<Rightarrow> (c, n) | Inr (c', _) \<Rightarrow> (c', Suc n))"
| "api_event (c, n) (Settle out) = (if n = 0 then (c, n) else (snd (submit_finish out c), n - 1))"
| "api_event (c, n) CallReset = (reset_request_state c, n)"

definition single_flight :: "api_client \<times> nat \<Rightarrow> bool" where
  "single_flight s \<longleftrightarrow> snd s \<le> 1 \<and> (is_requesting (fst s) \<longleftrightarrow> snd s = 1)"

subsection \<open>What a poll run promises\<close>

text \<open>An answer after which the loop asks again (below the attempt limit): a failed
  request, a status that cannot be read, or one of \<open>failed\<close>, \<open>pending\<close>,
  \<open>processing\<close>; and a completed status.\<close>

definition poll_continues :: "api_exn + jval \<Rightarrow> bool" where
  "poll_continues out =
     (case out of
        Inl _ \<Rightarrow> True
      | Inr st \<Rightarrow> (case js_member st ''status'' of
                    Inl _ \<Rightarrow> True
                  | Inr s \<Rightarrow> js_str_eq s ''failed'' \<or> js_str_eq s ''pending'' \<or> js_str_eq s ''processing''))"

definition status_completed :: "jval \<Rightarrow> bool" where
  "status_completed st \<longleftrightarrow> js_member st ''status'' = Inr (JStr ''completed'')"

definition demo_status :: "string \<Rightarrow> jval" where
  "demo_status s = JObj [(''requestId'', JStr ''req_1''), (''status'', JStr s)]"


subsection \<open>Properties of pollRequestStatus\<close>

lemma poll_status_continue:
  assumes "poll_continues (ans (Suc a))" and "\<not> m \<le> Suc a"
  shows "fst (poll_status ans m a) = fst (poll_status ans m (Suc a))
    \<and> fst (snd (poll_status ans m a)) = fst (snd (poll_status ans m (Suc a)))"
proof (cases "ans (Suc a)")
  case (Inl e)
  with assms(2) show ?thesis by (simp add: poll_status.simps [of ans m a])
next
  case (Inr st)
  show ?thesis
  proof (cases "js_member st ''status''")
    case (Inl x)
    with Inr assms(2) show ?thesis by (simp add: poll_status.simps [of ans m a] map_prod_def split_beta)
  next
    case (Inr s)
    with \<open>ans (Suc a) = Inr st\<close> assms have "js_str_eq s ''failed'' \<or> js_str_eq s ''pending'' \<or> js_str_eq s ''processing''"
      by (simp add: poll_continues_def)
    then have "\<not> js_str_eq s ''completed''" by (cases s) auto
    with Inr \<open>ans (Suc a) = Inr st\<close> assms(2) \<open>js_str_eq s ''failed'' \<or> _\<close> show ?thesis
      by (simp add: poll_status.simps [of ans m a] map_prod_def split_beta)
  qed
qed

lemma poll_status_stop_or_continue:
  "(fst (snd (poll_status ans m a)) = Suc a
     \<and> (case fst (poll_status ans m a) of Inl e \<Rightarrow> e = poll_unable | Inr _ \<Rightarrow> True))
   \<or> (\<not> m \<le> Suc a \<and> poll_continues (ans (Suc a)))"
proof (cases "ans (Suc a)")
  case (Inl e)
  then show ?thesis by (simp add: poll_status.simps [of ans m a] poll_continues_def)
next
  case (Inr st)
  show ?thesis
  proof (cases "js_member st ''status''")
    case (Inl x)
    with Inr show ?thesis by (simp add: poll_status.simps [of ans m a] poll_continues_def)
  next
    case (Inr s)
    with \<open>ans (Suc a) = Inr st\<close> show ?thesis
      by (simp add: poll_status.simps [of ans m a] poll_continues_def)
  qed
qed

lemma poll_status_attempts:
  "Suc a \<le> fst (snd (poll_status ans m a)) \<and> fst (snd (poll_status ans m a)) \<le> max (Suc a) m"
proof (induction ans m a rule: poll_status.induct)
  case (1 ans m a)
  show ?case
  proof (cases "\<not> m \<le> Suc a \<and> poll_continues (ans (Suc a))")
    case True
    then have "Suc (Suc a) \<le> fst (snd (poll_status ans m (Suc a))) \<and> fst (snd (poll_status ans m (Suc a))) \<le> max (Suc (Suc a)) m"
      using "1.IH" by (auto simp: poll_continues_def split: sum.splits)
    with True show ?thesis using poll_status_continue [of ans a m] by simp
  next
    case False
    then show ?thesis using poll_status_stop_or_continue [of ans m a] by auto
  qed
qed

lemma poll_status_rejects_unable:
  "case fst (poll_status ans m a) of Inl e \<Rightarrow> e = poll_unable | Inr _ \<Rightarrow> True"
proof (induction ans m a rule: poll_status.induct)
  case (1 ans m a)
  show ?case
  proof (cases "\<not> m \<le> Suc a \<and> poll_continues (ans (Suc a))")
    case True
    then have "case fst (poll_status ans m (Suc a)) of Inl e \<Rightarrow> e = poll_unable | Inr _ \<Rightarrow> True"
      using "1.IH" by (auto simp: poll_continues_def split: sum.splits)
    with True show ?thesis using poll_status_continue [of ans a m] by simp
  next
    case False
    then show ?thesis using poll_status_stop_or_continue [of ans m a] by auto
  qed
qed

lemma poll_status_completes:
  "k \<le> m \<Longrightarrow> (\<forall>j. a < j \<and> j < k \<longrightarrow> poll_continues (ans j)) \<Longrightarrow>
   ans k = Inr st \<Longrightarrow> status_completed st \<Longrightarrow> a < k \<Longrightarrow> fst (poll_status ans m a) = Inr st"
proof (induction "k - Suc a" arbitrary: a)
  case 0
  then have "k = Suc a" by simp
  with "0.prems" show ?case
    by (simp add: poll_status.simps [of ans m a] status_completed_def)
next
  case (Suc d)
  then have "Suc a < k" by simp
  with Suc.prems have "poll_continues (ans (Suc a))" "\<not> m \<le> Suc a" by auto
  moreover have "fst (poll_status ans m (Suc a)) = Inr st"
    using Suc.hyps(1) [of "Suc a"] Suc.hyps(2) Suc.prems \<open>Suc a < k\<close> by simp
  ultimately show ?case using poll_status_continue [of ans a m] by simp
qed

text \<open>When every status request fails, the poll ends in \<open>poll_unable\<close>.\<close>

lemma poll_status_all_fail:
  "\<forall>k. \<exists>e. ans k = Inl e \<Longrightarrow> fst (poll_status ans m a) = Inl poll_unable"
proof (induction ans m a rule: poll_status.induct)
  case (1 ans m a)
  from "1.prems" obtain e where e: "ans (Suc a) = Inl e" by blast
  show ?case
  proof (cases "m \<le> Suc a")
    case True
    with e show ?thesis by (simp add: poll_status.simps [of ans m a])
  next
    case False
    with e "1.IH" "1.prems" show ?thesis by (simp add: poll_status.simps [of ans m a])
  qed
qed

text \<open>Whatever message it is given, \<open>formatErrorMessage\<close> shows fewer than 200 characters
  and never a text with \<open>undefined\<close> or \<open>TypeError\<close> in it.\<close>

lemma format_error_message_bounded:
  "length (format_error_message msg) < 200
   \<and> \<not> js_includes (format_error_message msg) ''undefined''
   \<and> \<not> js_includes (format_error_message msg) ''TypeError''"
  by (simp add: format_error_message_def Let_def del: js_includes_sublist)

subsection \<open>Properties of the client's other calls\<close>

lemma submit_finish_clears [simp]:
  "is_requesting (snd (submit_finish out c)) = False"
  by (simp add: submit_finish_def split: sum.split)

lemma api_event_single_flight:
  assumes "single_flight s" and "e \<noteq> CallReset"
  shows "single_flight (api_event s e)"
proof (cases s)
  case (Pair c n)
  show ?thesis
  proof (cases e)
    case (CallSubmit a b m t)
    with assms Pair show ?thesis
      by (auto simp: single_flight_def submit_start_def)
  next
    case (Settle out)
    with assms Pair show ?thesis by (auto simp: single_flight_def)
  next
    case CallReset
    with assms show ?thesis by simp
  qed
qed

lemma single_flight_run:
  "single_flight s \<Longrightarrow> CallReset \<notin> set evs \<Longrightarrow> single_flight (foldl api_event s evs)"
proof (induction evs arbitrary: s)
  case (Cons e evs)
  then have "single_flight (api_event s e)" by (intro api_event_single_flight) auto
  with Cons show ?case by simp
qed simp

text \<open>Without \<open>resetRequestState\<close>, at most one \<open>submitAccountRequest\<close> is in
  flight at any time and \<open>isRequesting\<close> says whether one is; a reset while a request
  is outstanding lets a second one start.\<close>

lemma one_request_in_flight:
  "CallReset \<notin> set evs \<Longrightarrow> single_flight (foldl api_event (new_api_client h, 0) evs)"
  by (rule single_flight_run) (simp_all add: single_flight_def new_api_client_def)

lemma reset_allows_second_request:
  "snd (foldl api_event (new_api_client h, 0) [CallSubmit a b m t, CallReset, CallSubmit a b m t]) = 2"
  by (simp add: submit_start_def new_api_client_def reset_request_state_def)

text \<open>On \<open>localhost\<close>, unless \<open>window.FORCE_REAL_API\<close> is set, the page uses the mock
  client, whose \<open>makeRequest\<close> knows no route for the Hive node: every live name check
  of \<open>app.js\<close> on a well-formed name ends in \<open>ShowCheckFailed\<close>.\<close>

lemma mock_availability_fails:
  assumes "\<not> js_truthy force" and "validate_hive_username n = NameValid"
  shows "app_check_username n ''requested''
           (availability_result (client_request (select_client ''localhost'' force) env net rpc_endpoint (get_accounts_body n)))
         = ShowCheckFailed"
  using assms
  by (simp add: select_client_def client_request_def mock_make_request_def rpc_endpoint_def
      availability_result_def app_check_username_def check_account_availability_def
      del: js_includes_sublist)

subsection \<open>Claims on pollRequestStatus\<close>

text \<open>C5: \<open>pollRequestStatus\<close> returns for every sequence of answers, after at least one
  and at most \<open>max 1 maxAttempts\<close> status requests.\<close>

theorem poll_request_status_terminates:
  "1 \<le> fst (snd (poll_request_status ans m)) \<and> fst (snd (poll_request_status ans m)) \<le> max 1 m"
  using poll_status_attempts [of 0 ans m] by (simp add: poll_request_status_def)

text \<open>C14: a request that the backend reports \<open>completed\<close> at attempt \<open>k \<le> maxAttempts\<close>,
  with every earlier answer a network error, an unreadable status or one of \<open>failed\<close>,
  \<open>pending\<close>, \<open>processing\<close>, is reported completed: the poll resolves with that status.\<close>

theorem poll_reports_completion:
  assumes "0 < k" and "k \<le> m" and "\<forall>j. 0 < j \<and> j < k \<longrightarrow> poll_continues (ans j)"
    and "ans k = Inr st" and "status_completed st"
  shows "fst (poll_request_status ans m) = Inr st"
  using poll_status_completes [of k m 0 ans st] assms by (simp add: poll_request_status_def)

theorem poll_reports_completion_witness:
  "fst (poll_request_status
          (\<lambda>k. if k = 1 then Inl (EngineError ''Failed to fetch'')
               else if k = 2 then Inr (demo_status ''pending'') else Inr (demo_status ''completed'')) 60)
   = Inr (demo_status ''completed'')"
  by (rule poll_reports_completion [of 3])
    (auto simp: poll_continues_def status_completed_def demo_status_def less_Suc_eq)

text \<open>C22: \<open>pollRequestStatus\<close> never rejects with the backend's failure: its only
  rejection is \<open>Unable to check request status\<close>. A \<open>failed\<close> status is thrown inside the
  \<open>try\<close> and caught by the retry of its own \<open>catch\<close>, so below the attempt limit the loop
  simply asks again, and the time-out message is never seen either.\<close>

theorem poll_failure_never_reported:
  "(case fst (poll_request_status ans m) of Inl e \<Rightarrow> e = poll_unable | Inr _ \<Rightarrow> True)
   \<and> (ans 1 = Inr st \<and> js_member st ''status'' = Inr (JStr ''failed'') \<and> 1 < m
      \<longrightarrow> fst (poll_request_status ans m) = fst (poll_status ans m 1))"
proof -
  have "poll_continues (Inr st)" if "js_member st ''status'' = Inr (JStr ''failed'')"
    using that by (simp add: poll_continues_def)
  then show ?thesis
    using poll_status_rejects_unable [of ans m 0] poll_status_continue [of ans 0 m]
    by (auto simp: poll_request_status_def)
qed

theorem poll_failure_never_reported_witness:
  "fst (poll_request_status (\<lambda>k. if k = 1 then Inr (demo_status ''failed'') else Inr (demo_status ''completed'')) 60)
   = Inr (demo_status ''completed'')"
proof -
  let ?ans = "\<lambda>k::nat. if k = 1 then Inr (demo_status ''failed'') else Inr (demo_status ''completed'')"
  have f: "js_member (demo_status ''failed'') ''status'' = Inr (JStr ''failed'')"
    by (simp add: demo_status_def)
  have c: "fst (poll_status ?ans 60 1) = Inr (demo_status ''completed'')"
    unfolding poll_status.simps [of ?ans 60 1] by (simp add: demo_status_def)
  from poll_failure_never_reported [of ?ans 60 "demo_status ''failed''"] f
  have "fst (poll_request_status ?ans 60) = fst (poll_status ?ans 60 1)" by simp
  with c show ?thesis by simp
qed

end
