(* ===== verification/Keychain.thy ===== *)
theory Keychain
  imports ApiClient JsonType
begin

text \<open>
  \<open>src/scripts/keychain.js\<close>. Its first part (lines 1-267) is \<open>KeychainManager\<close>, the
  bridge to the Hive Keychain browser extension; its second part (lines 268-654) is a
  second page controller \<open>HiveAccountApp\<close> that submits requests through that manager and
  \<open>FormValidator.validateForm\<close>. The manager's fields are the record \<open>keychain_mgr\<close>
  (the status line it shows is \<open>kc_status\<close>, without its icon; \<open>kc_form_shown\<close> is the
  visibility of the request form). The extension is the environment: whether
  \<open>window.hive_keychain\<close> exists at each of the one-second checks, and the value it passes
  to the callbacks of \<open>requestHandshake\<close> and \<open>requestCustomJson\<close>. A promise's fate is a
  \<open>promise\<close>: it resolves, rejects, or never settles, which is what happens when a
  callback throws (the exception escapes into the extension and the \<open>resolve\<close> is never
  reached). The page's state (\<open>isProcessing\<close>, \<open>currentRequestId\<close>, the status message
  and the field errors on display) is the record \<open>kc_page\<close>; the DOM elements are assumed
  present.
\<close>

subsection \<open>KeychainManager\<close>

record keychain_mgr =
  kc_connected :: bool
  kc_user :: jval
  kc_keychain :: bool
  kc_retries :: nat
  kc_max_retries :: nat
  kc_status :: "(string \<times> string) option"
  kc_form_shown :: bool

definition new_keychain_mgr :: keychain_mgr where
  "new_keychain_mgr =
     \<lparr>kc_connected = False, kc_user = JNull, kc_keychain = False, kc_retries = 0,
      kc_max_retries = 3, kc_status = None, kc_form_shown = False\<rparr>"

datatype 'a promise = Resolves 'a | Rejects api_exn | NeverSettles

definition show_keychain_status :: "string \<Rightarrow> string \<Rightarrow> keychain_mgr \<Rightarrow> keychain_mgr" where
  "show_keychain_status ty msg m = m\<lparr>kc_status := Some (ty, msg)\<rparr>"

text \<open>\<open>checkKeychainAvailability\<close>: the \<open>t\<close>-th check of \<open>window.hive_keychain\<close>; a miss
  counts a retry and checks again a second later while fewer than \<open>maxRetries\<close> attempts
  have failed. The counter is a field of the manager and is never reset.\<close>

function kc_detect :: "(nat \<Rightarrow> bool) \<Rightarrow> nat \<Rightarrow> keychain_mgr \<Rightarrow> bool \<times> keychain_mgr" where
  "kc_detect present t m =
     (if present t then (True, m\<lparr>kc_keychain := True\<rparr>)
      else if Suc (kc_retries m) < kc_max_retries m
      then kc_detect present (Suc t) (m\<lparr>kc_retries := Suc (kc_retries m)\<rparr>)
      else (False, show_keychain_status ''error''
                     ''Hive Keychain not detected. Please install Keychain extension.''
                     (m\<lparr>kc_retries := Suc (kc_retries m)\<rparr>)))"
  by pat_completeness auto
termination
  by (relation "measure (\<lambda>(present, t, m). kc_max_retries m - kc_retries m)") auto

declare kc_detect.simps [simp del]

definition check_keychain_availability :: "(nat \<Rightarrow> bool) \<Rightarrow> keychain_mgr \<Rightarrow> bool \<times> keychain_mgr" where
  "check_keychain_availability present m = kc_detect present 0 m"

definition show_connected_state :: "keychain_mgr \<Rightarrow> keychain_mgr" where
  "show_connected_state m =
     (show_keychain_status ''connected'' (''Connected as @'' @ js_to_string (kc_user m)) m)\<lparr>kc_form_shown := True\<rparr>"

text \<open>\<open>connectKeychain\<close> with the value the extension hands to the handshake callback.
  \<open>isConnected\<close> is set before \<open>response.data.username\<close> is read.\<close>

definition connect_keychain :: "jval \<Rightarrow> keychain_mgr \<Rightarrow> bool promise \<times> keychain_mgr" where
  "connect_keychain response m =
     (if \<not> kc_keychain m then
        (Resolves False, show_keychain_status ''error''
                           ''Keychain not available. Please install Hive Keychain extension.'' m)
      else
        (let m1 = show_keychain_status ''warning'' ''Requesting account access...'' m in
         case js_member response ''success'' of
           Inl _ \<Rightarrow> (NeverSettles, m1)
         | Inr ok \<Rightarrow>
             if js_truthy ok then
               (let m2 = m1\<lparr>kc_connected := True\<rparr> in
                case js_member response ''data'' of
                  Inl _ \<Rightarrow> (NeverSettles, m2)
                | Inr d \<Rightarrow>
                    (case js_member d ''username'' of
                       Inl _ \<Rightarrow> (NeverSettles, m2)
                     | Inr u \<Rightarrow> (Resolves True, show_connected_state (m2\<lparr>kc_user := u\<rparr>))))
             else
               (case js_member response ''error'' of
                  Inl _ \<Rightarrow> (NeverSettles, m1)
                | Inr err \<Rightarrow>
                    (Resolves False, show_keychain_status ''error''
                       (''Failed to connect to Keychain: '' @ (if js_truthy err then js_to_string err else ''Unknown error'')) m1))))"

definition disconnect :: "keychain_mgr \<Rightarrow> keychain_mgr" where
  "disconnect m = m\<lparr>kc_connected := False, kc_user := JNull, kc_form_shown := False, kc_status := None\<rparr>"

text \<open>\<open>isUserConnected()\<close>: \<open>this.isConnected && this.connectedUser\<close>, as a condition.\<close>

definition is_user_connected :: "keychain_mgr \<Rightarrow> bool" where
  "is_user_connected m \<longleftrightarrow> kc_connected m \<and> js_truthy (kc_user m)"

text \<open>\<open>getConnectedUser().username\<close> as \<open>validateForm\<close> and the name check use it: the
  extension reports account names as strings.\<close>

definition connected_name :: "keychain_mgr \<Rightarrow> string option" where
  "connected_name m = (case kc_user m of JStr s \<Rightarrow> Some s | _ \<Rightarrow> None)"

text \<open>The callback of \<open>requestCustomJson\<close>: the transaction id and block number on
  success, the extension's message on refusal.\<close>

definition custom_json_answer :: "jval \<Rightarrow> (jval \<times> jval) promise" where
  "custom_json_answer response =
     (case js_member response ''success'' of
        Inl _ \<Rightarrow> NeverSettles
      | Inr ok \<Rightarrow>
          if js_truthy ok then
            (case js_member response ''result'' of
               Inl _ \<Rightarrow> NeverSettles
             | Inr r \<Rightarrow>
                 (case (js_member r ''id'', js_member r ''block_num'') of
                    (Inr txid, Inr bn) \<Rightarrow> Resolves (txid, bn)
                  | _ \<Rightarrow> NeverSettles))
          else
            (case js_member response ''message'' of
               Inl _ \<Rightarrow> NeverSettles
             | Inr msg \<Rightarrow> Rejects (ErrorMsg (if js_truthy msg then js_to_string msg
                                            else ''Failed to broadcast custom JSON''))))"

text \<open>\<open>broadcastCustomJson(id, json)\<close>: the custom_json operation the extension signs and
  broadcasts (signer, id, payload) is on chain exactly when it reports success.\<close>

definition broadcast_custom_json ::
  "keychain_mgr \<Rightarrow> string \<Rightarrow> jval \<Rightarrow> jval \<Rightarrow> (jval \<times> jval) promise \<times> (jval \<times> string \<times> jval) option" where
  "broadcast_custom_json m cid json response =
     (if \<not> kc_connected m \<or> \<not> js_truthy (kc_user m) then (Rejects (ErrorMsg ''Keychain not connected''), None)
      else if \<not> kc_keychain m then (Rejects (ErrorMsg ''Keychain not available''), None)
      else (custom_json_answer response,
            if (case js_member response ''success'' of Inr ok \<Rightarrow> js_truthy ok | Inl _ \<Rightarrow> False)
            then Some (kc_user m, cid, json) else None))"

text \<open>\<open>generateRequestId\<close>: \<open>req_<Date.now()>_<six base-36 digits of Math.random()>\<close>.\<close>

definition generate_request_id :: "int \<Rightarrow> string \<Rightarrow> string" where
  "generate_request_id now r36 = ''req_'' @ int_string now @ ''_'' @ take 6 r36"

text \<open>What \<open>submitAccountRequest\<close> reads from the outside.\<close>

record kc_env =
  ke_now :: int
  ke_iso :: string
  ke_r36 :: string
  ke_response :: jval

text \<open>\<open>submitAccountRequest(formData)\<close>: the request id and the transaction id it resolves
  with, and the operation put on chain.\<close>

definition submit_account_request_kc ::
  "keychain_mgr \<Rightarrow> jval \<Rightarrow> jval \<Rightarrow> jval \<Rightarrow> kc_env \<Rightarrow> (string \<times> jval) promise \<times> (jval \<times> string \<times> jval) option" where
  "submit_account_request_kc m name method notes e =
     (if \<not> kc_connected m then (Rejects (ErrorMsg ''Please connect your Keychain first''), None)
      else
        (let rid = generate_request_id (ke_now e) (ke_r36 e);
             cj = keychain_envelope name method notes (ke_iso e) rid in
         case broadcast_custom_json m ''hive_account_faucet'' cj (ke_response e) of
           (Resolves (txid, _), op) \<Rightarrow> (Resolves (rid, txid), op)
         | (Rejects x, op) \<Rightarrow> (Rejects x, op)
         | (NeverSettles, op) \<Rightarrow> (NeverSettles, op)))"

subsection \<open>The page controller of keychain.js\<close>

record kc_page =
  kp_processing :: bool
  kp_request_id :: jval
  kp_status :: "(string \<times> string \<times> string) option"
  kp_errors :: "(string \<times> string) list"
  kp_has_button :: bool
  kp_button_disabled :: bool
  kp_spinner :: bool

text \<open>The constructor: \<open>submitButton\<close> is still \<open>null\<close>, so \<open>kp_has_button\<close> is false until
  \<open>setupDOMReferences\<close> finds it; the button (its \<open>disabled\<close> flag and whether the spinner
  rather than the label is shown) starts enabled.\<close>

definition new_kc_page :: kc_page where
  "new_kc_page = \<lparr>kp_processing = False, kp_request_id = JNull, kp_status = None, kp_errors = [],
                  kp_has_button = False, kp_button_disabled = False, kp_spinner = False\<rparr>"

text \<open>\<open>setupDOMReferences\<close>: whether \<open>#submitBtn\<close> exists.\<close>

definition setup_dom_references :: "bool \<Rightarrow> kc_page \<Rightarrow> kc_page" where
  "setup_dom_references has_button p = p\<lparr>kp_has_button := has_button\<rparr>"

text \<open>\<open>setProcessingState\<close>: the flag is set even when the page has no submit button;
  the button is disabled and shows its spinner exactly while processing.\<close>

definition set_processing_state :: "bool \<Rightarrow> kc_page \<Rightarrow> kc_page" where
  "set_processing_state b p =
     (if \<not> kp_has_button p then p\<lparr>kp_processing := b\<rparr>
      else p\<lparr>kp_processing := b, kp_button_disabled := b, kp_spinner := b\<rparr>)"

definition show_status_message :: "string \<Rightarrow> string \<Rightarrow> string \<Rightarrow> kc_page \<Rightarrow> kc_page" where
  "show_status_message ty title descr p = p\<lparr>kp_status := Some (ty, title, descr)\<rparr>"

text \<open>\<open>FormData.get\<close> of a field as a value, and \<open>formData.get('notes') || ''\<close>.\<close>

definition field_value :: "string option \<Rightarrow> jval" where
  "field_value v = (case v of Some s \<Rightarrow> JStr s | None \<Rightarrow> JNull)"

definition notes_value :: "string option \<Rightarrow> jval" where
  "notes_value v = (case v of Some s \<Rightarrow> JStr s | None \<Rightarrow> JStr [])"

text \<open>The message of the \<open>catch\<close> of \<open>handleFormSubmit\<close>.\<close>

definition submit_error_text :: "string \<Rightarrow> string" where
  "submit_error_text msg =
     (if js_includes msg ''User denied'' then ''Transaction was cancelled by user.''
      else if js_includes msg ''Insufficient Resource Credits'' then ''Insufficient Resource Credits to broadcast transaction.''
      else msg)"

definition success_text :: "jval \<Rightarrow> string \<Rightarrow> string" where
  "success_text txid rid =
     ''Transaction ID: '' @ js_to_string txid @ ''<br>Request ID: '' @ rid @ ''<br>''
     @ ''Account creation request submitted to Hive blockchain''"

text \<open>\<open>handleFormSubmit\<close> of the keychain.js page, with the form's fields (requested name,
  delivery method, notes, terms checkbox). It returns the page and the operation put on
  chain. The \<open>finally\<close> that clears \<open>isProcessing\<close> runs only when the submission's
  promise settles.\<close>

definition kc_handle_submit ::
  "kc_page \<Rightarrow> keychain_mgr \<Rightarrow> string option \<Rightarrow> string option \<Rightarrow> string option \<Rightarrow> string option \<Rightarrow> kc_env
     \<Rightarrow> kc_page \<times> (jval \<times> string \<times> jval) option" where
  "kc_handle_submit p m rn dm nts terms e =
     (if kp_processing p then (p, None)
      else if \<not> is_user_connected m then
        (show_status_message ''error'' ''Not Connected'' ''Please connect your Keychain first.'' p, None)
      else
        (let p1 = p\<lparr>kp_status := None\<rparr>;
             (ok, errs) = validate_form rn (connected_name m) terms in
         if \<not> ok then
           (show_status_message ''error'' ''Please fix the errors below and try again.'' [] (p1\<lparr>kp_errors := errs\<rparr>), None)
         else
           (let p2 = show_status_message ''info'' ''Broadcasting to Hive blockchain...''
                       ''Please confirm the transaction in Keychain.'' (set_processing_state True (p1\<lparr>kp_errors := []\<rparr>)) in
            case submit_account_request_kc m (field_value rn) (field_value dm) (notes_value nts) e of
              (Resolves (rid, txid), op) \<Rightarrow>
                (set_processing_state False
                   ((show_status_message ''success'' ''Request submitted to blockchain!'' (success_text txid rid) p2)
                      \<lparr>kp_request_id := JStr rid\<rparr>), op)
            | (Rejects x, op) \<Rightarrow>
                (set_processing_state False
                   (show_status_message ''error'' ''Failed to submit request'' (submit_error_text (exn_message x)) p2), op)
            | (NeverSettles, op) \<Rightarrow> (p2, op))))"

text \<open>\<open>checkUsernameAvailability\<close> and \<open>checkHiveAccountAvailability\<close> of the keychain.js
  page: what the name field shows, with the node's answer as \<open>check_account_availability\<close>
  takes it.\<close>

datatype kc_name_display =
    KNoCheck
  | KCleared
  | KFormatError string
  | KSameAsConnected
  | KTaken
  | KAvailable
  | KCheckFailed

definition kc_check_username :: "keychain_mgr \<Rightarrow> string \<Rightarrow> string \<Rightarrow> jval option \<Rightarrow> kc_name_display" where
  "kc_check_username m username type resp =
     (if type \<noteq> ''requested'' then KNoCheck
      else if username = [] \<or> length username < 3 then KCleared
      else if validate_hive_username username \<noteq> NameValid then KFormatError (name_message (validate_hive_username username))
      else if (case connected_name m of Some cu \<Rightarrow> cu \<noteq> [] \<and> map js_lower username = map js_lower cu | None \<Rightarrow> False)
      then KSameAsConnected
      else case check_account_availability resp of
             Inl _ \<Rightarrow> KCheckFailed
           | Inr av \<Rightarrow> if \<not> av_available av then KTaken else KAvailable)"

subsection \<open>The answers the extension gives\<close>

text \<open>The documented shape of a \<open>requestCustomJson\<close> answer: a success with a result
  object, or a refusal.\<close>

definition custom_json_answer_ty :: jty where
  "custom_json_answer_ty =
     TUnion (TObj [(''success'', TBoolLit True), (''result'', TObj [])])
            (TObj [(''success'', TBoolLit False)])"

text \<open>A handshake answer naming an account, and a page environment whose extension
  confirms the broadcast.\<close>

definition handshake_ok :: "string \<Rightarrow> jval" where
  "handshake_ok u = JObj [(''success'', JBool True), (''data'', JObj [(''username'', JStr u)])]"

definition demo_kc_env :: kc_env where
  "demo_kc_env =
     \<lparr>ke_now = 1700000000000, ke_iso = ''2023-11-14T22:13:20.000Z'', ke_r36 = ''k3j5h2xq'',
      ke_response = JObj [(''success'', JBool True), (''result'', JObj [(''id'', JStr ''tx1''), (''block_num'', JNum 7)])]\<rparr>"

definition demo_kc_mgr :: keychain_mgr where
  "demo_kc_mgr = new_keychain_mgr\<lparr>kc_connected := True, kc_user := JStr ''alice'', kc_keychain := True\<rparr>"

subsection \<open>Properties\<close>

lemma kc_detect_found:
  "fst (kc_detect present t m) \<longleftrightarrow> (\<exists>i < max 1 (kc_max_retries m - kc_retries m). present (t + i))"
proof (induction present t m rule: kc_detect.induct)
  case (1 present t m)
  show ?case
  proof (cases "present t")
    case True
    then show ?thesis by (subst kc_detect.simps) (auto intro!: exI [of _ 0])
  next
    case False
    show ?thesis
    proof (cases "Suc (kc_retries m) < kc_max_retries m")
      case True
      with False "1.IH" have "fst (kc_detect present t m)
          \<longleftrightarrow> (\<exists>i < max 1 (kc_max_retries m - Suc (kc_retries m)). present (Suc t + i))"
        by (subst kc_detect.simps) simp
      also have "\<dots> \<longleftrightarrow> (\<exists>i < max 1 (kc_max_retries m - kc_retries m). present (t + i))"
      proof
        assume "\<exists>i < max 1 (kc_max_retries m - Suc (kc_retries m)). present (Suc t + i)"
        then obtain i where "i < max 1 (kc_max_retries m - Suc (kc_retries m))" "present (t + Suc i)" by auto
        with True show "\<exists>i < max 1 (kc_max_retries m - kc_retries m). present (t + i)"
          by (intro exI [of _ "Suc i"]) auto
      next
        assume "\<exists>i < max 1 (kc_max_retries m - kc_retries m). present (t + i)"
        then obtain i where i: "i < max 1 (kc_max_retries m - kc_retries m)" "present (t + i)" by auto
        with False obtain j where "i = Suc j" by (cases i) auto
        with i True show "\<exists>i < max 1 (kc_max_retries m - Suc (kc_retries m)). present (Suc t + i)"
          by (intro exI [of _ j]) auto
      qed
      finally show ?thesis .
    next
      case False
      with \<open>\<not> present t\<close> show ?thesis
        by (subst kc_detect.simps) (auto simp: less_Suc_eq)
    qed
  qed
qed

lemma custom_json_answer_settles:
  "has_type custom_json_answer_ty r \<Longrightarrow> custom_json_answer r \<noteq> NeverSettles"
  by (auto simp: custom_json_answer_ty_def custom_json_answer_def obj_member_def
      split: jval.splits option.splits)

lemma submit_kc_op:
  "snd (submit_account_request_kc m n d no e) = Some (s, c, pl) \<Longrightarrow>
   c = ''hive_account_faucet'' \<and> pl = keychain_envelope n d no (ke_iso e) (generate_request_id (ke_now e) (ke_r36 e))"
  by (auto simp: submit_account_request_kc_def broadcast_custom_json_def Let_def
      split: promise.splits prod.splits if_splits)

lemma kc_handle_submit_op:
  "snd (kc_handle_submit p m rn dm nts terms e) = None
   \<or> snd (kc_handle_submit p m rn dm nts terms e)
       = snd (submit_account_request_kc m (field_value rn) (field_value dm) (notes_value nts) e)"
  by (auto simp: kc_handle_submit_def Let_def split: promise.splits prod.splits)


text \<open>\<open>isProcessing\<close> after a submission stays set exactly when the page got as far as the
  broadcast and the broadcast's promise never settles.\<close>

lemma submit_kc_never_settles:
  "fst (submit_account_request_kc m n d no e) = NeverSettles \<longleftrightarrow>
     kc_connected m \<and> js_truthy (kc_user m) \<and> kc_keychain m \<and> custom_json_answer (ke_response e) = NeverSettles"
  by (auto simp: submit_account_request_kc_def broadcast_custom_json_def Let_def
      split: promise.splits prod.splits)

lemma kc_handle_submit_processing:
  assumes "\<not> kp_processing p"
  shows "kp_processing (fst (kc_handle_submit p m rn dm nts terms e)) \<longleftrightarrow>
     is_user_connected m \<and> fst (validate_form rn (connected_name m) terms)
     \<and> fst (submit_account_request_kc m (field_value rn) (field_value dm) (notes_value nts) e) = NeverSettles"
  using assms
  by (auto simp: kc_handle_submit_def Let_def show_status_message_def set_processing_state_def
      split: promise.splits prod.splits)

text \<open>The name check of the keychain.js page reads the \<open>available\<close> field: a well-formed
  name of three characters or more, other than the connected account's, is shown taken
  exactly when the node lists an account for it.\<close>

lemma kc_check_username_reads_available:
  assumes "validate_hive_username n = NameValid" and "3 \<le> length n" and "connected_name m = None"
  shows "kc_check_username m n ''requested'' (Some (JArr xs)) = (if xs = [] then KAvailable else KTaken)"
  using assms by (auto simp: kc_check_username_def check_account_availability_def)

subsection \<open>Claims\<close>

text \<open>C10: every custom_json the keychain.js page gets on chain carries the faucet's id
  but a payload that \<open>validateRequest\<close> rejects (\<open>hive-account-faucet\<close> for \<open>app\<close>,
  camel-case data fields), so the backend drops every request made through that page,
  although the page reports it submitted.\<close>

theorem keychain_page_requests_dropped:
  assumes "snd (kc_handle_submit p m rn dm nts terms e) = Some (s, c, pl)"
  shows "c = ''hive_account_faucet'' \<and> validate_request pl = Inr False"
  using kc_handle_submit_op [of p m rn dm nts terms e] assms submit_kc_op keychain_envelope_rejected
  by fastforce

theorem keychain_page_requests_dropped_witness:
  "snd (kc_handle_submit new_kc_page demo_kc_mgr (Some ''newuser1'') (Some ''email'') None (Some ''on'') demo_kc_env)
     = Some (JStr ''alice'', ''hive_account_faucet'',
             keychain_envelope (JStr ''newuser1'') (JStr ''email'') (JStr []) ''2023-11-14T22:13:20.000Z''
               (generate_request_id 1700000000000 ''k3j5h2xq''))
   \<and> validate_request (keychain_envelope (JStr ''newuser1'') (JStr ''email'') (JStr []) ''2023-11-14T22:13:20.000Z''
               (generate_request_id 1700000000000 ''k3j5h2xq'')) = Inr False"
proof -
  have "validate_hive_username ''newuser1'' = NameValid"
    by (simp add: validate_hive_username_def Let_def js_trim_def js_ws_def js_lower_def name_chars_def
        reserved_prefixes_def reserved_names_def sublist_Cons_right)
  then have op: "snd (kc_handle_submit new_kc_page demo_kc_mgr (Some ''newuser1'') (Some ''email'') None (Some ''on'') demo_kc_env)
     = Some (JStr ''alice'', ''hive_account_faucet'',
             keychain_envelope (JStr ''newuser1'') (JStr ''email'') (JStr []) ''2023-11-14T22:13:20.000Z''
               (generate_request_id 1700000000000 ''k3j5h2xq''))"
    by (simp add: kc_handle_submit_def new_kc_page_def demo_kc_mgr_def new_keychain_mgr_def demo_kc_env_def
        is_user_connected_def validate_form_def connected_name_def js_lower_def field_value_def notes_value_def
        submit_account_request_kc_def broadcast_custom_json_def custom_json_answer_def Let_def)
  from keychain_page_requests_dropped [OF op] op show ?thesis by simp
qed

text \<open>C24: \<open>connectKeychain\<close> resolves only when the handshake callback receives an answer
  object. Called without an argument, the callback throws on \<open>response.success\<close>, the
  promise never settles and the manager stays as unconnected as it was; with an answer
  naming an account it resolves \<open>true\<close> and the manager is connected as that account.\<close>

theorem connect_keychain_needs_answer:
  assumes "kc_keychain m"
  shows "fst (connect_keychain JUndefined m) = NeverSettles
         \<and> kc_connected (snd (connect_keychain JUndefined m)) = kc_connected m
         \<and> fst (connect_keychain (handshake_ok u) m) = Resolves True
         \<and> is_user_connected (snd (connect_keychain (handshake_ok u) m)) = (u \<noteq> [])
         \<and> kc_user (snd (connect_keychain (handshake_ok u) m)) = JStr u"
  using assms
  by (simp add: connect_keychain_def handshake_ok_def show_keychain_status_def show_connected_state_def
      is_user_connected_def Let_def)

theorem connect_keychain_needs_answer_witness:
  "fst (connect_keychain JUndefined (snd (check_keychain_availability (\<lambda>_. True) new_keychain_mgr))) = NeverSettles
   \<and> \<not> kc_connected (snd (connect_keychain JUndefined (snd (check_keychain_availability (\<lambda>_. True) new_keychain_mgr))))
   \<and> kc_user (snd (connect_keychain (handshake_ok ''alice'') (snd (check_keychain_availability (\<lambda>_. True) new_keychain_mgr))))
       = JStr ''alice''"
proof -
  have m: "snd (check_keychain_availability (\<lambda>_. True) new_keychain_mgr) = new_keychain_mgr\<lparr>kc_keychain := True\<rparr>"
    by (simp add: check_keychain_availability_def kc_detect.simps [of "\<lambda>_. True" 0 new_keychain_mgr])
  show ?thesis
    unfolding m using connect_keychain_needs_answer [of "new_keychain_mgr\<lparr>kc_keychain := True\<rparr>" "''alice''"]
    by (simp add: new_keychain_mgr_def)
qed

text \<open>C38: a submission on the keychain.js page always unlocks the form when the extension
  answers the broadcast with an answer of the documented shape (a success with a result
  object, or a refusal); when its callback gets no answer, a valid submission leaves
  \<open>isProcessing\<close> set for good and every later submission is ignored.\<close>

theorem kc_submit_settles:
  assumes "\<not> kp_processing p"
  shows "(has_type custom_json_answer_ty (ke_response e) \<longrightarrow> \<not> kp_processing (fst (kc_handle_submit p m rn dm nts terms e)))
         \<and> (is_user_connected m \<and> kc_keychain m \<and> fst (validate_form rn (connected_name m) terms)
            \<and> ke_response e = JUndefined \<longrightarrow> kp_processing (fst (kc_handle_submit p m rn dm nts terms e)))"
  using kc_handle_submit_processing [OF assms] submit_kc_never_settles custom_json_answer_settles
  by (auto simp: custom_json_answer_def is_user_connected_def)

theorem kc_submit_settles_witness:
  "\<not> kp_processing (fst (kc_handle_submit new_kc_page demo_kc_mgr (Some ''newuser1'') (Some ''email'') None (Some ''on'') demo_kc_env))
   \<and> kp_processing (fst (kc_handle_submit new_kc_page demo_kc_mgr (Some ''newuser1'') (Some ''email'') None (Some ''on'')
                          (demo_kc_env\<lparr>ke_response := JUndefined\<rparr>)))"
proof -
  have "validate_hive_username ''newuser1'' = NameValid"
    by (simp add: validate_hive_username_def Let_def js_trim_def js_ws_def js_lower_def name_chars_def
        reserved_prefixes_def reserved_names_def sublist_Cons_right)
  then have v: "fst (validate_form (Some ''newuser1'') (connected_name demo_kc_mgr) (Some ''on''))"
    by (simp add: validate_form_def connected_name_def demo_kc_mgr_def new_keychain_mgr_def js_lower_def Let_def)
  have t: "has_type custom_json_answer_ty (ke_response demo_kc_env)"
    by (simp add: custom_json_answer_ty_def demo_kc_env_def obj_member_def)
  have c: "is_user_connected demo_kc_mgr" "kc_keychain demo_kc_mgr"
    by (simp_all add: is_user_connected_def demo_kc_mgr_def new_keychain_mgr_def)
  from kc_submit_settles [of new_kc_page demo_kc_env demo_kc_mgr "Some ''newuser1''" "Some ''email''" None "Some ''on''"]
       kc_submit_settles [of new_kc_page "demo_kc_env\<lparr>ke_response := JUndefined\<rparr>" demo_kc_mgr "Some ''newuser1''" "Some ''email''" None "Some ''on''"]
       v t c
  show ?thesis by (simp add: new_kc_page_def)
qed

end
