(* ===== verification/Debounce.thy ===== *)
theory Debounce
  imports Keychain
begin

text \<open>
  The debounced name check of the two front ends: the \<open>input\<close> listener of the requested
  name (\<open>app.js\<close> lines 24-29, 500 ms; \<open>keychain.js\<close> lines 325-336, 1000 ms) clears the
  pending timer and starts a new one, whose callback checks the field's value. The browser's
  event loop is the environment: the keystrokes are a list of (time, new value) pairs in
  time order, and a timer due at or before the next keystroke runs before that keystroke is
  handled. \<open>debounce_run\<close> follows the listener event by event with the one live timer and
  the field's value as its state; \<open>debounce_spec\<close> says declaratively which checks happen:
  one for every keystroke followed by a pause of at least the delay, and one for the last
  keystroke. The two are shown equal, and the last value typed is always checked.
\<close>

text \<open>The listener's state: the due time of the live timer (\<open>validationTimeout\<close> /
  \<open>debounceTimeout\<close>) and the field's value.\<close>

record debounce_state =
  db_timer :: "nat option"
  db_value :: string

definition debounce_init :: debounce_state where
  "debounce_init = \<lparr>db_timer = None, db_value = []\<rparr>"

text \<open>A keystroke at time \<open>t\<close>: the timer that fell due before it has already run and
  checked the value of that moment; then \<open>clearTimeout\<close> and a new \<open>setTimeout\<close>. The
  result lists the checks made, as (time, value checked).\<close>

fun debounce_run :: "nat \<Rightarrow> debounce_state \<Rightarrow> (nat \<times> string) list \<Rightarrow> (nat \<times> string) list" where
  "debounce_run d s [] = (case db_timer s of None \<Rightarrow> [] | Some due \<Rightarrow> [(due, db_value s)])"
| "debounce_run d s ((t, v) # evs) =
     (case db_timer s of
        Some due \<Rightarrow> if due \<le> t then (due, db_value s) # debounce_run d \<lparr>db_timer = Some (t + d), db_value = v\<rparr> evs
                   else debounce_run d \<lparr>db_timer = Some (t + d), db_value = v\<rparr> evs
      | None \<Rightarrow> debounce_run d \<lparr>db_timer = Some (t + d), db_value = v\<rparr> evs)"

text \<open>The checks, declaratively.\<close>

fun debounce_spec :: "nat \<Rightarrow> (nat \<times> string) list \<Rightarrow> (nat \<times> string) list" where
  "debounce_spec d [] = []"
| "debounce_spec d [(t, v)] = [(t + d, v)]"
| "debounce_spec d ((t, v) # (t', v') # evs) =
     (if t + d \<le> t' then [(t + d, v)] else []) @ debounce_spec d ((t', v') # evs)"

text \<open>The two delays of the code.\<close>

definition app_debounce_ms :: nat where "app_debounce_ms = 500"
definition kc_debounce_ms :: nat where "kc_debounce_ms = 1000"

subsection \<open>The name check's display when answers overtake each other\<close>

text \<open>The three things \<open>checkUsernameAvailability\<close> and \<open>checkHiveAccountAvailability\<close>
  of \<open>keychain.js\<close> (lines 468-565) write: the error element (its text when shown), the
  success element, and the field's \<open>error\<close> class. The success texts lose their leading
  emoji here.\<close>

record name_dom =
  nd_error :: "string option"
  nd_success :: "string option"
  nd_field_error :: bool

definition name_dom_clear :: name_dom where
  "name_dom_clear = \<lparr>nd_error = None, nd_success = None, nd_field_error = False\<rparr>"

text \<open>The part of the check that runs when the timer fires, up to the \<open>await\<close>: it clears
  the three elements and either writes the verdict or the loading text; the flag says
  whether an answer of the node is awaited.\<close>

definition kc_name_fire :: "keychain_mgr \<Rightarrow> string \<Rightarrow> name_dom \<times> bool" where
  "kc_name_fire m u =
     (if u = [] \<or> length u < 3 then (name_dom_clear, False)
      else if validate_hive_username u \<noteq> NameValid then
        (name_dom_clear\<lparr>nd_error := Some (name_message (validate_hive_username u)), nd_field_error := True\<rparr>, False)
      else if (case connected_name m of Some cu \<Rightarrow> cu \<noteq> [] \<and> map js_lower u = map js_lower cu | None \<Rightarrow> False) then
        (name_dom_clear\<lparr>nd_error := Some ''The new account name cannot be the same as your connected username.'',
                         nd_field_error := True\<rparr>, False)
      else (name_dom_clear\<lparr>nd_success := Some ''Checking availability on Hive blockchain...''\<rparr>, True))"

text \<open>The part after the \<open>await\<close>, when the node's answer arrives; it writes over what
  the display shows at that moment.\<close>

definition kc_name_answer :: "jval option \<Rightarrow> name_dom \<Rightarrow> name_dom" where
  "kc_name_answer resp d =
     (case check_account_availability resp of
        Inl _ \<Rightarrow> d\<lparr>nd_success := Some ''Could not check availability - please verify manually''\<rparr>
      | Inr av \<Rightarrow> if \<not> av_available av
                 then d\<lparr>nd_error := Some ''This username is already taken on Hive.'', nd_field_error := True,
                        nd_success := None\<rparr>
                 else d\<lparr>nd_success := Some ''Username is available on Hive!''\<rparr>)"

text \<open>One check run alone.\<close>

definition kc_name_screen1 :: "keychain_mgr \<Rightarrow> (string \<Rightarrow> jval option) \<Rightarrow> string \<Rightarrow> name_dom" where
  "kc_name_screen1 m ans u = (case kc_name_fire m u of (d, aw) \<Rightarrow> if aw then kc_name_answer (ans u) d else d)"

text \<open>The checks the timers fire, each with the latency of its answer, become a timeline
  of display writes; the event loop runs them in time order, and at equal times in the
  order listed (an answer before the next check's start).\<close>

datatype name_event = NFire string | NAnswer string

definition check_events :: "keychain_mgr \<Rightarrow> nat \<times> string \<Rightarrow> nat \<Rightarrow> (nat \<times> name_event) list" where
  "check_events m c l =
     (case c of (f, u) \<Rightarrow> (f, NFire u) # (if snd (kc_name_fire m u) then [(f + l, NAnswer u)] else []))"

definition name_events :: "keychain_mgr \<Rightarrow> (nat \<times> string) list \<Rightarrow> nat list \<Rightarrow> (nat \<times> name_event) list" where
  "name_events m cs ls = concat (map2 (check_events m) cs ls)"

fun apply_name_event :: "keychain_mgr \<Rightarrow> (string \<Rightarrow> jval option) \<Rightarrow> name_dom \<Rightarrow> nat \<times> name_event \<Rightarrow> name_dom" where
  "apply_name_event m ans d (t, NFire u) = fst (kc_name_fire m u)"
| "apply_name_event m ans d (t, NAnswer u) = kc_name_answer (ans u) d"

definition kc_name_screen ::
  "keychain_mgr \<Rightarrow> (string \<Rightarrow> jval option) \<Rightarrow> (nat \<times> string) list \<Rightarrow> nat list \<Rightarrow> name_dom" where
  "kc_name_screen m ans cs ls =
     fold (\<lambda>e d. apply_name_event m ans d e) (sort_key fst (name_events m cs ls)) name_dom_clear"

text \<open>Every answer arrives before the next check fires.\<close>

fun answers_in_order :: "(nat \<times> string) list \<Rightarrow> nat list \<Rightarrow> bool" where
  "answers_in_order ((f, u) # (f', u') # cs) (l # ls) = (f + l \<le> f' \<and> answers_in_order ((f', u') # cs) ls)"
| "answers_in_order _ _ = True"

subsection \<open>Properties\<close>

lemma debounce_run_pending:
  "debounce_run d \<lparr>db_timer = Some (t + d), db_value = v\<rparr> evs = debounce_spec d ((t, v) # evs)"
proof (induction evs arbitrary: t v)
  case Nil
  then show ?case by simp
next
  case (Cons e evs)
  obtain t' v' where e: "e = (t', v')" by fastforce
  show ?case using Cons.IH [of t' v'] by (simp add: e)
qed

lemma debounce_spec_last:
  "evs \<noteq> [] \<Longrightarrow> last (debounce_spec d evs) = (fst (last evs) + d, snd (last evs))
     \<and> debounce_spec d evs \<noteq> []"
proof (induction d evs rule: debounce_spec.induct)
  case (3 d t v t' v' evs)
  then show ?case by simp
qed simp_all

lemma debounce_spec_set:
  "set (debounce_spec d evs) \<subseteq> (\<lambda>(t, v). (t + d, v)) ` set evs"
  by (induction d evs rule: debounce_spec.induct) auto

lemma debounce_spec_gap:
  "sorted (map fst evs) \<Longrightarrow> (t, v) \<in> set (debounce_spec d evs) \<Longrightarrow> fst (hd evs) + d \<le> t"
proof (induction d evs arbitrary: t v rule: debounce_spec.induct)
  case (3 d t1 v1 t2 v2 evs)
  have s: "sorted (map fst ((t2, v2) # evs))" "t1 \<le> t2" using "3.prems"(1) by simp_all
  show ?case
  proof (cases "(t, v) \<in> set (debounce_spec d ((t2, v2) # evs))")
    case True
    then show ?thesis using "3.IH" [OF s(1) True] s(2) by simp
  next
    case False
    then show ?thesis using "3.prems"(2) by (simp split: if_splits)
  qed
qed auto

text \<open>The checks come in time order, at least the delay apart.\<close>

lemma debounce_spec_spaced:
  "sorted (map fst evs) \<Longrightarrow> sorted_wrt (\<lambda>a b. fst a + d \<le> fst b) (debounce_spec d evs)"
proof (induction d evs rule: debounce_spec.induct)
  case (3 d t v t' v' evs)
  then have s: "sorted (map fst ((t', v') # evs))" "t \<le> t'" by simp_all
  have "t + d + d \<le> fst b" if "t + d \<le> t'" "b \<in> set (debounce_spec d ((t', v') # evs))" for b
    using debounce_spec_gap [OF s(1), of "fst b" "snd b" d] that by simp
  with "3.IH" s show ?case by (auto simp: sorted_wrt_append)
qed simp_all

text \<open>C26: the event-driven listener with its one timer makes exactly the checks of the
  declarative description: one for each keystroke followed by a pause of at least the
  delay, with the value typed then, and one for the last keystroke.\<close>

theorem debounce_equiv:
  "debounce_run d debounce_init evs = debounce_spec d evs"
proof (cases evs)
  case (Cons e evs')
  obtain t v where "e = (t, v)" by fastforce
  with Cons show ?thesis by (simp add: debounce_init_def debounce_run_pending)
qed (simp add: debounce_init_def)

text \<open>C15: typing always ends in a check of the final value: for any non-empty sequence of
  keystrokes, the last check happens one delay after the last keystroke and checks the
  value then typed; the checks come in time order, each at least one delay after the
  previous one, and each checks a value that was typed.\<close>

theorem debounce_checks_last_value:
  assumes "evs \<noteq> []" and "sorted (map fst evs)"
  shows "last (debounce_run d debounce_init evs) = (fst (last evs) + d, snd (last evs))
         \<and> sorted_wrt (\<lambda>a b. fst a + d \<le> fst b) (debounce_run d debounce_init evs)
         \<and> snd ` set (debounce_run d debounce_init evs) \<subseteq> snd ` set evs"
proof -
  obtain t v evs' where e: "evs = (t, v) # evs'" using assms(1) by (cases evs) auto
  then have run: "debounce_run d debounce_init evs = debounce_spec d evs"
    by (simp add: debounce_init_def debounce_run_pending)
  have "snd ` set (debounce_spec d evs) \<subseteq> snd ` set evs"
    using debounce_spec_set [of d evs] by force
  with debounce_spec_last [OF assms(1), of d] debounce_spec_spaced [OF assms(2), of d] show ?thesis
    by (simp add: run)
qed

theorem debounce_checks_last_value_witness:
  "last (debounce_run app_debounce_ms debounce_init [(0, ''a''), (100, ''al''), (900, ''ali''), (1000, ''alic'')])
     = (1500, ''alic'')
   \<and> debounce_run app_debounce_ms debounce_init [(0, ''a''), (100, ''al''), (900, ''ali''), (1000, ''alic'')]
     = [(600, ''al''), (1500, ''alic'')]"
proof -
  have "last (debounce_run app_debounce_ms debounce_init [(0, ''a''), (100, ''al''), (900, ''ali''), (1000, ''alic'')])
     = (1000 + app_debounce_ms, ''alic'')"
    using debounce_checks_last_value [of "[(0, ''a''), (100, ''al''), (900, ''ali''), (1000, ''alic'')]" app_debounce_ms]
    by simp
  then show ?thesis by (simp add: app_debounce_ms_def debounce_init_def)
qed

subsection \<open>The display after overlapping checks\<close>

lemma check_events_screen:
  "fold (\<lambda>e d. apply_name_event m ans d e) (check_events m c l) d = kc_name_screen1 m ans (snd c)"
  by (cases c) (auto simp: check_events_def kc_name_screen1_def split: prod.splits)

lemma name_events_Cons:
  "name_events m (c # cs) (l # ls) = check_events m c l @ name_events m cs ls"
  by (simp add: name_events_def)

lemma name_events_Nil:
  "name_events m [] ls = []" "name_events m cs [] = []"
  by (simp_all add: name_events_def)

lemma name_events_single:
  "name_events m [c] ls = (case ls of [] \<Rightarrow> [] | l # _ \<Rightarrow> check_events m c l)"
  by (cases ls) (simp_all add: name_events_def)

lemma check_events_times:
  "e \<in> set (check_events m c l) \<Longrightarrow> fst c \<le> fst e \<and> fst e \<le> fst c + l"
  by (cases c) (auto simp: check_events_def split: if_splits)

lemma check_events_sorted:
  "sorted (map fst (check_events m c l))"
  by (cases c) (simp add: check_events_def)

text \<open>Whatever happened before, the display ends showing the last check's verdict when
  that check's events are the last ones run.\<close>

lemma name_events_fold_last:
  "cs \<noteq> [] \<Longrightarrow> length ls = length cs \<Longrightarrow>
   fold (\<lambda>e d. apply_name_event m ans d e) (name_events m cs ls) d = kc_name_screen1 m ans (snd (last cs))"
proof (induction cs arbitrary: ls d)
  case Nil
  then show ?case by simp
next
  case (Cons c cs)
  then obtain l ls' where ls: "ls = l # ls'" by (cases ls) auto
  show ?case
  proof (cases "cs = []")
    case True
    with Cons.prems ls show ?thesis by (simp add: name_events_Cons check_events_screen name_events_def)
  next
    case False
    with Cons.IH [of ls'] Cons.prems ls show ?thesis by (simp add: name_events_Cons)
  qed
qed

lemma name_events_after:
  "answers_in_order cs ls \<Longrightarrow> e \<in> set (name_events m cs ls) \<Longrightarrow> fst (hd cs) \<le> fst e"
proof (induction cs ls rule: answers_in_order.induct)
  case (1 f u f' u' cs l ls)
  then show ?case by (auto simp: name_events_Cons dest: check_events_times)
qed (auto simp: name_events_Nil name_events_single split: list.splits dest: check_events_times)

lemma name_events_sorted:
  "answers_in_order cs ls \<Longrightarrow> sorted (map fst (name_events m cs ls))"
proof (induction cs ls rule: answers_in_order.induct)
  case (1 f u f' u' cs l ls)
  have "fst x \<le> fst y" if "x \<in> set (check_events m (f, u) l)" "y \<in> set (name_events m ((f', u') # cs) ls)" for x y
    using check_events_times [OF that(1)] name_events_after [OF _ that(2)] "1.prems" by fastforce
  with 1 check_events_sorted [of m "(f, u)" l] show ?case by (simp add: name_events_Cons sorted_append)
qed (simp_all add: name_events_Nil name_events_single check_events_sorted split: list.splits)

text \<open>When every answer arrives before the next check fires, the display ends showing the
  verdict on the last name checked, as if that check had run alone.\<close>

theorem kc_name_in_order_shows_last:
  assumes "cs \<noteq> []" and "length ls = length cs" and "answers_in_order cs ls"
  shows "kc_name_screen m ans cs ls = kc_name_screen1 m ans (snd (last cs))"
  unfolding kc_name_screen_def
  using sort_key_id_if_sorted [OF name_events_sorted [OF assms(3)]] name_events_fold_last [OF assms(1, 2)]
  by simp

theorem kc_name_in_order_shows_last_witness:
  "kc_name_screen new_keychain_mgr (\<lambda>u. Some (JArr [])) [(1000, ''bob''), (3000, ''bobby1'')] [100, 100]
     = kc_name_screen1 new_keychain_mgr (\<lambda>u. Some (JArr [])) ''bobby1''"
  using kc_name_in_order_shows_last [of "[(1000, ''bob''), (3000, ''bobby1'')]" "[100, 100]"
      new_keychain_mgr "\<lambda>u. Some (JArr [])"]
  by simp


end
