(* ===== verification/KeychainApp.thy ===== *)
theory KeychainApp
  imports Debounce
begin

text \<open>
  The keychain.js page as a whole: \<open>HiveAccountApp\<close>'s constructor and \<open>init\<close>
  (\<open>setupDOMReferences\<close>, \<open>setupEventListeners\<close>, \<open>setupRealtimeValidation\<close>, then
  \<open>keychainManager.init()\<close> with the detection and \<open>KeychainManager.setupEventListeners\<close>),
  and the user's actions on the page afterwards: the connect and disconnect buttons, the
  form's submit event and the Ctrl+Enter shortcut. \<open>kc_app_step\<close> runs one action on the
  manager, the page controller and the list of custom_json operations the extension has
  put on chain; \<open>kc_app_reach\<close> is the set of states a page session reaches. A submission
  is one step: the broadcast's answer is part of the action, and a broadcast that never
  answers leaves the page processing.
\<close>

record kc_app =
  ka_mgr :: keychain_mgr
  ka_page :: kc_page
  ka_connect_btn :: bool
  ka_disconnect_btn :: bool
  ka_form :: bool
  ka_chain :: "(jval \<times> string \<times> jval) list"

text \<open>The constructor of the page and \<open>init\<close> (keychain.js lines 272-303, 16-20, 50-61):
  which of \<open>#accountRequestForm\<close>, \<open>#submitBtn\<close>, \<open>#connectKeychainBtn\<close> and
  \<open>#disconnectBtn\<close> exist, and when the extension's object appears. The form's listeners
  are attached only when the form exists; the manager's button listeners once detection
  has ended.\<close>

definition kc_app_init :: "bool \<Rightarrow> bool \<Rightarrow> bool \<Rightarrow> bool \<Rightarrow> (nat \<Rightarrow> bool) \<Rightarrow> kc_app" where
  "kc_app_init has_form has_button has_connect has_disconnect present =
     \<lparr>ka_mgr = snd (check_keychain_availability present new_keychain_mgr),
      ka_page = setup_dom_references has_button new_kc_page,
      ka_connect_btn = has_connect, ka_disconnect_btn = has_disconnect, ka_form = has_form, ka_chain = []\<rparr>"

text \<open>The \<open>keydown\<close> listener (lines 347-354): whether it calls \<open>form.requestSubmit()\<close>.\<close>

definition kc_keydown :: "bool \<Rightarrow> string \<Rightarrow> kc_page \<Rightarrow> bool" where
  "kc_keydown ctrl key p \<longleftrightarrow> ctrl \<and> key = ''Enter'' \<and> \<not> kp_processing p"

datatype kc_app_event =
    ConnectClick jval
  | DisconnectClick
  | SubmitForm "string option" "string option" "string option" "string option" kc_env
  | KeyDown bool string "string option" "string option" "string option" "string option" kc_env

definition kc_app_submit ::
  "kc_app \<Rightarrow> string option \<Rightarrow> string option \<Rightarrow> string option \<Rightarrow> string option \<Rightarrow> kc_env \<Rightarrow> kc_app" where
  "kc_app_submit a rn dm nts terms e =
     (case kc_handle_submit (ka_page a) (ka_mgr a) rn dm nts terms e of
        (p, op) \<Rightarrow> a\<lparr>ka_page := p, ka_chain := ka_chain a @ (case op of None \<Rightarrow> [] | Some x \<Rightarrow> [x])\<rparr>)"

fun kc_app_step :: "kc_app \<Rightarrow> kc_app_event \<Rightarrow> kc_app" where
  "kc_app_step a (ConnectClick r) =
     (if ka_connect_btn a then a\<lparr>ka_mgr := snd (connect_keychain r (ka_mgr a))\<rparr> else a)"
| "kc_app_step a DisconnectClick =
     (if ka_disconnect_btn a then a\<lparr>ka_mgr := disconnect (ka_mgr a)\<rparr> else a)"
| "kc_app_step a (SubmitForm rn dm nts terms e) =
     (if ka_form a then kc_app_submit a rn dm nts terms e else a)"
| "kc_app_step a (KeyDown ctrl key rn dm nts terms e) =
     (if ka_form a \<and> kc_keydown ctrl key (ka_page a) then kc_app_submit a rn dm nts terms e else a)"

inductive kc_app_reach :: "kc_app \<Rightarrow> bool" where
  reach_init: "kc_app_reach (kc_app_init has_form has_button has_connect has_disconnect present)"
| reach_step: "kc_app_reach a \<Longrightarrow> kc_app_reach (kc_app_step a ev)"

text \<open>The page's invariant: the button mirrors \<open>isProcessing\<close>, a disconnected manager
  holds no user, and every operation on chain is a faucet custom_json signed by a user.\<close>

definition kc_button_mirrors :: "kc_page \<Rightarrow> bool" where
  "kc_button_mirrors p \<longleftrightarrow>
     (kp_has_button p \<longrightarrow> kp_button_disabled p = kp_processing p \<and> kp_spinner p = kp_processing p)"

definition kc_app_inv :: "kc_app \<Rightarrow> bool" where
  "kc_app_inv a \<longleftrightarrow>
     kc_button_mirrors (ka_page a)
     \<and> (\<not> kc_connected (ka_mgr a) \<longrightarrow> kc_user (ka_mgr a) = JNull)
     \<and> (\<forall>(s, c, pl) \<in> set (ka_chain a). js_truthy s \<and> c = ''hive_account_faucet'' \<and> validate_request pl = Inr False)"

subsection \<open>Properties\<close>

lemma kc_detect_keeps_user:
  "kc_connected (snd (kc_detect present t m)) = kc_connected m \<and> kc_user (snd (kc_detect present t m)) = kc_user m"
proof (induction present t m rule: kc_detect.induct)
  case (1 present t m)
  note IH = "1.IH"
  show ?case unfolding kc_detect.simps [of present t m] by (simp add: show_keychain_status_def IH)
qed

lemma connect_keychain_user:
  "kc_connected (snd (connect_keychain r m))
   \<or> (kc_connected (snd (connect_keychain r m)) = kc_connected m \<and> kc_user (snd (connect_keychain r m)) = kc_user m)"
  by (auto simp: connect_keychain_def Let_def show_keychain_status_def show_connected_state_def
      split: sum.splits)

lemma kc_handle_submit_mirrors:
  "kc_button_mirrors p \<Longrightarrow> kc_button_mirrors (fst (kc_handle_submit p m rn dm nts terms e))"
  by (auto simp: kc_button_mirrors_def kc_handle_submit_def Let_def show_status_message_def set_processing_state_def
      split: promise.splits prod.splits)

lemma broadcast_signer:
  "broadcast_custom_json m cid json r = (x, Some (s, c, pl)) \<Longrightarrow> s = kc_user m \<and> js_truthy s"
  by (auto simp: broadcast_custom_json_def split: if_splits)

lemma kc_handle_submit_op_shape:
  assumes "snd (kc_handle_submit p m rn dm nts terms e) = Some (s, c, pl)"
  shows "js_truthy s \<and> c = ''hive_account_faucet'' \<and> validate_request pl = Inr False"
proof -
  have op: "snd (submit_account_request_kc m (field_value rn) (field_value dm) (notes_value nts) e) = Some (s, c, pl)"
    using kc_handle_submit_op [of p m rn dm nts terms e] assms by auto
  then have "js_truthy s"
    by (auto simp: submit_account_request_kc_def Let_def dest!: broadcast_signer split: if_splits promise.splits prod.splits)
  with submit_kc_op [OF op] keychain_envelope_rejected show ?thesis by simp
qed

lemma kc_app_submit_inv:
  assumes "kc_app_inv a"
  shows "kc_app_inv (kc_app_submit a rn dm nts terms e)"
proof -
  obtain p op where h: "kc_handle_submit (ka_page a) (ka_mgr a) rn dm nts terms e = (p, op)" by fastforce
  have "kc_button_mirrors p"
    using kc_handle_submit_mirrors [of "ka_page a" "ka_mgr a" rn dm nts terms e] assms h
    by (simp add: kc_app_inv_def)
  moreover have "js_truthy s \<and> c = ''hive_account_faucet'' \<and> validate_request pl = Inr False" if "op = Some (s, c, pl)" for s c pl
    using kc_handle_submit_op_shape [of "ka_page a" "ka_mgr a" rn dm nts terms e s c pl] h that by simp
  ultimately show ?thesis using assms h
    by (auto simp: kc_app_inv_def kc_app_submit_def split: option.splits)
qed

lemma kc_app_step_inv:
  assumes "kc_app_inv a"
  shows "kc_app_inv (kc_app_step a ev)"
proof (cases ev)
  case (ConnectClick r)
  then show ?thesis using assms connect_keychain_user [of r "ka_mgr a"] by (auto simp: kc_app_inv_def)
next
  case DisconnectClick
  then show ?thesis using assms by (auto simp: kc_app_inv_def disconnect_def)
qed (simp_all add: assms kc_app_submit_inv)

lemma kc_app_init_inv:
  "kc_app_inv (kc_app_init has_form has_button has_connect has_disconnect present)"
  using kc_detect_keeps_user [of present 0 new_keychain_mgr]
  by (simp add: kc_app_inv_def kc_button_mirrors_def kc_app_init_def check_keychain_availability_def
      setup_dom_references_def new_kc_page_def new_keychain_mgr_def)

text \<open>The Ctrl+Enter shortcut's own guard is redundant: pressed while a submission is in
  progress the submit handler would ignore it too, so the shortcut acts exactly as a submit.\<close>

lemma kc_keydown_is_submit:
  "kc_app_step a (KeyDown True ''Enter'' rn dm nts terms e) = kc_app_step a (SubmitForm rn dm nts terms e)"
  by (auto simp: kc_keydown_def kc_app_submit_def kc_handle_submit_def)

text \<open>C13: in every state a keychain.js page session reaches, the submit button is disabled
  and shows its spinner exactly while a submission is in progress, a disconnected manager
  holds no user, and every operation the page has put on chain is a custom_json with the
  faucet's id, signed by a user, whose payload the backend's \<open>validateRequest\<close> rejects.\<close>

theorem kc_app_consistent:
  "kc_app_reach a \<Longrightarrow> kc_app_inv a"
  by (induction rule: kc_app_reach.induct) (simp_all add: kc_app_init_inv kc_app_step_inv)

theorem kc_app_consistent_witness:
  "kc_app_inv (kc_app_step (kc_app_step (kc_app_init True True True True (\<lambda>_. True))
                (ConnectClick (handshake_ok ''alice'')))
              (SubmitForm (Some ''newuser1'') (Some ''email'') None (Some ''on'') demo_kc_env))"
  using kc_app_consistent [OF kc_app_reach.reach_step [OF kc_app_reach.reach_step [OF kc_app_reach.reach_init]]] .

end
