(* ===== verification/Pump.thy ===== *)
theory Pump
  imports Prelude
begin

text \<open>
  The block pump of \<open>BlockchainMonitor\<close> (\<open>src/backend/services/blockchain-monitor.js\<close>):
  the constructor's cursor recovery (lines 20-54, \<open>loadLastBlock\<close> 97-109), the cursor
  store \<open>saveLastBlock\<close> (111-123), \<open>start\<close> (128-151), the \<open>streamBlocks\<close> loop (156-181)
  and \<open>stop\<close> (724-729). The application state is a type variable \<open>'s\<close> and processing a
  block is a parameter \<open>proc :: int \<Rightarrow> 's \<Rightarrow> 's\<close>: the root theory instantiates it with the
  account pipeline.

  Every call of \<open>streamBlocks\<close> is a loop of its own, suspended at an \<open>await\<close>; the list
  \<open>loops\<close> holds the program point of each. Between two \<open>await\<close>s JavaScript runs
  without interruption, so one event of \<open>pump_event\<close> is the code from one resumption
  to the next suspension: an HTTP \<open>start\<close> or \<open>stop\<close>, or the answer of the node (head
  block, a block, an error) or the end of a sleep delivered to one loop. The events carry
  the node's answers and the outcome of each file write. \<open>processBlock\<close> is one event: its
  own suspensions are not observable here (an interleaved \<open>stop\<close> has the same effect as
  one right before or after it), and it never throws, since \<open>processCustomJson\<close>
  catches everything. The ghost list \<open>processed\<close> records the heights handed to
  \<open>processBlock\<close>, in order.
\<close>

subsection \<open>Configuration and cursor file\<close>

text \<open>\<open>parseInt(process.env.BLOCK_SAVE_INTERVAL) || 20\<close>; \<open>None\<close> is \<open>NaN\<close>.\<close>

definition block_save_interval :: "int option \<Rightarrow> int" where
  "block_save_interval v = (case v of None \<Rightarrow> 20 | Some n \<Rightarrow> if n = 0 then 20 else n)"

text \<open>\<open>loadLastBlock\<close>: the number stored under \<open>lastProcessedBlock\<close> of a readable
  \<open>last_block.json\<close>, otherwise the current value.\<close>

definition load_last_block :: "jval store \<Rightarrow> int \<Rightarrow> int" where
  "load_last_block f cur =
     (case read_file f of
        None \<Rightarrow> cur
      | Some d \<Rightarrow>
          if js_truthy d
          then (case js_member d ''lastProcessedBlock'' of Inr (JNum n) \<Rightarrow> n | _ \<Rightarrow> cur)
          else cur)"

text \<open>The constructor: the persisted block, or else \<open>parseInt(LAST_PROCESSED_BLOCK) || 0\<close>
  when that is positive, or else 0 (which makes \<open>start\<close> ask the node for its head).\<close>

definition initial_block :: "jval store \<Rightarrow> int option \<Rightarrow> int" where
  "initial_block f env_block =
     (let b = load_last_block f 0 in
      if b = 0 then (let e = (case env_block of None \<Rightarrow> 0 | Some n \<Rightarrow> n) in if 0 < e then e else 0)
      else b)"

definition cursor_payload :: "int \<Rightarrow> string \<Rightarrow> jval" where
  "cursor_payload n stamp = JObj [(''lastProcessedBlock'', JNum n), (''savedAt'', JStr stamp)]"

subsection \<open>Monitor state\<close>

datatype loop_pc =
    AwaitHead
  | AwaitBlock int
  | AwaitSleep
  | Finished

record 's pump_state =
  is_running :: bool
  last_processed :: int
  last_saved :: "int option"
  cursor_file :: "jval store"
  loops :: "loop_pc list"
  processed :: "int list"
  app :: 's

definition new_monitor :: "jval store \<Rightarrow> int option \<Rightarrow> 's \<Rightarrow> 's pump_state" where
  "new_monitor f env_block a =
     \<lparr>is_running = False, last_processed = initial_block f env_block, last_saved = None,
      cursor_file = f, loops = [], processed = [], app = a\<rparr>"

text \<open>\<open>saveLastBlock(force)\<close>: write-then-rename of the cursor; \<open>_lastSavedBlock\<close> is
  updated only when the write returned.\<close>

definition save_last_block :: "write_outcome \<Rightarrow> string \<Rightarrow> bool \<Rightarrow> 's pump_state \<Rightarrow> 's pump_state" where
  "save_last_block w stamp force st =
     (if last_processed st \<le> 0 then st
      else if \<not> force \<and> last_saved st = Some (last_processed st) then st
      else st\<lparr>cursor_file := replace_file w (cursor_payload (last_processed st) stamp) (cursor_file st),
              last_saved := (if write_ok w then Some (last_processed st) else last_saved st)\<rparr>)"

text \<open>The head of \<open>while (this.isRunning)\<close>, reached after every resumption of a loop.\<close>

definition loop_continue :: "'s pump_state \<Rightarrow> loop_pc" where
  "loop_continue st = (if is_running st then AwaitBlock (last_processed st + 1) else Finished)"

definition set_loop :: "nat \<Rightarrow> loop_pc \<Rightarrow> 's pump_state \<Rightarrow> 's pump_state" where
  "set_loop i pc st = st\<lparr>loops := (loops st)[i := pc]\<rparr>"

text \<open>\<open>start()\<close> up to its first suspension; the endpoint \<open>POST /monitor/start\<close> makes the
  same \<open>isRunning\<close> check before calling it.\<close>

definition monitor_start :: "'s pump_state \<Rightarrow> 's pump_state" where
  "monitor_start st =
     (if is_running st then st
      else
        let st1 = st\<lparr>is_running := True\<rparr> in
        if last_processed st1 = 0 then st1\<lparr>loops := loops st1 @ [AwaitHead]\<rparr>
        else st1\<lparr>loops := loops st1 @ [loop_continue st1]\<rparr>)"

definition monitor_stop :: "write_outcome \<Rightarrow> string \<Rightarrow> 's pump_state \<Rightarrow> 's pump_state" where
  "monitor_stop w stamp st = (save_last_block w stamp True st)\<lparr>is_running := False\<rparr>"

text \<open>The control endpoints of the HTTP server (\<open>src/unnamed/part_001\<close> lines 465-478):
  the response message and the new state. The boot sequence's \<open>await monitor.start()\<close>
  and the endpoint have the same effect, since \<open>start\<close> repeats the endpoint's check; the
  signal handlers call \<open>stop\<close> and exit.\<close>

definition post_monitor_start :: "'s pump_state \<Rightarrow> string \<times> 's pump_state" where
  "post_monitor_start st =
     (if is_running st then (''Monitor already running'', st) else (''Monitor started'', monitor_start st))"

definition post_monitor_stop :: "write_outcome \<Rightarrow> string \<Rightarrow> 's pump_state \<Rightarrow> string \<times> 's pump_state" where
  "post_monitor_stop w stamp st = (''Monitor stopped'', monitor_stop w stamp st)"

subsection \<open>Events\<close>

datatype block_answer = GotBlock | NoBlockYet | FetchFailed

datatype pump_event =
    StartCall
  | StopCall write_outcome
  | HeadAnswer nat "int option"
  | BlockAnswer nat block_answer write_outcome
  | SleepDone nat

record pump_env =
  save_interval :: int
  iso_now :: string

text \<open>\<open>getDynamicGlobalProperties\<close> answered for loop \<open>i\<close>: the loop starts at the head's
  predecessor, or \<open>start\<close>'s \<open>catch\<close> clears \<open>isRunning\<close>.\<close>

definition head_arrived :: "nat \<Rightarrow> int option \<Rightarrow> 's pump_state \<Rightarrow> 's pump_state" where
  "head_arrived i h st =
     (case h of
        Some head \<Rightarrow> let st1 = st\<lparr>last_processed := head - 1\<rparr> in set_loop i (loop_continue st1) st1
      | None \<Rightarrow> set_loop i Finished (st\<lparr>is_running := False\<rparr>))"

text \<open>\<open>getBlock(nextBlock)\<close> answered for loop \<open>i\<close>: a block is processed, the cursor
  advanced and persisted every \<open>blockSaveInterval\<close> blocks; no block or an error sends the
  loop to sleep with nothing changed.\<close>

definition block_arrived ::
  "pump_env \<Rightarrow> (int \<Rightarrow> 's \<Rightarrow> 's) \<Rightarrow> nat \<Rightarrow> int \<Rightarrow> block_answer \<Rightarrow> write_outcome \<Rightarrow>
     's pump_state \<Rightarrow> 's pump_state" where
  "block_arrived env proc i n a w st =
     (case a of
        GotBlock \<Rightarrow>
          let st1 = st\<lparr>app := proc n (app st), processed := processed st @ [n], last_processed := n\<rparr>;
              st2 = (if save_interval env dvd n then save_last_block w (iso_now env) False st1 else st1)
          in set_loop i (loop_continue st2) st2
      | _ \<Rightarrow> set_loop i AwaitSleep st)"

definition sleep_done :: "nat \<Rightarrow> 's pump_state \<Rightarrow> 's pump_state" where
  "sleep_done i st = set_loop i (loop_continue st) st"

text \<open>One event; \<open>None\<close> when it is not enabled (the loop is not suspended there).\<close>

fun pump_step ::
  "pump_env \<Rightarrow> (int \<Rightarrow> 's \<Rightarrow> 's) \<Rightarrow> pump_event \<Rightarrow> 's pump_state \<Rightarrow> 's pump_state option" where
  "pump_step env proc StartCall st = Some (snd (post_monitor_start st))"
| "pump_step env proc (StopCall w) st = Some (snd (post_monitor_stop w (iso_now env) st))"
| "pump_step env proc (HeadAnswer i h) st =
     (if i < length (loops st) \<and> loops st ! i = AwaitHead then Some (head_arrived i h st) else None)"
| "pump_step env proc (BlockAnswer i a w) st =
     (if i < length (loops st) then
        (case loops st ! i of AwaitBlock n \<Rightarrow> Some (block_arrived env proc i n a w st) | _ \<Rightarrow> None)
      else None)"
| "pump_step env proc (SleepDone i) st =
     (if i < length (loops st) \<and> loops st ! i = AwaitSleep then Some (sleep_done i st) else None)"

text \<open>A schedule of events, each admitted by \<open>ok\<close> (\<open>\<lambda>_ _. True\<close> admits all).\<close>

fun pump_run ::
  "('s pump_state \<Rightarrow> pump_event \<Rightarrow> bool) \<Rightarrow> pump_env \<Rightarrow> (int \<Rightarrow> 's \<Rightarrow> 's) \<Rightarrow> pump_event list \<Rightarrow>
     's pump_state \<Rightarrow> 's pump_state option" where
  "pump_run ok env proc [] st = Some st"
| "pump_run ok env proc (ev # evs) st =
     (if ok st ev then
        (case pump_step env proc ev st of None \<Rightarrow> None | Some st' \<Rightarrow> pump_run ok env proc evs st')
      else None)"

subsection \<open>Specification\<close>

text \<open>
  \<open>pump_reach ok\<close> is reachability by events admitted by \<open>ok\<close>. \<open>event_ok\<close> admits
  the schedules in which \<open>start\<close> is never called while a stopped loop is still suspended
  (the HTTP endpoints allow it; \<open>restart_race_reprocesses\<close> shows what happens then) and
  in which the node reports positive heights only. \<open>pump_inv\<close> is the invariant of
  those schedules: at most one live loop, waiting for the block after
  \<open>lastProcessedBlock\<close>; the processed heights an interval ending there; the cursor
  and \<open>_lastSavedBlock\<close> never ahead of it.
\<close>

definition live :: "loop_pc \<Rightarrow> bool" where
  "live pc \<longleftrightarrow> pc \<noteq> Finished"

definition cursor_of :: "jval store \<Rightarrow> int option" where
  "cursor_of f =
     (case read_file f of
        Some d \<Rightarrow> if js_truthy d then (case js_member d ''lastProcessedBlock'' of Inr (JNum n) \<Rightarrow> Some n | _ \<Rightarrow> None) else None
      | None \<Rightarrow> None)"

definition event_ok :: "'s pump_state \<Rightarrow> pump_event \<Rightarrow> bool" where
  "event_ok st ev =
     (case ev of
        StartCall \<Rightarrow> is_running st \<or> list_all (\<lambda>pc. pc = Finished) (loops st)
      | HeadAnswer i (Some h) \<Rightarrow> 0 < h
      | BlockAnswer i GotBlock w \<Rightarrow> (case loops st ! i of AwaitBlock n \<Rightarrow> 0 < n | _ \<Rightarrow> True)
      | _ \<Rightarrow> True)"

inductive pump_reach ::
  "('s pump_state \<Rightarrow> pump_event \<Rightarrow> bool) \<Rightarrow> pump_env \<Rightarrow> (int \<Rightarrow> 's \<Rightarrow> 's) \<Rightarrow>
     's pump_state \<Rightarrow> 's pump_state \<Rightarrow> bool"
  for ok env proc st0 where
  reach_init: "pump_reach ok env proc st0 st0"
| reach_step: "pump_reach ok env proc st0 st \<Longrightarrow> ok st ev \<Longrightarrow> pump_step env proc ev st = Some st' \<Longrightarrow>
     pump_reach ok env proc st0 st'"

definition writes_ok :: "pump_event \<Rightarrow> bool" where
  "writes_ok ev = (case ev of StopCall w \<Rightarrow> w = Written | BlockAnswer _ _ w \<Rightarrow> w = Written | _ \<Rightarrow> True)"

definition cursor_covers :: "int \<Rightarrow> 's pump_state \<Rightarrow> bool" where
  "cursor_covers k st \<longleftrightarrow>
     (\<forall>n \<in> set (processed st). k dvd n \<longrightarrow> (\<exists>c. cursor_of (cursor_file st) = Some c \<and> n \<le> c))"

definition pump_inv :: "'s pump_state \<Rightarrow> bool" where
  "pump_inv st \<longleftrightarrow>
     length (filter live (loops st)) \<le> 1
   \<and> (\<forall>n. AwaitBlock n \<in> set (loops st) \<longrightarrow> n = last_processed st + 1)
   \<and> (AwaitHead \<in> set (loops st) \<longrightarrow> last_processed st = 0 \<and> processed st = [])
   \<and> (processed st = [] \<or> (\<exists>a. 0 < a \<and> processed st = [a..last_processed st]))
   \<and> (\<forall>c. last_saved st = Some c \<longrightarrow> c \<le> last_processed st)
   \<and> (\<forall>c. cursor_of (cursor_file st) = Some c \<longrightarrow> c \<le> last_processed st)"


text \<open>A monitor resuming from a cursor at block 100, saving every 2 blocks.\<close>

definition demo_pump_env :: pump_env where
  "demo_pump_env = \<lparr>save_interval = 2, iso_now = ''2025-01-01T00:00:00Z''\<rparr>"

definition demo_monitor :: "unit pump_state" where
  "demo_monitor = new_monitor (Holds (cursor_payload 100 ''t0'')) None ()"

text \<open>Two blocks, with a fetch error and a retry between them.\<close>

definition demo_events :: "pump_event list" where
  "demo_events = [StartCall, BlockAnswer 0 GotBlock Written, BlockAnswer 0 FetchFailed Written,
     SleepDone 0, BlockAnswer 0 GotBlock Written]"

definition demo_run :: "unit pump_state" where
  "demo_run = the (pump_run event_ok demo_pump_env (\<lambda>n s. s) demo_events demo_monitor)"


subsection \<open>The invariant\<close>

lemma post_monitor_effect [simp]:
  "snd (post_monitor_start st) = monitor_start st"
  "snd (post_monitor_stop w t st) = monitor_stop w t st"
  by (simp_all add: post_monitor_start_def post_monitor_stop_def monitor_start_def)

lemmas pump_step_defs = demo_monitor_def new_monitor_def initial_block_def load_last_block_def
  demo_pump_env_def monitor_start_def monitor_stop_def loop_continue_def block_arrived_def set_loop_def
  save_last_block_def sleep_done_def head_arrived_def event_ok_def cursor_payload_def Let_def

lemma cursor_of_payload [simp]: "cursor_of (Holds (cursor_payload n s)) = Some n"
  by (simp add: cursor_of_def cursor_payload_def)

lemma load_last_block_cursor: "load_last_block f cur = (case cursor_of f of None \<Rightarrow> cur | Some n \<Rightarrow> n)"
  by (auto simp: load_last_block_def cursor_of_def split: option.splits sum.splits jval.splits)

lemma initial_block_inv: "pump_inv (new_monitor f e a)"
  by (auto simp: pump_inv_def new_monitor_def initial_block_def load_last_block_cursor Let_def
      split: option.splits)

lemma only_live:
  assumes "length (filter live xs) \<le> 1" "i < length xs" "live (xs ! i)" "j < length xs" "j \<noteq> i"
  shows "xs ! j = Finished"
proof (rule ccontr)
  assume "xs ! j \<noteq> Finished"
  then have "{i, j} \<subseteq> {k. k < length xs \<and> live (xs ! k)}"
    using assms by (auto simp: live_def)
  then have "card {i, j} \<le> card {k. k < length xs \<and> live (xs ! k)}"
    by (rule card_mono [rotated]) simp
  with assms show False by (simp add: length_filter_conv_card)
qed

lemma live_update_le1:
  assumes "\<forall>j<length xs. j \<noteq> i \<longrightarrow> xs ! j = Finished" "i < length xs"
  shows "length (filter live (xs[i := p])) \<le> 1"
proof -
  have "{k. k < length (xs[i := p]) \<and> live (xs[i := p] ! k)} \<subseteq> {i}"
    using assms by (auto simp: live_def nth_list_update split: if_splits)
  then have "card {k. k < length (xs[i := p]) \<and> live (xs[i := p] ! k)} \<le> card {i}"
    by (rule card_mono [rotated]) simp
  then show ?thesis by (simp add: length_filter_conv_card)
qed

lemma set_update_only:
  assumes "\<forall>j<length xs. j \<noteq> i \<longrightarrow> xs ! j = Finished" "i < length xs"
  shows "set (xs[i := p]) \<subseteq> {p, Finished}"
  using assms by (auto simp: set_conv_nth nth_list_update split: if_splits)

lemma save_last_block_same [simp]:
  "last_processed (save_last_block w t force st) = last_processed st"
  "loops (save_last_block w t force st) = loops st"
  "processed (save_last_block w t force st) = processed st"
  "is_running (save_last_block w t force st) = is_running st"
  "app (save_last_block w t force st) = app st"
  by (simp_all add: save_last_block_def)

lemma save_last_block_saved:
  "last_saved (save_last_block w t force st) = last_saved st
   \<or> last_saved (save_last_block w t force st) = Some (last_processed st)"
  by (simp add: save_last_block_def)

lemma save_last_block_cursor:
  "cursor_of (cursor_file (save_last_block w t force st)) = cursor_of (cursor_file st)
   \<or> cursor_of (cursor_file (save_last_block w t force st)) = Some (last_processed st)"
  by (cases w) (simp_all add: save_last_block_def)

lemma save_last_block_bounded:
  assumes "\<forall>c. last_saved st = Some c \<longrightarrow> c \<le> last_processed st"
    and "\<forall>c. cursor_of (cursor_file st) = Some c \<longrightarrow> c \<le> last_processed st"
  shows "\<forall>c. last_saved (save_last_block w t force st) = Some c \<longrightarrow> c \<le> last_processed st"
    and "\<forall>c. cursor_of (cursor_file (save_last_block w t force st)) = Some c \<longrightarrow> c \<le> last_processed st"
  using assms save_last_block_saved [of w t force st] save_last_block_cursor [of w t force st] by auto

lemma upto_snoc: "a \<le> b + 1 \<Longrightarrow> [a..b] @ [b + 1] = [a..b + 1]"
  using upto_rec2 [of a "b + 1"] by simp

lemma pump_inv_sleep:
  assumes "pump_inv st" "\<forall>j<length (loops st). j \<noteq> i \<longrightarrow> loops st ! j = Finished" "i < length (loops st)"
  shows "pump_inv (set_loop i AwaitSleep st)"
proof -
  have "set (loops (set_loop i AwaitSleep st)) \<subseteq> {AwaitSleep, Finished}"
    using set_update_only [OF assms(2,3)] by (simp add: set_loop_def)
  then have "AwaitHead \<notin> set (loops (set_loop i AwaitSleep st))"
    "\<forall>n. AwaitBlock n \<notin> set (loops (set_loop i AwaitSleep st))"
    by auto
  with assms live_update_le1 [OF assms(2,3)] show ?thesis
    by (simp add: pump_inv_def set_loop_def)
qed


lemma pump_inv_block:
  assumes inv: "pump_inv st" and ok: "event_ok st (BlockAnswer i a w)" and step: "pump_step env proc (BlockAnswer i a w) st = Some st'"
  shows "pump_inv st'"
proof -
  from step have i1: "i < length (loops st)"
    by (simp split: if_splits)
  obtain n where i2: "loops st ! i = AwaitBlock n"
    using step i1 by (cases "loops st ! i") simp_all
  note i = i1 i2
  then have others: "\<forall>j<length (loops st). j \<noteq> i \<longrightarrow> loops st ! j = Finished"
    using inv only_live [of "loops st" i] by (simp add: pump_inv_def live_def)
  from i inv have n: "n = last_processed st + 1"
    by (auto simp: pump_inv_def dest: nth_mem)
  show ?thesis
  proof (cases a)
    case GotBlock
    with ok i have pos: "0 < n" by (simp add: event_ok_def)
    define st1 where "st1 = st\<lparr>app := proc n (app st), processed := processed st @ [n], last_processed := n\<rparr>"
    define st2 where "st2 = (if save_interval env dvd n then save_last_block w (iso_now env) False st1 else st1)"
    have "set_loop i (loop_continue st2) st2 = st'"
      using step GotBlock i by (cases "save_interval env dvd n") (simp_all add: block_arrived_def st1_def st2_def Let_def)
    then have st': "st' = set_loop i (loop_continue st2) st2" ..
    have "\<exists>a. 0 < a \<and> processed st1 = [a..n]"
    proof (cases "processed st = []")
      case True
      with pos show ?thesis by (auto simp: st1_def)
    next
      case False
      with inv obtain a where a: "0 < a" "processed st = [a..last_processed st]"
        by (auto simp: pump_inv_def)
      with False have "a \<le> last_processed st + 1" by auto
      with a n show ?thesis by (auto simp: st1_def upto_snoc)
    qed
    then have p2: "\<exists>a. 0 < a \<and> processed st2 = [a..n]"
      by (simp add: st2_def)
    have b1: "\<forall>c. last_saved st1 = Some c \<longrightarrow> c \<le> last_processed st1"
      "\<forall>c. cursor_of (cursor_file st1) = Some c \<longrightarrow> c \<le> last_processed st1"
      using inv n by (auto simp: pump_inv_def st1_def)
    have b2: "\<forall>c. last_saved st2 = Some c \<longrightarrow> c \<le> n"
      "\<forall>c. cursor_of (cursor_file st2) = Some c \<longrightarrow> c \<le> n"
      using save_last_block_bounded [OF b1, of w "iso_now env" False] b1
      by (simp_all add: st2_def st1_def)
    have l2: "last_processed st2 = n" "loops st2 = loops st"
      by (simp_all add: st2_def st1_def)
    show ?thesis
      using st' p2 b2 l2 live_update_le1 [OF others i(1)] set_update_only [OF others i(1)]
      by (fastforce simp: pump_inv_def set_loop_def loop_continue_def)
  next
    case NoBlockYet
    with step i have "st' = set_loop i AwaitSleep st"
      by (simp add: block_arrived_def)
    then show ?thesis using pump_inv_sleep [OF inv others i(1)] by simp
  next
    case FetchFailed
    with step i have "st' = set_loop i AwaitSleep st"
      by (simp add: block_arrived_def)
    then show ?thesis using pump_inv_sleep [OF inv others i(1)] by simp
  qed
qed

lemma pump_inv_start:
  assumes inv: "pump_inv st" and ok: "event_ok st StartCall"
  shows "pump_inv (monitor_start st)"
proof (cases "is_running st")
  case False
  with ok have fin: "\<forall>pc \<in> set (loops st). pc = Finished"
    by (simp add: event_ok_def list_all_iff)
  then have nolive: "filter live (loops st) = []"
    by (auto simp: filter_empty_conv live_def)
  from inv have "processed st = [] \<or> (\<exists>a. 0 < a \<and> processed st = [a..last_processed st])"
    by (simp add: pump_inv_def)
  then have "last_processed st = 0 \<longrightarrow> processed st = []" by auto
  with inv fin nolive False show ?thesis
    by (auto simp: pump_inv_def monitor_start_def loop_continue_def Let_def live_def split: if_splits)
qed (use inv in \<open>simp add: monitor_start_def\<close>)

lemma pump_inv_stop:
  assumes inv: "pump_inv st"
  shows "pump_inv (monitor_stop w t st)"
proof -
  have "\<forall>c. last_saved st = Some c \<longrightarrow> c \<le> last_processed st"
    "\<forall>c. cursor_of (cursor_file st) = Some c \<longrightarrow> c \<le> last_processed st"
    using inv by (simp_all add: pump_inv_def)
  note b = save_last_block_bounded [OF this, of w t True]
  from inv have "length (filter live (loops st)) \<le> 1"
    "\<forall>n. AwaitBlock n \<in> set (loops st) \<longrightarrow> n = last_processed st + 1"
    "AwaitHead \<in> set (loops st) \<longrightarrow> last_processed st = 0 \<and> processed st = []"
    "processed st = [] \<or> (\<exists>a. 0 < a \<and> processed st = [a..last_processed st])"
    by (simp_all add: pump_inv_def)
  with b show ?thesis
    unfolding pump_inv_def monitor_stop_def by simp
qed

lemma pump_inv_head:
  assumes inv: "pump_inv st" and ok: "event_ok st (HeadAnswer i h)"
    and step: "pump_step env proc (HeadAnswer i h) st = Some st'"
  shows "pump_inv st'"
proof -
  from step have i: "i < length (loops st)" "loops st ! i = AwaitHead"
    by (simp_all split: if_splits)
  then have others: "\<forall>j<length (loops st). j \<noteq> i \<longrightarrow> loops st ! j = Finished"
    using inv only_live [of "loops st" i] by (simp add: pump_inv_def live_def)
  from i inv have start: "last_processed st = 0" "processed st = []"
    by (auto simp: pump_inv_def dest: nth_mem)
  from step i have st': "st' = head_arrived i h st" by simp
  show ?thesis
  proof (cases h)
    case None
    with st' show ?thesis
      using inv live_update_le1 [OF others i(1)] set_update_only [OF others i(1)]
      by (fastforce simp: pump_inv_def head_arrived_def set_loop_def)
  next
    case (Some hd)
    with ok have pos: "0 < hd" by (simp add: event_ok_def)
    define st1 where "st1 = st\<lparr>last_processed := hd - 1\<rparr>"
    from st' Some have st'': "st' = set_loop i (loop_continue st1) st1"
      by (simp add: head_arrived_def st1_def Let_def)
    have "set (loops st') \<subseteq> {loop_continue st1, Finished}"
      using set_update_only [OF others i(1)] by (simp add: st'' set_loop_def st1_def)
    then have "AwaitHead \<notin> set (loops st')"
      "\<forall>n. AwaitBlock n \<in> set (loops st') \<longrightarrow> n = last_processed st' + 1"
      by (auto simp: loop_continue_def st'' set_loop_def st1_def)
    with inv start pos live_update_le1 [OF others i(1)] show ?thesis
      by (auto simp: pump_inv_def st'' set_loop_def st1_def)
  qed
qed

lemma pump_inv_sleep_done:
  assumes inv: "pump_inv st" and step: "pump_step env proc (SleepDone i) st = Some st'"
  shows "pump_inv st'"
proof -
  from step have i: "i < length (loops st)" "loops st ! i = AwaitSleep"
    by (simp_all split: if_splits)
  then have others: "\<forall>j<length (loops st). j \<noteq> i \<longrightarrow> loops st ! j = Finished"
    using inv only_live [of "loops st" i] by (simp add: pump_inv_def live_def)
  from step i have "st' = sleep_done i st" by simp
  then show ?thesis
    using inv live_update_le1 [OF others i(1)] set_update_only [OF others i(1)]
    by (fastforce simp: pump_inv_def sleep_done_def set_loop_def loop_continue_def)
qed

lemma pump_step_inv:
  assumes inv: "pump_inv st" and ok: "event_ok st ev" and step: "pump_step env proc ev st = Some st'"
  shows "pump_inv st'"
proof (cases ev)
  case StartCall
  with step have "st' = monitor_start st" by simp
  with inv ok StartCall show ?thesis by (simp add: pump_inv_start)
next
  case (StopCall w)
  with step have "st' = monitor_stop w (iso_now env) st" by simp
  with inv show ?thesis by (simp add: pump_inv_stop)
next
  case (HeadAnswer i h)
  with inv ok step show ?thesis by (simp only: pump_inv_head)
next
  case (BlockAnswer i a w)
  with inv ok step show ?thesis by (simp only: pump_inv_block)
next
  case (SleepDone i)
  with inv step show ?thesis by (simp only: pump_inv_sleep_done)
qed

lemma pump_reach_inv:
  assumes "pump_reach event_ok env proc st0 st" "pump_inv st0"
  shows "pump_inv st"
  using assms by (induction rule: pump_reach.induct) (auto intro: pump_step_inv)

lemma upto_sorted_from:
  "processed st = [] \<or> (\<exists>a. 0 < a \<and> processed st = [a..last_processed st]) \<Longrightarrow>
     sorted_wrt (<) (processed st) \<and> (\<exists>lo. processed st = [lo..last_processed st])"
  by (metis sorted_wrt_upto upto_empty lt_ex less_add_one)

lemma pump_run_reach:
  "pump_reach ok env proc st0 st \<Longrightarrow> pump_run ok env proc evs st = Some st' \<Longrightarrow> pump_reach ok env proc st0 st'"
proof (induction evs arbitrary: st)
  case (Cons ev evs)
  then show ?case by (auto intro: reach_step split: if_splits option.splits)
qed simp

lemma pump_frame [simp]:
  "processed (set_loop i pc st) = processed st"
  "cursor_file (set_loop i pc st) = cursor_file st"
  "processed (monitor_start st) = processed st"
  "cursor_file (monitor_start st) = cursor_file st"
  "processed (head_arrived i h st) = processed st"
  "cursor_file (head_arrived i h st) = cursor_file st"
  "processed (sleep_done i st) = processed st"
  "cursor_file (sleep_done i st) = cursor_file st"
  by (simp_all add: set_loop_def monitor_start_def head_arrived_def sleep_done_def Let_def split: option.splits)

lemma covers_stop:
  assumes inv: "pump_inv st" and cov: "cursor_covers k st"
  shows "cursor_covers k (monitor_stop Written t st)"
proof (cases "0 < last_processed st")
  case True
  from inv have "\<forall>n \<in> set (processed st). n \<le> last_processed st"
    by (auto simp: pump_inv_def)
  with True show ?thesis
    by (auto simp: cursor_covers_def monitor_stop_def save_last_block_def)
qed (use cov in \<open>simp add: cursor_covers_def monitor_stop_def save_last_block_def\<close>)

lemma covers_block:
  assumes inv: "pump_inv st" and cov: "cursor_covers (save_interval env) st"
    and i: "i < length (loops st)" "loops st ! i = AwaitBlock n" and pos: "0 < n"
  shows "cursor_covers (save_interval env) (block_arrived env proc i n GotBlock Written st)"
proof -
  from inv i have n: "n = last_processed st + 1"
    by (auto simp: pump_inv_def dest: nth_mem)
  from inv have le: "\<forall>m \<in> set (processed st). m \<le> last_processed st"
    by (auto simp: pump_inv_def)
  from inv n have ne: "last_saved st \<noteq> Some n"
    by (auto simp: pump_inv_def)
  show ?thesis
  proof (cases "save_interval env dvd n")
    case True
    with le n pos ne show ?thesis
      by (auto simp: cursor_covers_def block_arrived_def save_last_block_def Let_def)
  next
    case False
    with cov show ?thesis
      by (auto simp: cursor_covers_def block_arrived_def Let_def)
  qed
qed

lemma covers_step:
  assumes inv: "pump_inv st" and cov: "cursor_covers (save_interval env) st"
    and ok: "event_ok st ev \<and> writes_ok ev" and step: "pump_step env proc ev st = Some st'"
  shows "cursor_covers (save_interval env) st'"
proof (cases ev)
  case (StopCall w)
  with step ok covers_stop [OF inv cov, of "iso_now env"] show ?thesis by (auto simp: writes_ok_def)
next
  case (BlockAnswer i r w)
  from step BlockAnswer have i1: "i < length (loops st)"
    by (simp split: if_splits)
  obtain n where i2: "loops st ! i = AwaitBlock n"
    using step BlockAnswer i1 by (cases "loops st ! i") simp_all
  show ?thesis
  proof (cases r)
    case GotBlock
    with ok BlockAnswer i2 have "0 < n" "w = Written" by (simp_all add: event_ok_def writes_ok_def)
    with covers_block [OF inv cov i1 i2, of proc] step BlockAnswer GotBlock i1 i2 show ?thesis by auto
  qed (use step BlockAnswer i1 i2 cov in \<open>auto simp: block_arrived_def cursor_covers_def\<close>)
qed (use step cov in \<open>auto simp: cursor_covers_def split: if_splits\<close>)

lemma pump_reach_covers:
  assumes "pump_reach (\<lambda>s ev. event_ok s ev \<and> writes_ok ev) env proc st0 st"
    and "pump_inv st0" and "cursor_covers (save_interval env) st0"
  shows "pump_inv st \<and> cursor_covers (save_interval env) st"
  using assms
  by (induction rule: pump_reach.induct) (auto intro: pump_step_inv covers_step)

lemma multiple_in_window:
  fixes k b :: int
  assumes "0 < k" "a + k - 1 \<le> b"
  shows "b - b mod k \<in> set [a..b]" "k dvd (b - b mod k)" "b - (b - b mod k) < k"
proof -
  have "0 \<le> b mod k" "b mod k < k" using assms(1) by simp_all
  with assms(2) show "b - b mod k \<in> set [a..b]" "b - (b - b mod k) < k" by simp_all
  show "k dvd (b - b mod k)" by (simp add: minus_mod_eq_mult_div)
qed


subsection \<open>Properties\<close>

text \<open>C30: on every schedule without a restart race, the monitor hands the blocks to
  \<open>processBlock\<close> in strictly increasing order and without gaps: the processed heights
  are exactly an interval ending at \<open>lastProcessedBlock\<close>; and at most one
  \<open>streamBlocks\<close> loop is alive.\<close>

theorem pump_blocks_in_order:
  assumes "pump_reach event_ok env proc (new_monitor f e a) st"
  shows "sorted_wrt (<) (processed st)
       \<and> (\<exists>lo. processed st = [lo..last_processed st])
       \<and> length (filter live (loops st)) \<le> 1"
proof -
  have "pump_inv st" using pump_reach_inv [OF assms initial_block_inv] .
  then show ?thesis using upto_sorted_from [of st] by (simp add: pump_inv_def)
qed

theorem pump_blocks_in_order_witness:
  "sorted_wrt (<) (processed demo_run) \<and> processed demo_run = [101, 102]
   \<and> length (filter live (loops demo_run)) = 1"
proof -
  have "pump_reach event_ok demo_pump_env (\<lambda>n s. s) (new_monitor (Holds (cursor_payload 100 ''t0'')) None ()) demo_run"
    by (rule pump_run_reach [OF reach_init, where evs = demo_events]) (simp add: demo_run_def demo_events_def pump_step_defs)
  from pump_blocks_in_order [OF this] show ?thesis
    by (simp add: demo_run_def demo_events_def pump_step_defs live_def)
qed

text \<open>C31: a restart never skips a block. Whenever \<open>last_block.json\<close> holds a positive
  height, a monitor constructed from it resumes exactly there, which is never past the
  block the running monitor last processed: the blocks in between are processed again,
  none is lost.\<close>

theorem cursor_restart_no_skip:
  assumes "pump_reach event_ok env proc (new_monitor f e a) st"
    and "cursor_of (cursor_file st) = Some c" and "0 < c"
  shows "last_processed (new_monitor (cursor_file st) e' a') = c \<and> c \<le> last_processed st"
proof -
  have "pump_inv st" using pump_reach_inv [OF assms(1) initial_block_inv] .
  with assms(2,3) show ?thesis
    by (simp add: pump_inv_def new_monitor_def initial_block_def load_last_block_cursor)
qed

theorem cursor_restart_no_skip_witness:
  "last_processed (new_monitor (cursor_file demo_run) None ()) = 102 \<and> 102 \<le> last_processed demo_run"
proof -
  have reach: "pump_reach event_ok demo_pump_env (\<lambda>n s. s)
      (new_monitor (Holds (cursor_payload 100 ''t0'')) None ()) demo_run"
    by (rule pump_run_reach [OF reach_init, where evs = demo_events])
      (simp add: demo_run_def demo_events_def pump_step_defs)
  have c: "cursor_of (cursor_file demo_run) = Some 102"
    by (simp add: demo_run_def demo_events_def pump_step_defs cursor_of_def)
  have "(0::int) < 102" by simp
  from cursor_restart_no_skip [OF reach c this, where e' = None and a' = "()"] show ?thesis .
qed

text \<open>C33: \<open>stop()\<close> forces the cursor to disk: when its write completes, a monitor
  constructed from the file resumes at the block the stopped one had processed.\<close>

theorem stop_then_restart_resumes:
  assumes "0 < last_processed st"
  shows "last_processed (new_monitor (cursor_file (monitor_stop Written t st)) e a) = last_processed st"
  using assms
  by (simp add: new_monitor_def initial_block_def load_last_block_cursor monitor_stop_def save_last_block_def)

theorem stop_then_restart_resumes_witness:
  "last_processed (new_monitor (cursor_file (monitor_stop Written ''t1'' (monitor_start demo_monitor))) None ())
     = last_processed (monitor_start demo_monitor)"
  by (rule stop_then_restart_resumes) (simp add: pump_step_defs)

text \<open>C34: when \<open>getBlock\<close> throws or returns no block, the loop only goes to sleep:
  \<open>lastProcessedBlock\<close>, the cursor, the processed heights and the application state
  are untouched, and when the sleep ends a running loop asks for the same block again.\<close>

theorem fetch_error_no_progress:
  assumes "pump_step env proc (BlockAnswer i r w) st = Some st'" and "r \<noteq> GotBlock"
  shows "st' = st\<lparr>loops := (loops st)[i := AwaitSleep]\<rparr>
       \<and> pump_step env proc (SleepDone i) st' = Some (st\<lparr>loops := (loops st)[i := loop_continue st]\<rparr>)"
proof -
  from assms(1) have i: "i < length (loops st)" by (simp split: if_splits)
  with assms have "st' = st\<lparr>loops := (loops st)[i := AwaitSleep]\<rparr>"
    by (cases r; cases "loops st ! i") (simp_all add: block_arrived_def set_loop_def)
  with i show ?thesis by (simp add: sleep_done_def set_loop_def loop_continue_def)
qed

theorem fetch_error_no_progress_witness:
  "the (pump_step demo_pump_env (\<lambda>n s. s) (BlockAnswer 0 FetchFailed Written) (monitor_start demo_monitor))
     = (monitor_start demo_monitor)\<lparr>loops := [AwaitSleep]\<rparr>
   \<and> pump_step demo_pump_env (\<lambda>n s. s) (SleepDone 0)
       (the (pump_step demo_pump_env (\<lambda>n s. s) (BlockAnswer 0 FetchFailed Written) (monitor_start demo_monitor)))
     = Some ((monitor_start demo_monitor)\<lparr>loops := [AwaitBlock 101]\<rparr>)"
proof -
  have "pump_step demo_pump_env (\<lambda>n s. s) (BlockAnswer 0 FetchFailed Written) (monitor_start demo_monitor)
      = Some ((monitor_start demo_monitor)\<lparr>loops := [AwaitSleep]\<rparr>)"
    by (simp add: pump_step_defs)
  from fetch_error_no_progress [OF this] show ?thesis
    by (simp add: pump_step_defs)
qed

text \<open>C32: with every cursor write completing, once the monitor has processed at least
  \<open>blockSaveInterval\<close> blocks the persisted cursor is fewer than \<open>blockSaveInterval\<close>
  blocks behind \<open>lastProcessedBlock\<close>: a crash replays less than one save interval.\<close>

theorem cursor_gap:
  assumes reach: "pump_reach (\<lambda>s ev. event_ok s ev \<and> writes_ok ev) env proc (new_monitor f e a) st"
    and k: "0 < save_interval env" and len: "save_interval env \<le> int (length (processed st))"
  shows "\<exists>c. cursor_of (cursor_file st) = Some c \<and> last_processed st - c < save_interval env"
proof -
  have "cursor_covers (save_interval env) (new_monitor f e a)"
    by (simp add: cursor_covers_def new_monitor_def)
  with pump_reach_covers [OF reach initial_block_inv]
  have inv: "pump_inv st" and cov: "cursor_covers (save_interval env) st" by auto
  from len k have "processed st \<noteq> []" by auto
  with inv obtain lo where p: "processed st = [lo..last_processed st]"
    by (auto simp: pump_inv_def)
  with len k have "lo + save_interval env - 1 \<le> last_processed st" by (simp split: if_splits)
  note m = multiple_in_window [OF k this]
  with p cov obtain c where "cursor_of (cursor_file st) = Some c"
      "last_processed st - last_processed st mod save_interval env \<le> c"
    unfolding cursor_covers_def by metis
  with m(3) show ?thesis by auto
qed

theorem cursor_gap_witness:
  "\<exists>c. cursor_of (cursor_file demo_run) = Some c \<and> last_processed demo_run - c < 2"
proof -
  have "pump_reach (\<lambda>s ev. event_ok s ev \<and> writes_ok ev) demo_pump_env (\<lambda>n s. s)
      (new_monitor (Holds (cursor_payload 100 ''t0'')) None ()) demo_run"
    by (rule pump_run_reach [OF reach_init, where evs = demo_events])
      (simp add: demo_run_def demo_events_def pump_step_defs writes_ok_def)
  from cursor_gap [OF this] show ?thesis
    by (simp add: demo_run_def demo_events_def pump_step_defs cursor_of_def)
qed



end
