(* ===== verification/Server.thy ===== *)
theory Server
  imports Pump ApiClient Quota
begin

text \<open>
  The HTTP server of the backend, \<open>server.js\<close> (\<open>src/unnamed/part_001\<close> lines 426-522): an
  Express application with the JSON body parser, two read-only endpoints (\<open>GET /health\<close>,
  \<open>GET /status\<close>), the two control endpoints of the block pump (\<open>post_monitor_start\<close>,
  \<open>post_monitor_stop\<close> of \<open>Pump\<close>), the error handler and the 404 handler.
  \<open>server_handle\<close> answers one request (method, path, whether the body parser accepted
  the body) with a status code and a JSON body, and returns the monitor's new state. Express
  matches routes case-insensitively and ignores one trailing slash. \<open>server_fetch\<close> is
  what the browser's \<open>fetch\<close> gets back, which connects the server to the API client of
  \<open>ApiClient\<close>. The clock, \<open>process.uptime()\<close>, \<open>process.memoryUsage()\<close> and the outcome
  of the cursor write of \<open>stop\<close> come from \<open>server_env\<close>. The process around the
  application, its start-up and the two signal handlers, closes the theory.
\<close>

datatype http_method = HttpGet | HttpPost

record server_env =
  srv_iso :: string
  srv_uptime :: jval
  srv_memory :: jval
  srv_write :: write_outcome

text \<open>Express's route match for a literal path: case-insensitive, with an optional
  trailing slash.\<close>

definition route_is :: "string \<Rightarrow> string \<Rightarrow> bool" where
  "route_is pat path = (map js_lower path = pat \<or> map js_lower path = pat @ ''/'')"

definition health_body :: "server_env \<Rightarrow> 's pump_state \<Rightarrow> jval" where
  "health_body env st =
     JObj [(''status'', JStr ''ok''), (''service'', JStr ''hive-account-faucet-backend''),
           (''version'', JStr ''1.0.0''), (''monitoring'', JBool (is_running st)),
           (''lastBlock'', JNum (last_processed st)), (''timestamp'', JStr (srv_iso env))]"

definition status_body :: "server_env \<Rightarrow> 's pump_state \<Rightarrow> jval" where
  "status_body env st =
     JObj [(''monitoring'', JBool (is_running st)), (''lastProcessedBlock'', JNum (last_processed st)),
           (''uptime'', srv_uptime env), (''memoryUsage'', srv_memory env),
           (''timestamp'', JStr (srv_iso env))]"

definition message_body :: "string \<Rightarrow> jval" where
  "message_body msg = JObj [(''message'', JStr msg)]"

text \<open>One request. A body the JSON parser rejects goes to the error handler, which answers
  500 whatever the route.\<close>

definition server_handle ::
  "server_env \<Rightarrow> http_method \<Rightarrow> string \<Rightarrow> bool \<Rightarrow> 's pump_state \<Rightarrow> (int \<times> jval) \<times> 's pump_state" where
  "server_handle env m path parsed st =
     (if \<not> parsed then ((500, JObj [(''error'', JStr ''Internal server error'')]), st)
      else if m = HttpGet \<and> route_is ''/health'' path then ((200, health_body env st), st)
      else if m = HttpGet \<and> route_is ''/status'' path then ((200, status_body env st), st)
      else if m = HttpPost \<and> route_is ''/monitor/start'' path then
        (case post_monitor_start st of (msg, st') \<Rightarrow> ((200, message_body msg), st'))
      else if m = HttpPost \<and> route_is ''/monitor/stop'' path then
        (case post_monitor_stop (srv_write env) (srv_iso env) st of (msg, st') \<Rightarrow> ((200, message_body msg), st'))
      else ((404, JObj [(''error'', JStr ''Endpoint not found'')]), st))"

text \<open>The response as \<open>fetch\<close> hands it to the browser: \<open>ok\<close> for the 2xx codes.\<close>

definition server_fetch ::
  "server_env \<Rightarrow> http_method \<Rightarrow> string \<Rightarrow> bool \<Rightarrow> 's pump_state \<Rightarrow> fetch_result \<times> 's pump_state" where
  "server_fetch env m path parsed st =
     (case server_handle env m path parsed st of
        ((code, body), st') \<Rightarrow> (FetchResponse (200 \<le> code \<and> code \<le> 299) code (Inr body), st'))"

text \<open>The process around the application (part_001 lines 492-522): the monitor is built
  from the cursor file when the module loads, and \<open>app.listen\<close>'s callback starts it;
  \<open>SIGINT\<close> and \<open>SIGTERM\<close> both stop the monitor (forcing the cursor to disk) and exit
  with code 0. The exit ends every pending step of the application with it.\<close>

datatype server_signal = SigInt | SigTerm

definition server_boot :: "jval store \<Rightarrow> int option \<Rightarrow> 's \<Rightarrow> 's pump_state" where
  "server_boot f env_block a = monitor_start (new_monitor f env_block a)"

text \<open>Loading the module (line 439, \<open>new BlockchainMonitor()\<close>, whose constructor creates
  the \<open>UserManager\<close> and so runs \<open>ensureDataFile\<close>) and the listen callback: the ledger
  file after its creation attempt, and the started monitor.\<close>

definition server_start ::
  "timestamp \<Rightarrow> write_outcome \<Rightarrow> user_file \<Rightarrow> jval store \<Rightarrow> int option \<Rightarrow> 's \<Rightarrow> user_file \<times> 's pump_state" where
  "server_start now w uf f env_block a = (ensure_data_file now w uf, server_boot f env_block a)"

definition server_shutdown :: "write_outcome \<Rightarrow> string \<Rightarrow> server_signal \<Rightarrow> 's pump_state \<Rightarrow> int \<times> 's pump_state" where
  "server_shutdown w stamp sig st = (case sig of SigInt \<Rightarrow> (0, monitor_stop w stamp st) | SigTerm \<Rightarrow> (0, monitor_stop w stamp st))"

subsection \<open>Properties\<close>

text \<open>The read-only endpoints change nothing; the control endpoints are the pump's
  \<open>StartCall\<close> and \<open>StopCall\<close> events.\<close>

lemma server_handle_state:
  "snd (server_handle env m path parsed st) =
     (if parsed \<and> m = HttpPost \<and> route_is ''/monitor/start'' path then monitor_start st
      else if parsed \<and> m = HttpPost \<and> route_is ''/monitor/stop'' path
      then monitor_stop (srv_write env) (srv_iso env) st
      else st)"
  by (cases m) (simp_all add: server_handle_def split_beta)

text \<open>A path under \<open>/api/\<close> matches none of the server's routes.\<close>

lemma api_path_unrouted:
  "\<not> route_is ''/health'' (''/api/'' @ p) \<and> \<not> route_is ''/status'' (''/api/'' @ p)
   \<and> \<not> route_is ''/monitor/start'' (''/api/'' @ p) \<and> \<not> route_is ''/monitor/stop'' (''/api/'' @ p)"
  by (simp add: route_is_def js_lower_def)

lemma server_fetch_api_404:
  "server_fetch env m (''/api/'' @ p) True st
     = (FetchResponse False 404 (Inr (JObj [(''error'', JStr ''Endpoint not found'')])), st)"
  using api_path_unrouted [of p] by (simp add: server_fetch_def server_handle_def)

text \<open>A signal, then a new process on the same cursor file: when the forced write
  completes, the new server's loop asks for the block after the last one processed before
  the signal, so a graceful shutdown neither skips nor repeats a block.\<close>

lemma shutdown_reboot_resumes:
  assumes "0 < last_processed st"
  shows "fst (server_shutdown Written t sig st) = 0
         \<and> loops (server_boot (cursor_file (snd (server_shutdown Written t sig st))) e a)
             = [AwaitBlock (last_processed st + 1)]"
proof -
  have "cursor_file (snd (server_shutdown Written t sig st)) = replace_file Written (cursor_payload (last_processed st) t) (cursor_file st)"
    using assms by (cases sig) (simp_all add: server_shutdown_def monitor_stop_def save_last_block_def)
  with assms show ?thesis
    by (cases sig) (simp_all add: server_shutdown_def server_boot_def monitor_start_def new_monitor_def
        initial_block_def load_last_block_cursor loop_continue_def Let_def)
qed

text \<open>An unwritable data directory does not stop the server: the ledger file cannot be
  created, yet the monitor starts, and every request it finds is then refused for a
  database error.\<close>

lemma unwritable_ledger_boot_continues:
  "fst (server_start now WriteFailed Missing f e a) = Missing
   \<and> is_running (snd (server_start now WriteFailed Missing f e a))
   \<and> check_authorization (fst (server_start now WriteFailed Missing f e a)) u = Denied DatabaseError"
  by (simp add: server_start_def ensure_data_file_def save_data_def server_boot_def monitor_start_def
      new_monitor_def check_authorization_def load_data_def Let_def)

end
