(* ===== verification/Spec2Isabelle.thy ===== *)
theory Spec2Isabelle
  imports Pipeline Tools KeychainApp Server
begin

text \<open>
  \<^bold>\<open>A verification development of the Hive account faucet.\<close>

  The faucet watches the Hive blockchain for \<open>custom_json\<close> operations with id
  \<open>hive_account_faucet\<close>; a request names a new account and a delivery method. The backend
  (\<open>src/backend/services/blockchain-monitor.js\<close>, class \<open>BlockchainMonitor\<close>) checks the
  requester against a token ledger (\<open>UserManager\<close>, \<open>src/unnamed/part_001\<close> lines 1-246),
  creates the account with a claimed-account token, writes the credentials to a recovery file,
  delivers them by e-mail (\<open>EmailService\<close>, part_001 lines 248-330) and/or by an encrypted
  memo transfer, charges the requester one token and removes the recovery record. The
  browser front end (\<open>src/scripts/\<close>) builds the request.

  \<^bold>\<open>Theories, one per component, in import order.\<close>
  \<^item> \<open>Prelude\<close>: JavaScript values after \<open>JSON.parse\<close> (\<open>jval\<close>, truthiness, member access
    that throws on \<open>null\<close>/\<open>undefined\<close>, strict equality), the file model (\<open>'a store\<close>:
    missing, corrupt or holding a value; \<open>write_file\<close> for an in-place
    \<open>fs.writeFileSync\<close> that may fail or be torn, \<open>replace_file\<close> for a write-then-rename),
    association lists as JavaScript objects, \<open>String.prototype.includes\<close> and \<open>trim\<close>.
  \<^item> \<open>Quota\<close>: \<open>UserManager\<close>. The JSON file \<open>authorized_users.json\<close> is a
    \<open>user_db store\<close>; every method (\<open>ensureDataFile\<close>, \<open>loadData\<close>, \<open>saveData\<close>,
    \<open>checkAuthorization\<close>, \<open>useToken\<close>, \<open>addUser\<close>, \<open>giveTokens\<close>, \<open>setTokens\<close>,
    \<open>setUserStatus\<close>, \<open>getUser\<close>) is a function of the clock, the write outcome and the
    file, returning the method's result and the new file. \<open>quota_step\<close>/\<open>quota_run\<close> apply
    any sequence of the state-changing methods. The invariant \<open>file_consistent\<close> says the
    file parses and every record, and the metadata's aggregate counters, satisfy
    allocated = used + remaining (C1). \<open>useToken\<close> charges exactly one token when one remains
    and refuses otherwise (C3, C4), and keeps the counts non-negative;
    \<open>checkAuthorization\<close> is characterised exactly (C2); the
    admin methods can drive a balance negative (C6).
  \<^item> \<open>Validator\<close>: \<open>validateRequest\<close> (monitor lines 280-289), including the
    \<open>TypeError\<close> it throws on a \<open>null\<close> payload (C7, C8); the two front-end request builders
    (\<open>app.js\<close> \<open>handleFormSubmit\<close>, \<open>keychain.js\<close> \<open>createAccountRequestJson\<close>), of which the
    second is always rejected; and \<open>validateHiveUsername\<close> of \<open>validation.js\<close> (C11).
  \<^item> \<open>JsonType\<close>: a type discipline for JSON values (\<open>jty\<close>, \<open>has_type\<close>) and the
    request type \<open>request_schema\<close>; C29: the type is sound for \<open>validateRequest\<close> and every
    filled-in \<open>app.js\<close> envelope has it.
  \<^item> \<open>Pending\<close>: the recovery file \<open>pending_credentials.json\<close> (monitor lines 60-95):
    \<open>addPending\<close> and \<open>removePending\<close> as read-modify-write of a \<open>pending_record list store\<close>
    (C12), and (a lemma) the loss of every earlier record when an in-place write is torn.
  \<^item> \<open>Chain\<close>: the Hive node the backend talks to, as an environment, not as code of this
    repository: accounts with memo key, HBD balance and claimed-account tokens, the list of
    public transfers, a transaction counter; \<open>get_account\<close> (\<open>condenser_api.get_accounts\<close>,
    which may fail) and \<open>broadcast\<close> (which may fail and then changes nothing).
  \<^item> \<open>Provisioner\<close>: \<open>generateMasterPassword\<close> over 32 random bytes as \<open>8 word\<close> values
    (bytes 0-17 reappear at positions 34-51; also the shape and the bound of
    \<open>58^32\<close> passwords), \<open>generateAccountKeys\<close> with \<open>PrivateKey.fromSeed\<close> as an injective oracle and
    the seeds' injectivity, \<open>checkUsernameAvailability\<close> and \<open>createHiveAccount\<close> (C18);
    the unused \<open>generateMockAccountData\<close>, whose keys are recoverable from its password.
  \<^item> \<open>Delivery\<close>: \<open>EmailService.sendAccountCredentials\<close> (it only logs when mail is not
    configured), \<open>checkHBDBalance\<close>, \<open>canSendMemo\<close>, \<open>sendAccountMemo\<close> with its leak check,
    and the delivery step of \<open>processAccountRequest\<close> with its overall-success policy
    (C19-C21). The effects of the outside world (mail sent, credentials logged, operations
    submitted, recovery records added and removed, tokens charged) are an \<open>effect\<close> log.
  \<^item> \<open>Pipeline\<close>: \<open>processAccountRequest\<close> (lines 294-444) over the state record
    \<open>faucet_state\<close> (ledger file, recovery file, chain, random-number calls, effect log) and
    the environment \<open>faucet_env\<close> (clock, random bytes per call, key derivation, failure
    oracles, the outcome of each file write); \<open>processCustomJson\<close> and \<open>processBlock\<close>
    (lines 186-240). C25, C27: a created account's credentials are recorded before any
    delivery and the token is charged only after a successful one; a failed recovery write
    leaves credentials only in memory. Further lemmas: the spec's first scenario is
    fulfilled; a failed creation changes nothing; a replayed request for an existing name
    is harmless.

  \<^item> \<open>Pump\<close>: the block pump of \<open>BlockchainMonitor\<close> (constructor lines 22-54,
    \<open>loadLastBlock\<close>, \<open>saveLastBlock\<close>, \<open>start\<close>, \<open>streamBlocks\<close>, \<open>stop\<close>) and the
    control endpoints of the HTTP server (part_001 lines 465-478), as a state machine whose
    events are the runs of JavaScript between two \<open>await\<close>s; the block processor is a
    parameter. C30-C36: on schedules without a restart race blocks are processed in
    order without gaps by one loop; a restart from the cursor never skips a block; the
    cursor lags by less than one save interval; stop and reboot resume at the same block;
    fetch errors change nothing (C34); a stop/start race runs two loops that process blocks twice
    and move \<open>lastProcessedBlock\<close> backwards; a crash before the first save skips blocks.
  \<^item> \<open>Admin\<close>: \<open>src/backend/admin.js\<close>, with \<open>parseInt\<close> as \<open>js_parse_int\<close>. C37: every
    command is read-only or exactly one \<open>quota_step\<close> (so C1 covers administrator
    commands too); lemmas: \<open>parseInt\<close> reads back every printed integer, and
    \<open>add-user\<close>'s defaults.
  \<^item> \<open>Tools\<close>: the Account Creation Token checker script, whose verdict is exactly the
    chain's condition for a claimed-account creation. \<open>Delivery\<close> also holds
    \<open>EmailService\<close>'s transporter set-up, \<open>testConnection\<close> and the e-mail test script.
  \<^item> \<open>FormValidation\<close>: \<open>validateEmail\<close>, \<open>validateRequired\<close>, \<open>validatePhone\<close>,
    \<open>validateUrl\<close> (the WHATWG URL parser a parameter), the validator table and
    \<open>validateForm\<close> of \<open>validation.js\<close>; C28: the e-mail matcher accepts exactly the
    language of the code's regular expression. The error display: \<open>form_dom\<close> holds the
    error elements and fields by id; \<open>clearErrors\<close>, \<open>displayErrors\<close> (with its fallback
    to the lower-cased element id) and the blur and focus listeners of
    \<open>setupRealtimeValidation\<close>. Lemmas: each error element shows the last message of
    the fields that resolve to it and is otherwise hidden; focus undoes blur; the blur check
    of the name and \<open>validateForm\<close> agree on its message.
  \<^item> \<open>FrontendApp\<close>: \<open>app.js\<close>: \<open>handleFormSubmit\<close> and \<open>checkUsernameAvailability\<close>
    with \<open>checkAccountAvailability\<close> of \<open>api.js\<close>, and the page session
    (\<open>checkExistingSession\<close>, \<open>handleLogin\<close>, \<open>handleLogout\<close>, the broadcast callback, the
    global error listeners) as a step function \<open>app_step\<close> on \<open>app_state\<close> with the
    reachable states \<open>app_reach\<close> as an inductive predicate. C9: what the form broadcasts
    passes \<open>validateRequest\<close>, but a rejected name makes the handler throw and the page
    shows only the generic error; C16: the session invariant (the view, the logged-in user
    and \<open>localStorage\<close> agree; the form is locked exactly while a broadcast awaits its
    answer), by rule induction; C23: the live name check reports taken names as available.
  \<^item> \<open>ApiClient\<close>: \<open>api.js\<close>: \<open>makeRequest\<close> over the outcome of \<open>fetch\<close>,
    \<open>submitAccountRequest\<close> split at its \<open>await\<close> with the interleavings of calls as
    \<open>api_event\<close>, \<open>checkRequestStatus\<close>, \<open>checkUserAuthorization\<close>, \<open>checkHealth\<close>,
    \<open>pollRequestStatus\<close> as a \<open>function\<close> on its attempt counter (terminating by the
    measure \<open>maxAttempts - attempts\<close>), \<open>formatErrorMessage\<close>, \<open>MockApiClient\<close> and the
    choice of client. C5: the poll returns after at most \<open>max 1 maxAttempts\<close> requests;
    C14: a completion within the attempts is reported; C22: a \<open>failed\<close> status is never
    reported, only retried. Lemmas: at most one submission in flight unless
    \<open>resetRequestState\<close> intervenes; error messages are bounded; under the mock client
    every live name check fails.
  \<^item> \<open>Keychain\<close>: \<open>keychain.js\<close>: \<open>KeychainManager\<close> (detection with its retry counter
    as a \<open>function\<close>, \<open>connectKeychain\<close>, \<open>disconnect\<close>, \<open>broadcastCustomJson\<close>,
    \<open>createAccountRequestJson\<close>, \<open>generateRequestId\<close>, \<open>submitAccountRequest\<close>) and the
    second page controller of that file (\<open>handleFormSubmit\<close>, the name check). A promise
    resolves, rejects or never settles (a callback that throws). C10: every request that
    page puts on chain is dropped by the backend; C24: a handshake callback without an
    answer leaves \<open>connectKeychain\<close> pending forever; C38: the page unlocks after every
    answer of the documented shape, and stays locked for good without one.
    \<open>setProcessingState\<close> and \<open>setupDOMReferences\<close> give the submit button's state.
  \<^item> \<open>Debounce\<close>: the debounced \<open>input\<close> listeners of the requested name
    (\<open>app.js\<close> lines 24-29, \<open>keychain.js\<close> lines 325-336): \<open>debounce_run\<close> follows the
    keystrokes (a timed list) with the one live timer and the field's value as state, a
    timer due at or before the next keystroke running first. C26: it makes exactly the
    checks of the declarative \<open>debounce_spec\<close>; C15: the final value is always checked,
    one delay after the last keystroke, and checks are at least one delay apart. The
    keychain page's name check, split at its \<open>await\<close> into \<open>kc_name_fire\<close> and
    \<open>kc_name_answer\<close>, runs as a timeline of display writes in time order: when answers
    come back in order the display shows the last name's verdict (a lemma), but C39: a
    late answer to an earlier check overwrites it, so a free name can be shown as taken.
  \<^item> \<open>KeychainApp\<close>: the keychain.js page as a whole: \<open>HiveAccountApp\<close>'s constructor
    and \<open>init\<close> with the manager's detection (\<open>kc_app_init\<close>), and the actions the
    listeners handle (connect and disconnect buttons, submit, Ctrl+Enter) as a step function
    \<open>kc_app_step\<close> on the manager, the page and the operations on chain, with the
    reachable states \<open>kc_app_reach\<close>. C13: the invariant (the button mirrors
    \<open>isProcessing\<close>, a disconnected manager holds no user, every operation on chain is a
    faucet custom_json the backend rejects), by rule induction; a lemma: Ctrl+Enter acts
    exactly as a submit.
  \<^item> \<open>Server\<close>: the Express application of \<open>server.js\<close> (part_001 lines 426-522):
    \<open>server_handle\<close> routes a request (case-insensitive paths, optional trailing slash, the
    JSON body parser's 500) to \<open>/health\<close>, \<open>/status\<close>, the pump's control endpoints or
    the 404 handler; \<open>server_fetch\<close> is the response as the browser's \<open>fetch\<close> sees it.
    The process around it: \<open>server_start\<close> (the monitor and the ledger file created when
    the module loads), \<open>server_boot\<close> (the listen callback's \<open>monitor.start()\<close>) and
    \<open>server_shutdown\<close> (the SIGINT/SIGTERM handlers). Lemmas: after a graceful shutdown a
    new process resumes at the next block; an unwritable ledger does not stop the start-up,
    and every request is then refused.
  \<^item> This theory: the properties that span components. C17: the API client of \<open>api.js\<close>
    and the server share no endpoint, so every call of the real client fails with 404;
    C40: the administrator's sponsors cannot use e-mail delivery.

  \<^bold>\<open>Modelling choices.\<close> Machine integers: the random bytes are \<open>8 word\<close>; token counts,
  HBD amounts and block heights are \<open>int\<close> (JavaScript numbers far below \<open>2^53\<close>, where
  they are exact). \<open>JSON.parse\<close> of the operation payload is abstracted to the parsed
  value or \<open>None\<close>. Cryptography (key derivation, memo encryption) is an oracle of the
  environment; only the properties the code relies on (injectivity of \<open>fromSeed\<close>, the
  ciphertext the leak check inspects) are used. The pump's \<open>while\<close> loop never ends while
  \<open>isRunning\<close> holds; it is modelled by its events, one iteration per \<open>getBlock\<close> answer,
  so no fuel is needed; \<open>pump_run\<close>, \<open>process_ops\<close> and \<open>quota_run\<close> recurse on lists.
  The two retry loops of the front end (\<open>pollRequestStatus\<close>, the Keychain detection) are
  \<open>function\<close>s with a measure on their counters; the answers they receive are functions
  of the attempt number.
  Browser timers are explicit: keystrokes and timer expiries are times in milliseconds, a
  timer due at the time of a keystroke runs first, and answers of the node arrive after a
  latency given per request; events at equal times run in the order they were issued.
  The keychain.js page's actions (\<open>kc_app_step\<close>) are atomic: the extension's answer to
  a broadcast is part of the submit action.
  \<open>processBlock\<close> is one pump event: its interleavings with \<open>stop\<close> have the effect of
  a \<open>stop\<close> just before or after it.

  \<^bold>\<open>Not modelled.\<close> The WHATWG URL parser behind \<open>validateUrl\<close> (a parameter); the
  console output of the server's start-up and of the scripts, including the reports that
  only print (\<open>printUsage\<close> and \<open>formatUser\<close> of \<open>admin.js\<close>, the monitor's
  \<open>displayRequestFound\<close>, the ACT checker's balances); the CORS middleware; the
  styling of the front end (icons, colours, scrolling, the status banner's HTML),
  \<open>updateDeliveryMethodInfo\<close> (it only logs); the default
  request headers and the \<open>AbortController\<close> timer, which appear only as the aborted
  outcome of a request; the documentation (part_002, part_003, README, PROJECT_STATUS,
  PROJECT_PLAN), which is prose.
\<close>

lemma authorized_get_user:
  "check_authorization f u = Authorized usr \<Longrightarrow> get_user f u = Some usr"
  by (auto simp: check_authorization_def get_user_def split: option.splits if_splits)

lemma process_request_fulfilled:
  assumes "fst (process_account_request env rq s) = Fulfilled ok"
  shows "\<exists>usr c ad. check_authorization (users s) (rq_requester rq) = Authorized usr
     \<and> delivered (fst (deliver (denv env) c (rq_method rq) (email usr) (rq_requester rq) ad))"
  using assms
  by (auto simp: process_account_request_def Let_def
      split: auth_result.splits prod.splits create_result.splits if_splits) (metis fst_conv)

lemma email_needs_address:
  assumes "delivered (fst (deliver env c (JStr ''email'') None r ad))"
  shows False
proof -
  obtain e effs where e: "deliver_email env (JStr ''email'') None ad = (e, effs)" by fastforce
  with deliver_email_ok [of env "JStr ''email''" None ad effs] have "e \<noteq> ChanOk" by auto
  moreover have "fst (deliver_memo env c (JStr ''email'') r ad) = ChanFail NotRequested"
    by (rule deliver_memo_requested) simp
  ultimately show False using assms e by (simp add: deliver_split overall_success_def)
qed

text \<open>C40: the administrator and the pipeline do not fit together for e-mail delivery.
  A sponsor created by \<open>node admin.js add-user\<close> has no e-mail address and the command
  line cannot set one, so every request of that sponsor with delivery method
  \<open>email\<close> ends rejected, failed or stranded, never fulfilled.\<close>

theorem admin_sponsor_email_never_fulfilled:
  assumes "get_user f u = None" and "users s = snd (admin_main now w (''add-user'' # u # rest) f)"
    and "rq_requester rq = u" and "rq_method rq = JStr ''email''"
  shows "fst (process_account_request env rq s) \<noteq> Fulfilled ok"
proof
  assume "fst (process_account_request env rq s) = Fulfilled ok"
  from process_request_fulfilled [OF this] obtain usr c ad where
    auth: "check_authorization (users s) u = Authorized usr" and
    del: "delivered (fst (deliver (denv env) c (JStr ''email'') (email usr) u ad))"
    using assms(3,4) by auto
  from authorized_get_user [OF auth] admin_add_user_email [OF assms(1), of now w rest] assms(2)
  have "email usr = None" by auto
  with del email_needs_address show False by simp
qed

theorem admin_sponsor_email_never_fulfilled_witness:
  "fst (process_account_request scen_env ((scen_request ''newuser9'' ''email'')\<lparr>rq_requester := ''bob''\<rparr>)
      ((scen_state scen_user)\<lparr>users := snd (admin_main 100 Written [''add-user'', ''bob''] (Holds (scen_db scen_user)))\<rparr>))
     \<noteq> Fulfilled True"
  by (rule admin_sponsor_email_never_fulfilled [where f = "Holds (scen_db scen_user)" and u = "''bob''"
      and now = 100 and w = Written and rest = "[]"])
    (simp_all add: get_user_def load_data_def scen_db_def scen_request_def)

text \<open>C17: the browser's API client and the backend's HTTP server share no endpoint. With
  the client's base URL pointing at the backend, creating an account, reading a request's
  status, the health check and the authorization check all get the server's 404 and
  reject with \<open>HTTP error! status: 404\<close>; \<open>checkHealth\<close> reports the backend unhealthy,
  \<open>pollRequestStatus\<close> ends in \<open>Unable to check request status\<close>, and none of these
  requests changes the monitor.\<close>

theorem api_client_backend_mismatch:
  "make_request (fst (server_fetch env HttpPost (create_account_ep (config (new_api_client h))) True st))
     = Inl (ErrorMsg ''HTTP error! status: 404'')
   \<and> make_request (fst (server_fetch env HttpGet (check_status_ep (config (new_api_client h)) @ ''/'' @ rid) True st))
     = Inl (ErrorMsg ''HTTP error! status: 404'')
   \<and> make_request (fst (server_fetch env HttpGet (''/api/check-authorization/'' @ u) True st))
     = Inl (ErrorMsg ''HTTP error! status: 404'')
   \<and> check_health (make_request (fst (server_fetch env HttpGet (health_check_ep (config (new_api_client h))) True st)))
     = JObj [(''healthy'', JBool False), (''error'', JStr ''HTTP error! status: 404''),
             (''suggestion'', JStr ''The backend service may be temporarily unavailable. Please try again later.'')]
   \<and> fst (poll_request_status
          (\<lambda>k. make_request (fst (server_fetch env HttpGet (check_status_ep (config (new_api_client h)) @ ''/'' @ rid) True st))) n)
     = Inl poll_unable
   \<and> snd (server_fetch env meth (''/api/'' @ p) True st) = st"
proof -
  let ?cfg = "config (new_api_client h)"
  have r1: "make_request (fst (server_fetch env HttpPost (create_account_ep ?cfg) True st))
      = Inl (ErrorMsg ''HTTP error! status: 404'')"
    using server_fetch_api_404 [of env HttpPost "''create-account''" st]
    by (simp add: new_api_client_def make_request_def obj_member_def int_string_def char_of_def bit_simps)
  have r2: "make_request (fst (server_fetch env HttpGet (check_status_ep ?cfg @ ''/'' @ rid) True st))
      = Inl (ErrorMsg ''HTTP error! status: 404'')"
    using server_fetch_api_404 [of env HttpGet "''status/'' @ rid" st]
    by (simp add: new_api_client_def make_request_def obj_member_def int_string_def char_of_def bit_simps)
  have r3: "make_request (fst (server_fetch env HttpGet (''/api/check-authorization/'' @ u) True st))
      = Inl (ErrorMsg ''HTTP error! status: 404'')"
    using server_fetch_api_404 [of env HttpGet "''check-authorization/'' @ u" st]
    by (simp add: make_request_def obj_member_def int_string_def char_of_def bit_simps)
  have r4: "make_request (fst (server_fetch env HttpGet (health_check_ep ?cfg) True st))
      = Inl (ErrorMsg ''HTTP error! status: 404'')"
    using server_fetch_api_404 [of env HttpGet "''health''" st]
    by (simp add: new_api_client_def make_request_def obj_member_def int_string_def char_of_def bit_simps)
  have p: "fst (poll_request_status (\<lambda>k. make_request (fst (server_fetch env HttpGet (check_status_ep ?cfg @ ''/'' @ rid) True st))) n)
      = Inl poll_unable"
    unfolding poll_request_status_def by (rule poll_status_all_fail) (use r2 in blast)
  from r1 r2 r3 r4 p server_fetch_api_404 [of env meth p st] show ?thesis
    by (simp add: check_health_def)
qed

end
